(* ===== verification/Prelude.thy ===== *)
theory Prelude
  imports Main "HOL-Library.While_Combinator"
begin

text \<open>
  Shared vocabulary of the development: the error type of the model, the fragment of the
  ECMAScript runtime that \<^verbatim>\<open>src/app.js\<close> calls (decimal printing of numbers, reading a
  \<^verbatim>\<open>data-index\<close> string back as an integer, \<^verbatim>\<open>Array.prototype.splice\<close> with a delete
  count of one, \<^verbatim>\<open>Array.prototype.indexOf\<close>, element assignment on an array) and the list lemmas the components share.
  None of these is code of the repository: they are the built-ins the code calls, written
  from the ECMAScript 2015 specification for the inputs the program can give them.
\<close>

named_theorems js_simps \<open>evaluation rules of the modelled JavaScript built-ins\<close>

section \<open>Errors\<close>

text \<open>
  \<open>Test_failed msg\<close> is the \<^verbatim>\<open>Error(message)\<close> that \<^verbatim>\<open>test.ok\<close> throws;
  \<open>Type_error\<close> is the \<^verbatim>\<open>TypeError\<close> of reading a property of \<^verbatim>\<open>undefined\<close>
  (\<^verbatim>\<open>$('#text')[0].value\<close> when the document has no element with that id);
  \<open>Array_holes\<close> is the one branch of the JavaScript semantics the model does not
  represent (an element assignment past the end of an array, which leaves holes);
  \<open>No_target\<close> is a browser event whose target element does not exist or cannot take
  the event (a click on a row that is not rendered, typing into a label that is not
  editable).
\<close>

datatype error = Test_failed string | Type_error | Array_holes | No_target

abbreviation apos :: char where
  "apos \<equiv> CHR 0x27"

section \<open>Numbers printed in decimal\<close>

text \<open>
  \<open>Number.prototype.toString\<close> on a non-negative integer, which is what the template's
  \<^verbatim>\<open>${index}\<close> and \<^verbatim>\<open>${data.todos.length}\<close> produce: the shortest decimal numeral.
\<close>

definition digit_char :: "nat \<Rightarrow> char" where
  "digit_char d = char_of (48 + d)"

fun show_nat :: "nat \<Rightarrow> string" where
  "show_nat n = (if n < 10 then [digit_char n] else show_nat (n div 10) @ [digit_char (n mod 10)])"

declare show_nat.simps [simp del]

definition is_digit :: "char \<Rightarrow> bool" where
  "is_digit c \<longleftrightarrow> (48::nat) \<le> of_char c \<and> of_char c < (58::nat)"

definition digit_value :: "char \<Rightarrow> nat" where
  "digit_value c = of_char c - (48::nat)"

text \<open>The decimal value of a string of digits, read left to right.\<close>

definition digits_value :: "string \<Rightarrow> nat" where
  "digits_value s = foldl (\<lambda>acc c. 10 * acc + digit_value c) 0 s"

text \<open>
  \<open>ToIntegerOrInfinity (ToNumber s)\<close> for the strings the program passes: a string of
  decimal digits reads as its value, the empty string as 0. Any other string is sent to 0,
  the value of \<open>NaN\<close>; this is exact for strings that are not numerals, and inexact for
  signed, fractional or space-padded numerals, which no \<^verbatim>\<open>data-index\<close> attribute of the
  rendered markup contains (they are printed by \<open>show_nat\<close>).
\<close>

definition js_to_integer :: "string \<Rightarrow> int" where
  "js_to_integer s = (if list_all is_digit s then int (digits_value s) else 0)"

text \<open>
  A property key is an array index when it is the canonical numeral of a number
  (\<open>CanonicalNumericIndexString\<close>); \<open>''01''\<close> and \<open>''''\<close> are ordinary property names.
  (The bound \<open>2^32 - 1\<close> on array indices is not modelled: lists here are short.)
\<close>

definition array_index :: "string \<Rightarrow> nat option" where
  "array_index s = (if list_all is_digit s \<and> s = show_nat (digits_value s)
                    then Some (digits_value s) else None)"

section \<open>Array operations\<close>

text \<open>
  \<open>arr.splice(start, 1)\<close> (ECMAScript 2015, 22.1.3.25): a negative start counts from the
  end, a start past the end deletes nothing; the array is changed in place, so the model
  returns the new contents.
\<close>

definition js_splice1 :: "int \<Rightarrow> 'a list \<Rightarrow> 'a list" where
  "js_splice1 start xs =
     (let len = int (length xs);
          k = (if start < 0 then max (len + start) 0 else min start len)
      in take (nat k) xs @ drop (nat k + 1) xs)"

text \<open>
  \<open>arr[key] = v\<close> with a string key: an array index inside the array updates that element,
  the index equal to the length appends \<open>v\<close>, an index further out would extend the array
  with holes (\<open>Array_holes\<close>); any other key creates an ordinary property and leaves the
  elements unchanged.
\<close>

definition js_array_set :: "'a list \<Rightarrow> string \<Rightarrow> 'a \<Rightarrow> error + 'a list" where
  "js_array_set xs key v =
     (case array_index key of
        None \<Rightarrow> Inr xs
      | Some k \<Rightarrow> (if k < length xs then Inr (xs[k := v])
                  else if k = length xs then Inr (xs @ [v]) else Inl Array_holes))"

text \<open>
  \<^verbatim>\<open>Array.prototype.indexOf(x)\<close> (ECMAScript 2015, 22.1.3.11) without a start index: a
  loop over \<open>k\<close> from 0 that stops at the first element strictly equal to \<open>x\<close> or at
  the length; the result is \<open>k\<close> if it stopped on an element and \<open>-1\<close> otherwise. The
  loop is kept as a loop (\<open>while_option\<close>); \<open>indexOf_loop_terminates\<close> shows it
  always stops.
\<close>

definition indexOf_loop :: "'a list \<Rightarrow> 'a \<Rightarrow> nat option" where
  "indexOf_loop xs x = while_option (\<lambda>k. k < length xs \<and> xs ! k \<noteq> x) Suc 0"

definition js_indexOf :: "'a list \<Rightarrow> 'a \<Rightarrow> int" where
  "js_indexOf xs x = (let k = the (indexOf_loop xs x) in if k < length xs then int k else -1)"

section \<open>Lemmas on the built-ins\<close>

lemma digit_char_is_digit [simp]: "d < 10 \<Longrightarrow> is_digit (digit_char d)"
  by (simp add: digit_char_def is_digit_def)

lemma digit_value_digit_char [simp]: "d < 10 \<Longrightarrow> digit_value (digit_char d) = d"
  by (simp add: digit_char_def digit_value_def)

lemma digits_value_snoc [simp]:
  "digits_value (xs @ [c]) = 10 * digits_value xs + digit_value c"
  by (simp add: digits_value_def)

lemma digit_char_eval [simp]:
  "digit_char 0 = CHR ''0''" "digit_char (Suc 0) = CHR ''1''" "digit_char 1 = CHR ''1''"
  "digit_char 2 = CHR ''2''" "digit_char 3 = CHR ''3''" "digit_char 4 = CHR ''4''"
  "digit_char 5 = CHR ''5''" "digit_char 6 = CHR ''6''" "digit_char 7 = CHR ''7''"
  "digit_char 8 = CHR ''8''" "digit_char 9 = CHR ''9''"
  by code_simp+

text \<open>Evaluation of \<open>show_nat\<close> on constants, for the witnesses.\<close>

lemma show_nat_0 [simp]: "show_nat 0 = ''0''"
  by (subst show_nat.simps) simp

lemma show_nat_Suc_0 [simp]: "show_nat (Suc 0) = ''1''"
  by (subst show_nat.simps) simp

lemma show_nat_numeral [simp]:
  "show_nat (numeral k) =
     (if numeral k < (10::nat) then [digit_char (numeral k)]
      else show_nat (numeral k div 10) @ [digit_char (numeral k mod 10)])"
  by (rule show_nat.simps)

lemma show_nat_not_Nil [simp]: "show_nat n \<noteq> []"
  by (subst show_nat.simps) simp

lemma show_nat_digits [simp]: "list_all is_digit (show_nat n)"
proof (induction n rule: show_nat.induct)
  case (1 n)
  then show ?case by (subst show_nat.simps) simp
qed

text \<open>Reading a printed number gives it back.\<close>

lemma digits_value_show_nat [simp]: "digits_value (show_nat n) = n"
proof (induction n rule: show_nat.induct)
  case (1 n)
  show ?case
  proof (cases "n < 10")
    case True
    then show ?thesis by (subst show_nat.simps) (simp add: digits_value_def)
  next
    case False
    with "1.IH" show ?thesis by (subst show_nat.simps) simp
  qed
qed

lemma show_nat_inj [simp]: "show_nat m = show_nat n \<longleftrightarrow> m = n"
  by (metis digits_value_show_nat)

lemma array_index_show_nat [simp, js_simps]: "array_index (show_nat n) = Some n"
  by (simp add: array_index_def)

lemma js_to_integer_show_nat [simp, js_simps]: "js_to_integer (show_nat n) = int n"
  by (simp add: js_to_integer_def)

lemma js_to_integer_digit [simp, js_simps]:
  "js_to_integer ''0'' = 0" "js_to_integer ''1'' = 1" "js_to_integer ''2'' = 2"
  using js_to_integer_show_nat [of 0] js_to_integer_show_nat [of 1] js_to_integer_show_nat [of 2]
  by simp_all

lemma js_splice1_nat [simp, js_simps]:
  "js_splice1 (int k) xs = take k xs @ drop (Suc k) xs"
proof (cases "k \<le> length xs")
  case True
  then show ?thesis by (simp add: js_splice1_def min_def)
next
  case False
  then show ?thesis by (simp add: js_splice1_def min_def)
qed

lemma js_splice1_zero [simp, js_simps]: "js_splice1 0 xs = drop 1 xs"
  using js_splice1_nat [of 0 xs] by simp

lemma set_js_splice1: "set (js_splice1 start xs) \<subseteq> set xs"
  by (auto simp: js_splice1_def Let_def dest: in_set_takeD in_set_dropD)

lemma list_all_js_splice1 [intro]: "list_all P xs \<Longrightarrow> list_all P (js_splice1 start xs)"
  using set_js_splice1 [of start xs] by (auto simp: list_all_iff)

lemma length_js_splice1_nat:
  "k < length xs \<Longrightarrow> length (js_splice1 (int k) xs) = length xs - 1"
  by simp

lemma length_js_splice1_bounds:
  "length xs - 1 \<le> length (js_splice1 start xs) \<and> length (js_splice1 start xs) \<le> length xs"
proof -
  have "\<And>k. length xs - 1 \<le> length (take k xs @ drop (k + 1) xs) \<and> length (take k xs @ drop (k + 1) xs) \<le> length xs"
    by (simp add: min_def)
  then show ?thesis unfolding js_splice1_def Let_def by blast
qed

lemma length_js_array_set:
  "js_array_set xs key v = Inr ys \<Longrightarrow> length xs \<le> length ys \<and> length ys \<le> Suc (length xs)"
  by (auto simp: js_array_set_def split: option.splits if_splits)

lemma js_array_set_index [js_simps]:
  "k < length xs \<Longrightarrow> js_array_set xs (show_nat k) v = Inr (xs[k := v])"
  by (simp add: js_array_set_def)

lemma js_array_set_append [js_simps]:
  "js_array_set xs (show_nat (length xs)) v = Inr (xs @ [v])"
  by (simp add: js_array_set_def)

lemma js_array_set_beyond [js_simps]:
  "length xs < k \<Longrightarrow> js_array_set xs (show_nat k) v = Inl Array_holes"
  by (simp add: js_array_set_def)

text \<open>The loop from any start \<open>k\<close> stops after the elements different from \<open>x\<close>.\<close>

lemma indexOf_loop_from:
  "k \<le> length xs \<Longrightarrow>
   while_option (\<lambda>k. k < length xs \<and> xs ! k \<noteq> x) Suc k = Some (k + length (takeWhile (\<lambda>y. y \<noteq> x) (drop k xs)))"
proof (induction "length xs - k" arbitrary: k)
  case 0
  then show ?case by (simp add: while_option_unfold [of _ _ k])
next
  case (Suc d)
  then have k: "k < length xs" by simp
  show ?case
  proof (cases "xs ! k = x")
    case True
    with k show ?thesis by (simp add: while_option_unfold [of _ _ k] Cons_nth_drop_Suc [symmetric])
  next
    case False
    have "while_option (\<lambda>k. k < length xs \<and> xs ! k \<noteq> x) Suc (Suc k) =
          Some (Suc k + length (takeWhile (\<lambda>y. y \<noteq> x) (drop (Suc k) xs)))"
      using Suc.hyps(1) [of "Suc k"] Suc.hyps(2) k by simp
    with k False show ?thesis by (simp add: while_option_unfold [of _ _ k] Cons_nth_drop_Suc [symmetric])
  qed
qed

lemma indexOf_loop_eq: "indexOf_loop xs x = Some (length (takeWhile (\<lambda>y. y \<noteq> x) xs))"
  using indexOf_loop_from [of 0 xs x] by (simp add: indexOf_loop_def)

lemma length_takeWhile_neq: "length (takeWhile (\<lambda>y. y \<noteq> x) xs) < length xs \<longleftrightarrow> x \<in> set xs"
  by (induction xs) auto

lemma js_indexOf_found [simp, js_simps]: "js_indexOf xs x \<noteq> -1 \<longleftrightarrow> x \<in> set xs"
  by (simp add: js_indexOf_def indexOf_loop_eq length_takeWhile_neq)

text \<open>
  The loop of \<^verbatim>\<open>indexOf\<close> stops on every array and every value, after at most as
  many steps as the array has elements, by the measure \<open>length xs - k\<close>.
\<close>

lemma indexOf_loop_terminates: "\<exists>k \<le> length xs. indexOf_loop xs x = Some k"
proof -
  have "\<exists>k. while_option (\<lambda>k. k < length xs \<and> xs ! k \<noteq> x) Suc 0 = Some k"
    by (rule measure_while_option_Some [where P = "\<lambda>k. k \<le> length xs" and f = "\<lambda>k. length xs - k"]) auto
  then obtain k where k: "indexOf_loop xs x = Some k" by (auto simp: indexOf_loop_def)
  have "k \<le> length xs"
    using while_option_rule [where P = "\<lambda>k. k \<le> length xs", OF _ k [unfolded indexOf_loop_def]] by auto
  with k show ?thesis by blast
qed

section \<open>Lists\<close>

lemma concat_split_nth:
  "i < length xs \<Longrightarrow> concat xs = concat (take i xs) @ xs ! i @ concat (drop (Suc i) xs)"
  by (metis concat_append concat.simps(2) id_take_nth_drop)

lemma infix_concat_nth:
  assumes "i < length xs" and "xs ! i = a @ x @ b"
  shows "\<exists>pre post. concat xs = pre @ x @ post"
proof -
  have "concat xs = concat (take i xs) @ xs ! i @ concat (drop (Suc i) xs)"
    using assms(1) by (rule concat_split_nth)
  then have "concat xs = (concat (take i xs) @ a) @ x @ (b @ concat (drop (Suc i) xs))"
    using assms(2) by simp
  then show ?thesis by blast
qed

lemma infix_append_mid:
  assumes "ys = u @ zs @ v" and "\<exists>pre post. zs = pre @ x @ post"
  shows "\<exists>pre post. ys = pre @ x @ post"
proof -
  from assms(2) obtain pre post where "zs = pre @ x @ post" by blast
  with assms(1) have "ys = (u @ pre) @ x @ (post @ v)" by simp
  then show ?thesis by blast
qed

lemma map_list_update_same:
  assumes "\<And>x. g (f x) = g x"
  shows "map g (xs[i := f (xs ! i)]) = map g xs"
proof (cases "i < length xs")
  case True
  with assms show ?thesis by (metis list_update_id map_update)
next
  case False
  then show ?thesis by (simp add: list_update_beyond)
qed

lemma in_set_list_update:
  "y \<in> set (xs[i := x]) \<Longrightarrow> y \<in> set xs \<or> (i < length xs \<and> y = x)"
  by (cases "i < length xs") (auto simp: list_update_beyond dest: set_update_subset_insert [THEN subsetD])

end
