(* ===== verification/Test_Lib.thy ===== *)
theory Test_Lib
  imports Prelude
begin

text \<open>
  The inline unit-test library of \<^verbatim>\<open>src/app.js\<close> (the object \<^verbatim>\<open>test\<close>, lines 59--64).
  A passed check writes its message to the console; a failed one throws
  \<^verbatim>\<open>new Error(message)\<close>. The console is the list of logged messages, oldest first, and
  the exception is the error value \<open>Test_failed message\<close>. JavaScript's \<^verbatim>\<open>===\<close> and
  \<^verbatim>\<open>!==\<close> on two strings or two numbers are equality and its negation.
\<close>

type_synonym console = "string list"

definition test_ok :: "bool \<Rightarrow> string \<Rightarrow> console \<Rightarrow> error + console" where
  "test_ok value message con =
     (if value then Inr (con @ [message]) else Inl (Test_failed message))"

definition test_equal :: "'a \<Rightarrow> 'a \<Rightarrow> string \<Rightarrow> console \<Rightarrow> error + console" where
  "test_equal actual expected message = test_ok (actual = expected) message"

definition test_notEqual :: "'a \<Rightarrow> 'a \<Rightarrow> string \<Rightarrow> console \<Rightarrow> error + console" where
  "test_notEqual actual expected message = test_ok (actual \<noteq> expected) message"

lemma test_equal_Inr [simp]:
  "test_equal a a message con = Inr (con @ [message])"
  by (simp add: test_equal_def test_ok_def)

lemma test_equal_Inl [simp]:
  "a \<noteq> b \<Longrightarrow> test_equal a b message con = Inl (Test_failed message)"
  by (simp add: test_equal_def test_ok_def)

lemma test_notEqual_eq:
  "test_notEqual a b message con =
     (if a \<noteq> b then Inr (con @ [message]) else Inl (Test_failed message))"
  by (simp add: test_notEqual_def test_ok_def)

end
