(* ===== verification/Template.thy ===== *)
theory Template
  imports Test_Lib
begin

text \<open>
  The template engine of \<^verbatim>\<open>src/app.js\<close> (\<^verbatim>\<open>e.html\<close>, lines 35--49, and its self-test
  \<^verbatim>\<open>e.test\<close>, lines 51--55). \<^verbatim>\<open>e.html\<close> is the tag function of a tagged template
  literal: it receives the literal pieces \<^verbatim>\<open>strings\<close> and the interpolated values
  \<^verbatim>\<open>vals\<close>, and concatenates, for each value, the piece before it and the value's string
  form, an array being joined with no separator; the last piece ends the result.
  The values the program interpolates are strings, numbers and arrays of strings; the
  JavaScript values are the datatype \<open>jsval\<close>, with \<^verbatim>\<open>undefined\<close> for the out-of-range
  reads the code can make.
\<close>

datatype jsval = JStr string | JNum nat | JArr "jsval list" | JUndef

text \<open>
  \<open>ToString\<close> of a value, and \<^verbatim>\<open>Array.prototype.join(sep)\<close>: \<^verbatim>\<open>undefined\<close>
  elements join as the empty string, nested arrays as their \<^verbatim>\<open>','\<close>-joined form.
\<close>

fun js_to_string :: "jsval \<Rightarrow> string"
  and js_join :: "string \<Rightarrow> jsval list \<Rightarrow> string"
  and js_join_elem :: "jsval \<Rightarrow> string" where
  "js_to_string (JStr s) = s"
| "js_to_string (JNum n) = show_nat n"
| "js_to_string (JArr vs) = js_join '','' vs"
| "js_to_string JUndef = ''undefined''"
| "js_join sep [] = []"
| "js_join sep [v] = js_join_elem v"
| "js_join sep (v # w # vs) = js_join_elem v @ sep @ js_join sep (w # vs)"
| "js_join_elem JUndef = []"
| "js_join_elem (JStr s) = s"
| "js_join_elem (JNum n) = show_nat n"
| "js_join_elem (JArr vs) = js_join '','' vs"

text \<open>The interpolated form of one value: \<^verbatim>\<open>Array.isArray(v) ? v.join('') : v\<close>.\<close>

fun template_value :: "jsval \<Rightarrow> string" where
  "template_value (JArr vs) = js_join [] vs"
| "template_value v = js_to_string v"

text \<open>
  Reads of \<^verbatim>\<open>strings[i]\<close> and \<^verbatim>\<open>strings.slice(-1)[0]\<close>: out of range they are
  \<^verbatim>\<open>undefined\<close>, which string concatenation turns into \<^verbatim>\<open>'undefined'\<close>.
\<close>

definition js_index_str :: "string list \<Rightarrow> nat \<Rightarrow> string" where
  "js_index_str xs i = (if i < length xs then xs ! i else ''undefined'')"

definition js_last_str :: "string list \<Rightarrow> string" where
  "js_last_str xs = (if xs = [] then ''undefined'' else last xs)"

text \<open>
  \<^verbatim>\<open>vals.map((v, i) => strings[i] + (Array.isArray(v) ? v.join('') : v)).join('')
     + strings.slice(-1)[0]\<close>
\<close>

definition e_html :: "string list \<Rightarrow> jsval list \<Rightarrow> string" where
  "e_html strings vals =
     concat (map (\<lambda>(i, v). js_index_str strings i @ template_value v) (enumerate 0 vals))
     @ js_last_str strings"

text \<open>
  \<^verbatim>\<open>e.test\<close>: \<^verbatim>\<open>e.html`<div>${message}</div>`\<close> must equal
  \<^verbatim>\<open>'<div>' + message + '</div>'\<close> for \<^verbatim>\<open>message = 'Hello, world!'\<close>.
\<close>

definition e_test :: "console \<Rightarrow> error + console" where
  "e_test con =
     (let message = ''Hello, world!''
      in test_equal (e_html [''<div>'', ''</div>''] [JStr message]) (''<div>'' @ message @ ''</div>'')
           ''it outputs \"Hello, world!\"'' con)"

text \<open>
  The version of \<^verbatim>\<open>e.html\<close> kept in a comment (lines 42--47), written with an
  array comprehension that pairs every entry of \<^verbatim>\<open>strings\<close> with the entry of
  \<^verbatim>\<open>vals\<close> at the same index: \<^verbatim>\<open>[for (s of strings.entries()) for (v of
  vals.entries()) if (s[0] === v[0]) s[1] + ...].join('') + strings.slice(-1)[0]\<close>.
\<close>

definition e_html_comprehension :: "string list \<Rightarrow> jsval list \<Rightarrow> string" where
  "e_html_comprehension strings vals =
     concat [s @ template_value v. (i, s) \<leftarrow> enumerate 0 strings, (j, v) \<leftarrow> enumerate 0 vals, i = j]
     @ js_last_str strings"

subsection \<open>Reference semantics\<close>

text \<open>
  What a template literal means, written by the shape of the literal rather than by
  index: the first piece, then each value followed by the piece after it. A call of a
  tag function always passes one more piece than values, which this shape builds in.
\<close>

fun template_concat :: "string \<Rightarrow> (jsval \<times> string) list \<Rightarrow> string" where
  "template_concat s0 [] = s0"
| "template_concat s0 ((v, s) # rest) = s0 @ template_value v @ template_concat s rest"

subsection \<open>Properties of the engine\<close>

lemma map_enumerate_js_index_str:
  "length vals < length strings \<Longrightarrow>
   map (\<lambda>(i, v). js_index_str strings i @ f v) (enumerate 0 vals) =
   map2 (\<lambda>s v. s @ f v) strings vals"
  by (rule nth_equalityI) (auto simp: js_index_str_def nth_enumerate_eq)

lemma template_concat_map2:
  "concat (map2 (\<lambda>s v. s @ template_value v) (s0 # map snd ps) (map fst ps))
   @ last (s0 # map snd ps) = template_concat s0 ps"
proof (induction ps arbitrary: s0)
  case Nil
  then show ?case by simp
next
  case (Cons p ps)
  then show ?case by (cases p) simp
qed

text \<open>
  C4: \<open>e.html\<close>, which walks the values by index and reads the pieces at the same
  index, computes what the template literal means: each value interpolated between the
  pieces around it, arrays joined without separator.
\<close>

theorem e_html_template_concat:
  "e_html (s0 # map snd ps) (map fst ps) = template_concat s0 ps"
proof -
  have "length (map fst ps) < length (s0 # map snd ps)" by simp
  then show ?thesis
    by (simp add: e_html_def js_last_str_def map_enumerate_js_index_str template_concat_map2
             del: last.simps)
qed

text \<open>The evaluation rule used by the view: a template with its values.\<close>

lemma e_html_eval [simp]:
  "e_html (s0 # map snd ps) (map fst ps) = template_concat s0 ps"
  by (simp add: e_html_def js_last_str_def map_enumerate_js_index_str template_concat_map2
           del: last.simps)

lemma template_value_JStr [simp]: "template_value (JStr s) = s"
  by simp

lemma js_join_Nil_JStr [simp]: "js_join [] (map (\<lambda>x. JStr (f x)) xs) = concat (map f xs)"
proof (induction xs)
  case Nil
  then show ?case by simp
next
  case (Cons x xs)
  then show ?case by (cases xs) simp_all
qed

lemma js_join_Nil_JStr_prod [simp]:
  "js_join [] (map (\<lambda>(a, b). JStr (f a b)) xs) = concat (map (\<lambda>(a, b). f a b) xs)"
  using js_join_Nil_JStr [of "\<lambda>p. f (fst p) (snd p)" xs] by (simp add: case_prod_beta')

text \<open>
  C5: the property \<^verbatim>\<open>e.test\<close> checks, for every value and every pair of pieces:
  one interpolated string between two pieces is the concatenation of the three.
\<close>

theorem e_html_single:
  "e_html [a, b] [JStr x] = a @ x @ b"
proof -
  have "e_html (a # map snd [(JStr x, b)]) (map fst [(JStr x, b)]) = a @ x @ b"
    by (simp only: e_html_eval) simp
  then show ?thesis by simp
qed

text \<open>
  C29: an array interpolated into a template (as \<^verbatim>\<open>templateBody\<close> interpolates the list of
  rendered items) contributes its strings joined with no separator.
\<close>

theorem e_html_array: "e_html [a, b] [JArr (map JStr xs)] = a @ concat xs @ b"
proof -
  have "e_html (a # map snd [(JArr (map JStr xs), b)]) (map fst [(JArr (map JStr xs), b)]) = a @ concat xs @ b"
    by (simp only: e_html_eval) (simp add: js_join_Nil_JStr [of "\<lambda>x. x"])
  then show ?thesis by simp
qed

lemma e_test_passes:
  "e_test con = Inr (con @ [''it outputs \"Hello, world!\"''])"
  by (simp add: e_test_def e_html_def js_index_str_def js_last_str_def)

text \<open>
  A call that does not come from a template literal (fewer pieces than values plus one)
  reads past the end of \<^verbatim>\<open>strings\<close> and prints \<^verbatim>\<open>undefined\<close>.
\<close>

lemma e_html_missing_pieces: "e_html [] [JNum 1] = ''undefined1undefined''"
  by (simp add: e_html_def js_index_str_def js_last_str_def)

subsection \<open>The comprehension version\<close>

lemma comprehension_inner:
  "concat (map (\<lambda>(j, v). if i = j then [g v] else []) (enumerate n vs)) =
     (if n \<le> i \<and> i < n + length vs then [g (vs ! (i - n))] else [])"
proof (induction vs arbitrary: n)
  case Nil
  then show ?case by simp
next
  case (Cons v vs)
  then show ?case by (auto simp: nth_Cons' Suc_diff_le)
qed

lemma comprehension_inner_0:
  "concat (map (\<lambda>(j, v). if i = j then [g v] else []) (enumerate 0 vs)) =
     (if i < length vs then [g (vs ! i)] else [])"
  using comprehension_inner [of i g 0 vs] by simp

lemma comprehension_outer:
  "concat (map (\<lambda>(i, s). if i < k then [g i s] else []) (enumerate n ss)) =
     map (\<lambda>(i, s). g i s) (enumerate n (take (k - n) ss))"
proof (induction ss arbitrary: n)
  case Nil
  then show ?case by simp
next
  case (Cons s ss)
  then show ?case by (cases "n < k") (simp_all add: take_Cons' Suc_diff_Suc)
qed

text \<open>
  C22: the comprehension version kept in the comment computes what \<^verbatim>\<open>e.html\<close>
  computes on every call with more pieces than values, in particular on every call from a
  template literal.
\<close>

theorem e_html_comprehension_eq:
  assumes "length vals < length strings"
  shows "e_html_comprehension strings vals = e_html strings vals"
proof -
  have "[s @ template_value v. (i, s) \<leftarrow> enumerate 0 strings, (j, v) \<leftarrow> enumerate 0 vals, i = j] =
        concat (map (\<lambda>(i, s). if i < length vals then [s @ template_value (vals ! i)] else []) (enumerate 0 strings))"
    by (simp add: comprehension_inner_0 case_prod_beta)
  also have "\<dots> = map (\<lambda>(i, s). s @ template_value (vals ! i)) (enumerate 0 (take (length vals) strings))"
    by (simp add: comprehension_outer)
  also have "\<dots> = map (\<lambda>(i, v). js_index_str strings i @ template_value v) (enumerate 0 vals)"
    using assms by (intro nth_equalityI) (simp_all add: nth_enumerate_eq js_index_str_def)
  finally show ?thesis by (simp add: e_html_comprehension_def e_html_def)
qed

lemma e_html_comprehension_eq_witness:
  "length [JStr ''x''] < length [''<div>'', ''</div>''] \<and>
   e_html_comprehension [''<div>'', ''</div>''] [JStr ''x''] = ''<div>x</div>''"
  using e_html_comprehension_eq [of "[JStr ''x'']" "[''<div>'', ''</div>'']"]
  by (simp add: e_html_def js_index_str_def js_last_str_def)

text \<open>
  On a call with fewer pieces the two differ: the comprehension drops the values that
  have no piece at their index.
\<close>

lemma e_html_comprehension_differs:
  "e_html_comprehension [] [JNum 1] = ''undefined'' \<and> e_html [] [JNum 1] = ''undefined1undefined''"
  by (simp add: e_html_comprehension_def e_html_def js_index_str_def js_last_str_def)

end
