(* ===== verification/Html_Reading.thy ===== *)
theory Html_Reading
  imports Prelude
begin

text \<open>
  How the browser reads the markup that \<^verbatim>\<open>view.render\<close> writes into
  \<^verbatim>\<open>innerHTML\<close>. This is not code of the repository: it is the part of the HTML
  tokenizer (WHATWG HTML, section 13.2.5) that the template's markup and the strings
  interpolated into it can reach, written as a state machine over characters: text,
  start and end tags, attributes with single-quoted, double-quoted and unquoted values.
  At the end of the input a tag that is still open is dropped, as the standard says; a
  \<^verbatim>\<open><\<close> that starts no tag is text; \<^verbatim>\<open><!\<close>, \<^verbatim>\<open><?\<close> and \<^verbatim>\<open></\<close> followed by
  neither a letter nor \<^verbatim>\<open>>\<close> open a bogus comment that ends at the next \<^verbatim>\<open>>\<close>.
  Character references in text and attribute values are decoded (13.2.5.72--80) for the
  named references \<^verbatim>\<open>amp\<close>, \<^verbatim>\<open>lt\<close>, \<^verbatim>\<open>gt\<close>, \<^verbatim>\<open>quot\<close> (also without
  the semicolon and in capitals, as the standard's legacy table has them) and
  \<^verbatim>\<open>apos;\<close>, and for decimal and hexadecimal references to ASCII characters.
  Not modelled: the other named references and numeric references beyond ASCII (left as
  written: the model's characters are bytes), comments ending at \<^verbatim>\<open>-->\<close> rather than
  the first \<^verbatim>\<open>>\<close>, lower-casing of names, raw-text elements, and the tree builder, of
  which only the nesting of elements is checked (\<open>open_after\<close>). The queries of the handlers are
  read off the token list in \<open>Query\<close>.
\<close>

datatype token = Text string | Start_tag string "(string \<times> string) list" | End_tag string

datatype tstate =
    Data | Tag_open | End_tag_open | Tag_name | Before_attr_name | Attr_name | After_attr_name
  | Before_attr_value | Attr_value_sq | Attr_value_dq | Attr_value_unq | After_attr_value_q
  | Bogus_comment

record tcfg =
  st :: tstate
  out :: "token list"
  buf :: string
  tname :: string
  is_end :: bool
  attrs :: "(string \<times> string) list"
  aname :: string
  aval :: string

definition is_space :: "char \<Rightarrow> bool" where
  "is_space c \<longleftrightarrow> c \<in> set [CHR 0x20, CHR 0x09, CHR 0x0A, CHR 0x0C, CHR 0x0D]"

definition is_letter :: "char \<Rightarrow> bool" where
  "is_letter c \<longleftrightarrow> (65::nat) \<le> of_char c \<and> of_char c \<le> (90::nat) \<or> (97::nat) \<le> of_char c \<and> of_char c \<le> (122::nat)"

definition flush_text :: "tcfg \<Rightarrow> tcfg" where
  "flush_text c = (if buf c = [] then c else c\<lparr>out := out c @ [Text (buf c)], buf := []\<rparr>)"

definition commit_attr :: "tcfg \<Rightarrow> tcfg" where
  "commit_attr c = c\<lparr>attrs := attrs c @ [(aname c, aval c)], aname := [], aval := []\<rparr>"

definition emit_tag :: "tcfg \<Rightarrow> tcfg" where
  "emit_tag c =
     c\<lparr>st := Data,
       out := out c @ [if is_end c then End_tag (tname c) else Start_tag (tname c) (attrs c)],
       tname := [], is_end := False, attrs := []\<rparr>"

definition tstep :: "tcfg \<Rightarrow> char \<Rightarrow> tcfg" where
  "tstep c ch =
    (case st c of
       Data \<Rightarrow> (if ch = CHR ''<'' then (flush_text c)\<lparr>st := Tag_open\<rparr> else c\<lparr>buf := buf c @ [ch]\<rparr>)
     | Tag_open \<Rightarrow>
         (if ch = CHR ''/'' then c\<lparr>st := End_tag_open\<rparr>
          else if is_letter ch then c\<lparr>st := Tag_name, tname := [ch], is_end := False, attrs := []\<rparr>
          else if ch = CHR ''!'' \<or> ch = CHR ''?'' then c\<lparr>st := Bogus_comment\<rparr>
          else if ch = CHR ''<'' then c\<lparr>out := out c @ [Text [CHR ''<'']]\<rparr>
          else c\<lparr>st := Data, buf := [CHR ''<'', ch]\<rparr>)
     | End_tag_open \<Rightarrow>
         (if is_letter ch then c\<lparr>st := Tag_name, tname := [ch], is_end := True, attrs := []\<rparr>
          else if ch = CHR ''>'' then c\<lparr>st := Data\<rparr>
          else c\<lparr>st := Bogus_comment\<rparr>)
     | Tag_name \<Rightarrow>
         (if is_space ch \<or> ch = CHR ''/'' then c\<lparr>st := Before_attr_name\<rparr>
          else if ch = CHR ''>'' then emit_tag c
          else c\<lparr>tname := tname c @ [ch]\<rparr>)
     | Before_attr_name \<Rightarrow>
         (if is_space ch \<or> ch = CHR ''/'' then c
          else if ch = CHR ''>'' then emit_tag c
          else c\<lparr>st := Attr_name, aname := [ch], aval := []\<rparr>)
     | Attr_name \<Rightarrow>
         (if is_space ch then c\<lparr>st := After_attr_name\<rparr>
          else if ch = CHR ''='' then c\<lparr>st := Before_attr_value\<rparr>
          else if ch = CHR ''>'' then emit_tag (commit_attr c)
          else if ch = CHR ''/'' then (commit_attr c)\<lparr>st := Before_attr_name\<rparr>
          else c\<lparr>aname := aname c @ [ch]\<rparr>)
     | After_attr_name \<Rightarrow>
         (if is_space ch then c
          else if ch = CHR ''='' then c\<lparr>st := Before_attr_value\<rparr>
          else if ch = CHR ''>'' then emit_tag (commit_attr c)
          else if ch = CHR ''/'' then (commit_attr c)\<lparr>st := Before_attr_name\<rparr>
          else (commit_attr c)\<lparr>st := Attr_name, aname := [ch]\<rparr>)
     | Before_attr_value \<Rightarrow>
         (if is_space ch then c
          else if ch = apos then c\<lparr>st := Attr_value_sq\<rparr>
          else if ch = CHR 0x22 then c\<lparr>st := Attr_value_dq\<rparr>
          else if ch = CHR ''>'' then emit_tag (commit_attr c)
          else c\<lparr>st := Attr_value_unq, aval := [ch]\<rparr>)
     | Attr_value_sq \<Rightarrow>
         (if ch = apos then (commit_attr c)\<lparr>st := After_attr_value_q\<rparr> else c\<lparr>aval := aval c @ [ch]\<rparr>)
     | Attr_value_dq \<Rightarrow>
         (if ch = CHR 0x22 then (commit_attr c)\<lparr>st := After_attr_value_q\<rparr> else c\<lparr>aval := aval c @ [ch]\<rparr>)
     | Attr_value_unq \<Rightarrow>
         (if is_space ch then (commit_attr c)\<lparr>st := Before_attr_name\<rparr>
          else if ch = CHR ''>'' then emit_tag (commit_attr c)
          else c\<lparr>aval := aval c @ [ch]\<rparr>)
     | After_attr_value_q \<Rightarrow>
         (if is_space ch \<or> ch = CHR ''/'' then c\<lparr>st := Before_attr_name\<rparr>
          else if ch = CHR ''>'' then emit_tag c
          else c\<lparr>st := Attr_name, aname := [ch], aval := []\<rparr>)
     | Bogus_comment \<Rightarrow> (if ch = CHR ''>'' then c\<lparr>st := Data\<rparr> else c))"

definition tcfg0 :: tcfg where
  "tcfg0 = \<lparr>st = Data, out = [], buf = [], tname = [], is_end = False, attrs = [], aname = [], aval = []\<rparr>"

section \<open>Character references\<close>

text \<open>
  The named references the model decodes, longest first so that the first match is the
  longest one (the legacy names without semicolon come after their full forms).
\<close>

definition named_refs :: "(string \<times> char) list" where
  "named_refs =
     [(''amp;'', CHR ''&''), (''AMP;'', CHR ''&''), (''lt;'', CHR ''<''), (''LT;'', CHR ''<''),
      (''gt;'', CHR ''>''), (''GT;'', CHR ''>''), (''quot;'', CHR 0x22), (''QUOT;'', CHR 0x22),
      (''apos;'', apos), (''amp'', CHR ''&''), (''AMP'', CHR ''&''), (''lt'', CHR ''<''), (''LT'', CHR ''<''),
      (''gt'', CHR ''>''), (''GT'', CHR ''>''), (''quot'', CHR 0x22), (''QUOT'', CHR 0x22)]"

fun match_named :: "(string \<times> char) list \<Rightarrow> string \<Rightarrow> (string \<times> char) option" where
  "match_named [] s = None"
| "match_named ((n, c) # rs) s = (if take (length n) s = n then Some (n, c) else match_named rs s)"

definition is_hex_digit :: "char \<Rightarrow> bool" where
  "is_hex_digit c \<longleftrightarrow> is_digit c \<or> (97::nat) \<le> of_char c \<and> of_char c \<le> (102::nat)
                     \<or> (65::nat) \<le> of_char c \<and> of_char c \<le> (70::nat)"

definition hex_digit_value :: "char \<Rightarrow> nat" where
  "hex_digit_value c =
     (if is_digit c then of_char c - 48 else if (97::nat) \<le> of_char c then of_char c - 87 else of_char c - 55)"

definition hex_value :: "string \<Rightarrow> nat" where
  "hex_value s = foldl (\<lambda>acc c. 16 * acc + hex_digit_value c) 0 s"

text \<open>
  A numeric reference after the \<^verbatim>\<open>&\<close>: \<^verbatim>\<open>#\<close>, an optional \<^verbatim>\<open>x\<close> or
  \<^verbatim>\<open>X\<close>, at least one digit of the base and an optional semicolon; the result is the
  number of characters it spans and the character, for the ASCII characters 1--127.
\<close>

definition numeric_ref :: "string \<Rightarrow> (nat \<times> char) option" where
  "numeric_ref s =
     (case s of
        CHR ''#'' # r \<Rightarrow>
          (let hex = (r \<noteq> [] \<and> (hd r = CHR ''x'' \<or> hd r = CHR ''X''));
               body = (if hex then tl r else r);
               ds = takeWhile (if hex then is_hex_digit else is_digit) body;
               v = (if hex then hex_value ds else digits_value ds);
               semi = (case drop (length ds) body of CHR '';'' # _ \<Rightarrow> True | _ \<Rightarrow> False);
               k = 1 + (if hex then 1 else 0) + length ds + (if semi then 1 else 0)
           in if ds \<noteq> [] \<and> 0 < v \<and> v < 128 then Some (k, char_of v) else None)
      | _ \<Rightarrow> None)"

text \<open>
  In an attribute value a named reference without its semicolon is not decoded when the
  next character is \<^verbatim>\<open>=\<close> or alphanumeric (13.2.5.73).
\<close>

definition attr_blocked :: "string \<Rightarrow> bool" where
  "attr_blocked rest = (case rest of [] \<Rightarrow> False | d # _ \<Rightarrow> d = CHR ''='' \<or> is_letter d \<or> is_digit d)"

fun decode_refs :: "bool \<Rightarrow> string \<Rightarrow> string" where
  "decode_refs a [] = []"
| "decode_refs a (c # cs) =
     (if c \<noteq> CHR ''&'' then c # decode_refs a cs
      else (case match_named named_refs cs of
              Some (n, ch) \<Rightarrow>
                (if a \<and> last n \<noteq> CHR '';'' \<and> attr_blocked (drop (length n) cs)
                 then c # decode_refs a cs else ch # decode_refs a (drop (length n) cs))
            | None \<Rightarrow>
                (case numeric_ref cs of
                   Some (k, ch) \<Rightarrow> ch # decode_refs a (drop k cs)
                 | None \<Rightarrow> c # decode_refs a cs)))"

text \<open>Text is decoded as text, attribute values as attribute values; names are not decoded.\<close>

fun decode_token :: "token \<Rightarrow> token" where
  "decode_token (Text s) = Text (decode_refs False s)"
| "decode_token (Start_tag n as) = Start_tag n (map (\<lambda>(k, v). (k, decode_refs True v)) as)"
| "decode_token (End_tag n) = End_tag n"

text \<open>
  Where the decoding above is the browser's. After an \<^verbatim>\<open>&\<close> the browser decodes
  the longest name of its table of named references (more than two thousand, most of them
  beyond ASCII, many legacy names without the semicolon) that the input starts with, or
  a numeric reference. The decoding above agrees with it at an \<^verbatim>\<open>&\<close> followed by
  nothing, by a character that starts no reference (neither an ASCII letter or digit nor
  \<^verbatim>\<open>#\<close>), by one of its named references with the semicolon (no longer name of the
  table starts with one), or by a numeric reference to an ASCII character closed by a
  semicolon.
\<close>

definition ref_decodable :: "string \<Rightarrow> bool" where
  "ref_decodable rest \<longleftrightarrow>
     (case rest of
        [] \<Rightarrow> True
      | d # _ \<Rightarrow> \<not> is_letter d \<and> \<not> is_digit d \<and> d \<noteq> CHR ''#''
               \<or> list_ex (\<lambda>(n, c). last n = CHR '';'' \<and> take (length n) rest = n) named_refs
               \<or> (case numeric_ref rest of
                    None \<Rightarrow> False
                  | Some (k, c) \<Rightarrow> take 1 (drop (k - 1) rest) = '';''))"

fun refs_decodable :: "string \<Rightarrow> bool" where
  "refs_decodable [] = True"
| "refs_decodable (c # cs) = ((c = CHR ''&'' \<longrightarrow> ref_decodable cs) \<and> refs_decodable cs)"

text \<open>
  The tokens of a markup. Character references never contain \<^verbatim>\<open><\<close> nor a quote, so
  decoding them after the tag structure is found gives the tokens the standard's
  tokenizer emits, which decodes them as it goes.
\<close>

definition raw_tokens :: "string \<Rightarrow> token list" where
  "raw_tokens s = out (flush_text (foldl tstep tcfg0 s))"

definition tokenize :: "string \<Rightarrow> token list" where
  "tokenize s = map decode_token (raw_tokens s)"

section \<open>Nesting of elements\<close>

text \<open>
  The void elements have no end tag. \<open>open_after stk ts\<close> runs the stack of open
  elements over the tokens: a start tag of a non-void element is pushed, an end tag must
  close the innermost open element; a mismatch is \<open>None\<close>. Markup is well nested when
  the run from the empty stack ends with the empty stack.
\<close>

definition void_element :: "string \<Rightarrow> bool" where
  "void_element n \<longleftrightarrow> n \<in> set [''area'', ''base'', ''br'', ''col'', ''embed'', ''hr'', ''img'', ''input'',
                              ''link'', ''meta'', ''source'', ''track'', ''wbr'']"

fun open_after :: "string list \<Rightarrow> token list \<Rightarrow> string list option" where
  "open_after stk [] = Some stk"
| "open_after stk (Text s # ts) = open_after stk ts"
| "open_after stk (Start_tag n as # ts) = open_after (if void_element n then stk else n # stk) ts"
| "open_after stk (End_tag n # ts) =
     (case stk of m # stk' \<Rightarrow> if m = n then open_after stk' ts else None | [] \<Rightarrow> None)"

definition well_nested :: "token list \<Rightarrow> bool" where
  "well_nested ts \<longleftrightarrow> open_after [] ts = Some []"

text \<open>Fields of a configuration in the data state, between tags.\<close>

abbreviation data_cfg :: "token list \<Rightarrow> string \<Rightarrow> tcfg" where
  "data_cfg ts b \<equiv> tcfg0\<lparr>out := ts, buf := b\<rparr>"

lemma tstep_Data_char:
  "st c = Data \<Longrightarrow> ch \<noteq> CHR ''<'' \<Longrightarrow> tstep c ch = c\<lparr>buf := buf c @ [ch]\<rparr>"
  by (simp add: tstep_def)

lemma tstep_sq_char:
  "st c = Attr_value_sq \<Longrightarrow> ch \<noteq> apos \<Longrightarrow> tstep c ch = c\<lparr>aval := aval c @ [ch]\<rparr>"
  by (simp add: tstep_def)

lemma foldl_tstep_text:
  "st c = Data \<Longrightarrow> CHR ''<'' \<notin> set t \<Longrightarrow> foldl tstep c t = c\<lparr>buf := buf c @ t\<rparr>"
proof (induction t arbitrary: c)
  case Nil
  then show ?case by simp
next
  case (Cons x t)
  then have "tstep c x = c\<lparr>buf := buf c @ [x]\<rparr>" by (intro tstep_Data_char) auto
  with Cons show ?case by simp
qed

lemma foldl_tstep_sq_value:
  "st c = Attr_value_sq \<Longrightarrow> apos \<notin> set t \<Longrightarrow> foldl tstep c t = c\<lparr>aval := aval c @ t\<rparr>"
proof (induction t arbitrary: c)
  case Nil
  then show ?case by simp
next
  case (Cons x t)
  then have "tstep c x = c\<lparr>aval := aval c @ [x]\<rparr>" by (intro tstep_sq_char) auto
  with Cons show ?case by simp
qed

lemma tstep_dq_char:
  "st c = Attr_value_dq \<Longrightarrow> ch \<noteq> CHR 0x22 \<Longrightarrow> tstep c ch = c\<lparr>aval := aval c @ [ch]\<rparr>"
  by (simp add: tstep_def)

lemma foldl_tstep_dq_value:
  "st c = Attr_value_dq \<Longrightarrow> CHR 0x22 \<notin> set t \<Longrightarrow> foldl tstep c t = c\<lparr>aval := aval c @ t\<rparr>"
proof (induction t arbitrary: c)
  case Nil
  then show ?case by simp
next
  case (Cons x t)
  then have "tstep c x = c\<lparr>aval := aval c @ [x]\<rparr>" by (intro tstep_dq_char) auto
  with Cons show ?case by simp
qed

lemma is_letter_not_markup:
  "is_letter ch \<Longrightarrow> \<not> is_space ch \<and> ch \<noteq> CHR ''='' \<and> ch \<noteq> CHR ''>'' \<and> ch \<noteq> CHR ''/''"
  by (auto simp: is_letter_def is_space_def)

lemma foldl_tstep_name:
  "st c = Attr_name \<Longrightarrow> list_all is_letter b \<Longrightarrow> foldl tstep c b = c\<lparr>aname := aname c @ b\<rparr>"
proof (induction b arbitrary: c)
  case Nil
  then show ?case by simp
next
  case (Cons x b)
  then have "tstep c x = c\<lparr>aname := aname c @ [x]\<rparr>"
    using is_letter_not_markup [of x] by (simp add: tstep_def)
  with Cons show ?case by simp
qed

lemma not_digit_not_in_show_nat:
  "\<not> is_digit c \<Longrightarrow> c \<notin> set (show_nat n)"
  using show_nat_digits [of n] by (auto simp: list_all_iff)

lemma markup_chars_not_in_show_nat [simp]:
  "apos \<notin> set (show_nat n)" "CHR ''<'' \<notin> set (show_nat n)" "CHR 0x22 \<notin> set (show_nat n)"
  by (simp_all add: not_digit_not_in_show_nat is_digit_def)

lemma decode_refs_no_amp [simp]: "CHR ''&'' \<notin> set s \<Longrightarrow> decode_refs a s = s"
  by (induction s) auto

lemma decode_refs_Nil_iff [simp]: "decode_refs a s = [] \<longleftrightarrow> s = []"
  by (cases s) (auto split: option.splits)

lemma open_after_decode [simp]: "open_after stk (map decode_token ts) = open_after stk ts"
proof (induction stk ts rule: open_after.induct)
qed (auto split: list.splits)

lemma amp_not_in_show_nat [simp]: "CHR ''&'' \<notin> set (show_nat n)"
  by (simp add: not_digit_not_in_show_nat is_digit_def)

lemmas decode_simps = named_refs_def ref_decodable_def numeric_ref_def attr_blocked_def is_hex_digit_def hex_value_def
  hex_digit_value_def is_digit_def digits_value_def digit_value_def char_of_def bit_0

lemmas tokenize_simps = tstep_def flush_text_def commit_attr_def emit_tag_def is_space_def is_letter_def tcfg0_def

lemma open_after_append:
  "open_after stk (xs @ ys) = (case open_after stk xs of None \<Rightarrow> None | Some stk' \<Rightarrow> open_after stk' ys)"
  by (induction stk xs rule: open_after.induct) (auto split: list.splits)

end
