(* ===== verification/Query.thy ===== *)
theory Query
  imports Html_Reading
begin

text \<open>
  The DOM queries of \<^verbatim>\<open>src/app.js\<close>. The helper \<^verbatim>\<open>$\<close> (line 7) turns
  \<^verbatim>\<open>document.querySelectorAll(sels)\<close> into an array of the matching elements in
  document order; the program queries \<^verbatim>\<open>#text\<close> (an id), \<^verbatim>\<open>[type=checkbox]\<close> (an
  attribute value), \<^verbatim>\<open>button\<close> and \<^verbatim>\<open>label\<close> (tag names). The document's elements are
  those of the container, read from the tokens of its markup: an element is its tag name,
  its attributes and the tokens after its start tag (where its content begins). The
  handlers then read \<^verbatim>\<open>dataset.index\<close>, \<^verbatim>\<open>textContent\<close> and \<^verbatim>\<open>value\<close> of these elements.
\<close>

datatype selector = Tag_sel string | Id_sel string | Attr_sel string string

definition sel_matches :: "selector \<Rightarrow> string \<Rightarrow> (string \<times> string) list \<Rightarrow> bool" where
  "sel_matches sel n as =
     (case sel of
        Tag_sel t \<Rightarrow> n = t
      | Id_sel i \<Rightarrow> map_of as ''id'' = Some i
      | Attr_sel a v \<Rightarrow> map_of as a = Some v)"

type_synonym element = "string \<times> (string \<times> string) list \<times> token list"

text \<open>\<^verbatim>\<open>$(sels)\<close>: the elements matching the selector, in document order.\<close>

fun query_all :: "selector \<Rightarrow> token list \<Rightarrow> element list" where
  "query_all sel [] = []"
| "query_all sel (Start_tag n as # ts) =
     (if sel_matches sel n as then [(n, as, ts)] else []) @ query_all sel ts"
| "query_all sel (Text s # ts) = query_all sel ts"
| "query_all sel (End_tag n # ts) = query_all sel ts"

section \<open>The elements the handlers use\<close>

text \<open>
  \<^verbatim>\<open>element.dataset.index\<close>: the \<^verbatim>\<open>data-index\<close> attribute, the first one when it is
  repeated; a missing attribute reads as \<^verbatim>\<open>undefined\<close>, which the handlers turn into the
  string \<^verbatim>\<open>'undefined'\<close> (as a property key) or \<open>NaN\<close>, hence 0 (as a number).
\<close>

definition dataset_index :: "(string \<times> string) list \<Rightarrow> string" where
  "dataset_index as = (case map_of as ''data-index'' of None \<Rightarrow> ''undefined'' | Some v \<Rightarrow> v)"

text \<open>The \<^verbatim>\<open>textContent\<close> of a label: the text up to its end tag.\<close>

fun label_content :: "token list \<Rightarrow> string" where
  "label_content [] = []"
| "label_content (Text s # ts) = s @ label_content ts"
| "label_content (End_tag n # ts) = (if n = ''label'' then [] else label_content ts)"
| "label_content (Start_tag n as # ts) = (if n = ''label'' then [] else label_content ts)"

text \<open>\<^verbatim>\<open>$('label')\<close>, each read as its \<^verbatim>\<open>dataset.index\<close> and \<^verbatim>\<open>textContent\<close>.\<close>

definition labels_of :: "token list \<Rightarrow> (string \<times> string) list" where
  "labels_of ts = map (\<lambda>(n, as, rest). (dataset_index as, label_content rest)) (query_all (Tag_sel ''label'') ts)"

text \<open>\<^verbatim>\<open>$('button')\<close>, each read as its \<^verbatim>\<open>dataset.index\<close>.\<close>

definition buttons_of :: "token list \<Rightarrow> string list" where
  "buttons_of ts = map (\<lambda>(n, as, rest). dataset_index as) (query_all (Tag_sel ''button'') ts)"

text \<open>
  The elements \<^verbatim>\<open>$('[type=checkbox]')\<close> selects: every element with a
  \<^verbatim>\<open>type\<close> attribute equal to \<^verbatim>\<open>checkbox\<close>, each with its \<^verbatim>\<open>checked\<close>
  state as the browser builds it: an \<^verbatim>\<open>input\<close> with a \<^verbatim>\<open>checked\<close> attribute
  (whatever its value) starts checked; other elements have no checked state.
\<close>

definition checkboxes_of :: "token list \<Rightarrow> bool list" where
  "checkboxes_of ts =
     map (\<lambda>(n, as, rest). n = ''input'' \<and> map_of as ''checked'' \<noteq> None)
       (query_all (Attr_sel ''type'' ''checkbox'') ts)"

text \<open>
  \<^verbatim>\<open>element.value\<close>: for an \<^verbatim>\<open>input\<close> its \<^verbatim>\<open>value\<close> attribute (empty when absent).
  Elements such as \<^verbatim>\<open>label\<close>, \<^verbatim>\<open>div\<close> or \<^verbatim>\<open>h3\<close> have no \<^verbatim>\<open>value\<close> property:
  it reads as \<^verbatim>\<open>undefined\<close>, which the model stores and prints as the string
  \<^verbatim>\<open>'undefined'\<close>. The value properties of \<^verbatim>\<open>button\<close>, \<^verbatim>\<open>li\<close>, \<^verbatim>\<open>select\<close> and
  \<^verbatim>\<open>textarea\<close> are not modelled (only injected markup could give them the id
  \<^verbatim>\<open>text\<close>).
\<close>

definition element_value :: "element \<Rightarrow> string" where
  "element_value e =
     (case e of (n, as, rest) \<Rightarrow>
        if n = ''input'' then (case map_of as ''value'' of None \<Rightarrow> [] | Some v \<Rightarrow> v) else ''undefined'')"

text \<open>
  \<^verbatim>\<open>$('#text')[0].value\<close>: the value of the first element whose \<^verbatim>\<open>id\<close> is
  \<^verbatim>\<open>text\<close>, or \<open>None\<close> when the markup has no such element (the read then throws).
\<close>

definition text_input_value :: "token list \<Rightarrow> string option" where
  "text_input_value ts =
     (case query_all (Id_sel ''text'') ts of [] \<Rightarrow> None | e # es \<Rightarrow> Some (element_value e))"

section \<open>The container\<close>

text \<open>
  The tokens after an element's start tag up to its end, skipped: \<open>d\<close> counts the
  elements opened inside it and not yet closed (end tags are matched by depth only).
\<close>

fun skip_element :: "nat \<Rightarrow> token list \<Rightarrow> token list" where
  "skip_element d [] = []"
| "skip_element d (Text s # ts) = skip_element d ts"
| "skip_element d (Start_tag n as # ts) = skip_element (if void_element n then d else Suc d) ts"
| "skip_element d (End_tag n # ts) = (case d of 0 \<Rightarrow> ts | Suc d' \<Rightarrow> skip_element d' ts)"

text \<open>The document without its first element matching a selector, content included.\<close>

fun remove_first :: "selector \<Rightarrow> token list \<Rightarrow> token list" where
  "remove_first sel [] = []"
| "remove_first sel (Start_tag n as # ts) =
     (if sel_matches sel n as then (if void_element n then ts else skip_element 0 ts)
      else Start_tag n as # remove_first sel ts)"
| "remove_first sel (Text s # ts) = Text s # remove_first sel ts"
| "remove_first sel (End_tag n # ts) = End_tag n # remove_first sel ts"

text \<open>
  Lines 10--12: \<^verbatim>\<open>$('#container')[0] || document.createElement('div')\<close>, its id set to
  \<^verbatim>\<open>container\<close>, then \<^verbatim>\<open>document.body.appendChild(container)\<close>. Whether the element
  was found or created, the body then holds the rest of the page followed by the container
  (appending moves an element that is already in the document); the container's content is
  replaced by the first render. What stays outside the container, in document order before
  it, is the page without its first \<^verbatim>\<open>#container\<close> element.
\<close>

definition container_outside :: "token list \<Rightarrow> token list" where
  "container_outside ts = remove_first (Id_sel ''container'') ts"

section \<open>Finding the container\<close>

text \<open>
  Skipping an element's content follows the nesting: a well-nested run of tokens moves
  the depth as it moves the stack of open elements.
\<close>

lemma skip_element_nested:
  "open_after stk inner = Some stk' \<Longrightarrow>
   skip_element (d + length stk) (inner @ rest) = skip_element (d + length stk') rest"
proof (induction stk inner arbitrary: d rule: open_after.induct)
  case (3 stk n as ts)
  then show ?case by (cases "void_element n") auto
next
  case (4 stk n ts)
  then show ?case by (auto split: list.splits if_splits)
qed simp_all

lemma skip_element_well_nested:
  "well_nested inner \<Longrightarrow> skip_element 0 (inner @ End_tag n # rest) = rest"
  using skip_element_nested [of "[]" inner "[]" 0 "End_tag n # rest"] by (simp add: well_nested_def)

lemma remove_first_no_match:
  "query_all sel pre = [] \<Longrightarrow> remove_first sel (pre @ ts) = pre @ remove_first sel ts"
  by (induction pre rule: remove_first.induct) (auto split: if_splits)

text \<open>
  C30: lines 10--12 on a page whose markup holds a \<^verbatim>\<open>#container\<close> element: the first
  such element (a well-nested, non-void element) is the container, and what stays outside
  is the page with that element and its content taken out.
\<close>

theorem container_outside_existing:
  assumes "query_all (Id_sel ''container'') pre = []" and "map_of as ''id'' = Some ''container''"
    and "\<not> void_element n" and "well_nested inner"
  shows "container_outside (pre @ Start_tag n as # inner @ End_tag n # post) = pre @ post"
  using assms by (simp add: container_outside_def remove_first_no_match sel_matches_def skip_element_well_nested)

lemma container_outside_existing_witness:
  "query_all (Id_sel ''container'') [Start_tag ''h1'' [], Text ''Todo'', End_tag ''h1''] = [] \<and>
   map_of [(''id'', ''container'')] ''id'' = Some ''container'' \<and> \<not> void_element ''div'' \<and>
   well_nested [Start_tag ''button'' [], End_tag ''button''] \<and>
   container_outside ([Start_tag ''h1'' [], Text ''Todo'', End_tag ''h1''] @
     Start_tag ''div'' [(''id'', ''container'')] # [Start_tag ''button'' [], End_tag ''button''] @
     End_tag ''div'' # [Start_tag ''p'' [], End_tag ''p'']) =
   [Start_tag ''h1'' [], Text ''Todo'', End_tag ''h1'', Start_tag ''p'' [], End_tag ''p'']"
proof -
  have q: "query_all (Id_sel ''container'') [Start_tag ''h1'' [], Text ''Todo'', End_tag ''h1''] = []"
    and v: "\<not> void_element ''div''" and w: "well_nested [Start_tag ''button'' [], End_tag ''button'']"
    by (simp_all add: sel_matches_def void_element_def well_nested_def)
  show ?thesis
    using q v w container_outside_existing [OF q _ v w, of "[(''id'', ''container'')]" "[Start_tag ''p'' [], End_tag ''p'']"]
    by simp
qed

text \<open>On a page with no \<^verbatim>\<open>#container\<close> element the container is created: nothing is taken out.\<close>

lemma container_outside_absent:
  "query_all (Id_sel ''container'') ts = [] \<Longrightarrow> container_outside ts = ts"
  using remove_first_no_match [of "Id_sel ''container''" ts "[]"] by (simp add: container_outside_def)

section \<open>The queries on concrete tokens\<close>

lemma labels_of_simps [simp]:
  "labels_of [] = []"
  "labels_of (Start_tag n as # ts) =
     (if n = ''label'' then (dataset_index as, label_content ts) # labels_of ts else labels_of ts)"
  "labels_of (Text s # ts) = labels_of ts"
  "labels_of (End_tag n # ts) = labels_of ts"
  by (simp_all add: labels_of_def sel_matches_def)

lemma buttons_of_simps [simp]:
  "buttons_of [] = []"
  "buttons_of (Start_tag n as # ts) =
     (if n = ''button'' then dataset_index as # buttons_of ts else buttons_of ts)"
  "buttons_of (Text s # ts) = buttons_of ts"
  "buttons_of (End_tag n # ts) = buttons_of ts"
  by (simp_all add: buttons_of_def sel_matches_def)

lemma checkboxes_of_simps [simp]:
  "checkboxes_of [] = []"
  "checkboxes_of (Start_tag n as # ts) =
     (if map_of as ''type'' = Some ''checkbox''
      then (n = ''input'' \<and> map_of as ''checked'' \<noteq> None) # checkboxes_of ts else checkboxes_of ts)"
  "checkboxes_of (Text s # ts) = checkboxes_of ts"
  "checkboxes_of (End_tag n # ts) = checkboxes_of ts"
  by (simp_all add: checkboxes_of_def sel_matches_def)

lemma text_input_value_simps [simp]:
  "text_input_value [] = None"
  "text_input_value (Start_tag n as # ts) =
     (if map_of as ''id'' = Some ''text'' then Some (element_value (n, as, ts)) else text_input_value ts)"
  "text_input_value (Text s # ts) = text_input_value ts"
  "text_input_value (End_tag n # ts) = text_input_value ts"
  by (simp_all add: text_input_value_def sel_matches_def)

lemma element_value_input [simp]:
  "element_value (''input'', as, ts) = (case map_of as ''value'' of None \<Rightarrow> [] | Some v \<Rightarrow> v)"
  by (simp add: element_value_def)

end
