(* ===== verification/View.thy ===== *)
theory View
  imports Template Query
begin

text \<open>
  The model and the view of \<^verbatim>\<open>src/app.js\<close>: the shared model object (lines 29--32),
  the markup template \<^verbatim>\<open>templateBody\<close> (lines 144--177) with its per-item and footer
  sub-templates, \<^verbatim>\<open>view.html\<close> and \<^verbatim>\<open>view.render\<close> (lines 16--17) and the view's
  self-test \<^verbatim>\<open>view.test\<close> (lines 19--25). Rendering replaces the container's whole
  content; the elements the browser builds from the markup (tokenized by \<open>Html_Reading\<close>, queried as in \<open>Query\<close>)
  are the record \<open>dom\<close>.
\<close>

section \<open>Model\<close>

record model =
  "text" :: string
  todos :: "string list"

definition model_init :: model where
  "model_init = \<lparr>text = [], todos = []\<rparr>"

section \<open>Markup\<close>

text \<open>
  One list row (the inner template of \<^verbatim>\<open>data.todos.map((todo, index) => e.html`...`)\<close>):
  a checkbox, the label carrying the index and the item text, the delete button
  carrying the same index.
\<close>

definition todo_item_html :: "string \<Rightarrow> nat \<Rightarrow> string" where
  "todo_item_html todo index =
     e_html [''\<newline>  <li>\<newline>    <input type = 'checkbox'>\<newline>    <label data-index = '' @ [apos],
             [apos] @ ''>'',
             ''</label>\<newline>    <button data-index = '' @ [apos],
             [apos] @ ''>Delete</button>\<newline>  </li>\<newline>  '']
            [JNum index, JStr todo, JNum index]"

text \<open>
  The footer: \<^verbatim>\<open>data.todos.length ? e.html`<div>${n} item${n !== 1 ? 's' : ''} left</div>` : ''\<close>.
\<close>

definition footer_html :: "nat \<Rightarrow> string" where
  "footer_html n =
     (if n \<noteq> 0 then e_html [''<div>'', '' item'', '' left</div>''] [JNum n, JStr (if n \<noteq> 1 then ''s'' else [])]
      else [])"

definition templateBody :: "model \<Rightarrow> string" where
  "templateBody data =
     e_html [''\<newline><h3>todos</h3>\<newline><input type = 'checkbox'>\<newline><input id = 'text' placeholder = 'What needs to be done?' value='' @ [apos],
             [apos] @ ''>\<newline><ul>\<newline>  '',
             ''\<newline></ul>\<newline>'',
             ''\<newline><style>\<newline>  label {\<newline>    width: 165px;\<newline>    display: inline-block;\<newline>  }\<newline>  #container {\<newline>    text-align: center;\<newline>  }\<newline>  ul {\<newline>    /* center */\<newline>    margin: auto;\<newline>    list-style-type: none;\<newline>    padding-left: 0;\<newline>  }\<newline></style>'']
            [JStr (text data),
             JArr (map (\<lambda>(index, todo). JStr (todo_item_html todo index)) (enumerate 0 (todos data))),
             JStr (footer_html (length (todos data)))]"

definition view_html :: "model \<Rightarrow> string" where
  "view_html data = templateBody data"

text \<open>The part of a row that shows the item: its label and its delete button.\<close>

definition item_markup :: "nat \<Rightarrow> string \<Rightarrow> string" where
  "item_markup i todo = ''<label data-index = '' @ [apos] @ show_nat i @ [apos] @ ''>'' @ todo @
           ''</label>\<newline>    <button data-index = '' @ [apos] @ show_nat i @ [apos] @ ''>Delete</button>''"

section \<open>The rendered elements\<close>

text \<open>
  The elements of the container that the handlers read and write, in document order:
  every checkbox (the standalone one first, then one per row) with its \<^verbatim>\<open>checked\<close>
  state, every label with its \<^verbatim>\<open>data-index\<close>, \<^verbatim>\<open>textContent\<close> and
  \<^verbatim>\<open>contentEditable\<close> flag, every button with its \<^verbatim>\<open>data-index\<close>, and the value of
  the text input (\<open>None\<close> when the markup has no element with id \<^verbatim>\<open>text\<close>). \<open>bound\<close> records whether the listeners of \<^verbatim>\<open>intent.listen\<close> are
  attached to the current elements: every element a render creates starts without them.
\<close>

record label =
  label_index :: string
  label_text :: string
  editable :: bool

record dom =
  container_html :: string
  input_value :: "string option"
  boxes :: "bool list"
  labels :: "label list"
  buttons :: "string list"
  bound :: bool

definition dom_empty :: dom where
  "dom_empty = \<lparr>container_html = [], input_value = None, boxes = [], labels = [], buttons = [], bound = False\<rparr>"

text \<open>
  The elements the queries of the program find in a token list, as the browser builds them:
  checkboxes checked as their markup says, labels not editable (the
  \<^verbatim>\<open>contenteditable\<close> attribute is not read; the program's markup has none), none
  with listeners. Setting
  \<^verbatim>\<open>innerHTML\<close> reads the markup (\<open>tokenize\<close>) and builds fresh elements.
\<close>

definition elements_of :: "token list \<Rightarrow> dom" where
  "elements_of toks =
     \<lparr>container_html = [],
      input_value = text_input_value toks,
      boxes = checkboxes_of toks,
      labels = map (\<lambda>(i, t). \<lparr>label_index = i, label_text = t, editable = False\<rparr>) (labels_of toks),
      buttons = buttons_of toks,
      bound = False\<rparr>"

definition dom_of_markup :: "string \<Rightarrow> dom" where
  "dom_of_markup html = (elements_of (tokenize html))\<lparr>container_html := html\<rparr>"

text \<open>\<^verbatim>\<open>view.render(elem, data)\<close>: \<^verbatim>\<open>elem.innerHTML = view.html(data)\<close>.\<close>

definition view_render :: "model \<Rightarrow> dom" where
  "view_render data = dom_of_markup (view_html data)"

text \<open>\<^verbatim>\<open>view.test\<close>: the markup of the empty model is not empty.\<close>

definition view_test :: "console \<Rightarrow> error + console" where
  "view_test con = test_notEqual (length (view_html \<lparr>text = [], todos = []\<rparr>)) (0::nat) ''it outputs something'' con"

section \<open>The tokens of the markup\<close>

text \<open>
  What the browser reads from the markup of a model whose item texts contain no
  \<^verbatim>\<open><\<close> and whose text contains no apostrophe: the reference for the round trip below.
\<close>

definition item_tokens :: "string \<Rightarrow> nat \<Rightarrow> token list" where
  "item_tokens t i =
     [Text ''\<newline>  \<newline>  '', Start_tag ''li'' [], Text ''\<newline>    '', Start_tag ''input'' [(''type'', ''checkbox'')],
      Text ''\<newline>    '', Start_tag ''label'' [(''data-index'', show_nat i)]] @
     (if t = [] then [] else [Text t]) @
     [End_tag ''label'', Text ''\<newline>    '', Start_tag ''button'' [(''data-index'', show_nat i)],
      Text ''Delete'', End_tag ''button'', Text ''\<newline>  '', End_tag ''li'']"

definition head_tokens :: "string \<Rightarrow> token list" where
  "head_tokens v =
     [Text ''\<newline>'', Start_tag ''h3'' [], Text ''todos'', End_tag ''h3'', Text ''\<newline>'',
      Start_tag ''input'' [(''type'', ''checkbox'')], Text ''\<newline>'',
      Start_tag ''input'' [(''id'', ''text''), (''placeholder'', ''What needs to be done?''), (''value'', v)],
      Text ''\<newline>'', Start_tag ''ul'' []]"

definition tail_tokens :: "nat \<Rightarrow> token list" where
  "tail_tokens n =
     [Text ''\<newline>  \<newline>'', End_tag ''ul'']
     @ (if n = 0 then [Text ''\<newline>\<newline>'']
        else [Text ''\<newline>'', Start_tag ''div'' [], Text (show_nat n @ '' item'' @ (if n = 1 then [] else ''s'') @ '' left''),
              End_tag ''div'', Text ''\<newline>''])
     @ [Start_tag ''style'' [],
        Text ''\<newline>  label {\<newline>    width: 165px;\<newline>    display: inline-block;\<newline>  }\<newline>  #container {\<newline>    text-align: center;\<newline>  }\<newline>  ul {\<newline>    /* center */\<newline>    margin: auto;\<newline>    list-style-type: none;\<newline>    padding-left: 0;\<newline>  }\<newline>'',
        End_tag ''style'']"

definition view_tokens :: "model \<Rightarrow> token list" where
  "view_tokens data =
     head_tokens (text data) @ concat (map (\<lambda>(i, t). item_tokens t i) (enumerate 0 (todos data)))
     @ tail_tokens (length (todos data))"

text \<open>
  A model the markup shows as intended: the text has no apostrophe (it sits in a
  single-quoted attribute) and no item has a \<^verbatim>\<open><\<close> (items sit in element content).
\<close>

definition markup_free :: "model \<Rightarrow> bool" where
  "markup_free data \<longleftrightarrow> apos \<notin> set (text data) \<and> list_all (\<lambda>t. CHR ''<'' \<notin> set t) (todos data)"

text \<open>
  The browser decodes character references in both: what a render shows is the decoded
  model. A plain model has neither markup nor \<^verbatim>\<open>&\<close>, and shows exactly itself.
\<close>

definition decode_model :: "model \<Rightarrow> model" where
  "decode_model data = \<lparr>text = decode_refs True (text data), todos = map (decode_refs False) (todos data)\<rparr>"

definition plain_item :: "string \<Rightarrow> bool" where
  "plain_item t \<longleftrightarrow> CHR ''<'' \<notin> set t \<and> CHR ''&'' \<notin> set t"

definition plain_model :: "model \<Rightarrow> bool" where
  "plain_model data \<longleftrightarrow> apos \<notin> set (text data) \<and> CHR ''&'' \<notin> set (text data) \<and> list_all plain_item (todos data)"

text \<open>The elements a render of a plain model builds: the reference for \<open>view_render\<close>.\<close>

definition view_dom :: "model \<Rightarrow> dom" where
  "view_dom data =
     \<lparr>container_html = view_html data,
      input_value = Some (text data),
      boxes = replicate (Suc (length (todos data))) False,
      labels = map (\<lambda>(i, t). \<lparr>label_index = show_nat i, label_text = t, editable = False\<rparr>) (enumerate 0 (todos data)),
      buttons = map show_nat [0..<length (todos data)],
      bound = False\<rparr>"

section \<open>Evaluation of the templates\<close>

lemma e_html_Cons:
  assumes "length ss = Suc (length vs)"
  shows "e_html (s # ss) (v # vs) = s @ template_value v @ e_html ss vs"
proof -
  obtain s1 ss' where ss: "ss = s1 # ss'" and len: "length ss' = length vs"
    using assms by (cases ss) auto
  have "e_html (s # ss) (v # vs) = template_concat s ((v, s1) # zip vs ss')"
    using e_html_eval [of s "(v, s1) # zip vs ss'"] len ss by simp
  moreover have "e_html ss vs = template_concat s1 (zip vs ss')"
    using e_html_eval [of s1 "zip vs ss'"] len ss by simp
  ultimately show ?thesis by simp
qed

lemma e_html_one: "e_html [s] [] = s"
  by (simp add: e_html_def js_last_str_def)

lemmas e_html_simps = e_html_Cons e_html_one

lemma todo_item_html_eq:
  "todo_item_html todo index =
     ''\<newline>  <li>\<newline>    <input type = 'checkbox'>\<newline>    <label data-index = '' @ [apos] @
     show_nat index @ [apos] @ ''>'' @ todo @ ''</label>\<newline>    <button data-index = '' @ [apos] @
     show_nat index @ [apos] @ ''>Delete</button>\<newline>  </li>\<newline>  ''"
  by (simp add: todo_item_html_def e_html_simps)

text \<open>
  C7: the footer reads \<open>n item left\<close> for one item, \<open>n items left\<close> for more, and is
  absent when the list is empty.
\<close>

theorem footer_html_eq:
  "footer_html n =
     (if n = 0 then []
      else ''<div>'' @ show_nat n @ '' item'' @ (if n = 1 then [] else ''s'') @ '' left</div>'')"
  by (simp add: footer_html_def e_html_simps)

text \<open>The whole markup, with the template engine evaluated.\<close>

lemma templateBody_eq:
  "templateBody data =
     ''\<newline><h3>todos</h3>\<newline><input type = 'checkbox'>\<newline><input id = 'text' placeholder = 'What needs to be done?' value='' @ [apos] @
     text data @ [apos] @ ''>\<newline><ul>\<newline>  '' @
     concat (map (\<lambda>(index, todo). todo_item_html todo index) (enumerate 0 (todos data))) @
     ''\<newline></ul>\<newline>'' @ footer_html (length (todos data)) @
     ''\<newline><style>\<newline>  label {\<newline>    width: 165px;\<newline>    display: inline-block;\<newline>  }\<newline>  #container {\<newline>    text-align: center;\<newline>  }\<newline>  ul {\<newline>    /* center */\<newline>    margin: auto;\<newline>    list-style-type: none;\<newline>    padding-left: 0;\<newline>  }\<newline></style>''"
  by (simp add: templateBody_def e_html_simps)

lemma todo_item_html_split:
  "todo_item_html todo i =
     ''\<newline>  <li>\<newline>    <input type = 'checkbox'>\<newline>    '' @ item_markup i todo @ ''\<newline>  </li>\<newline>  ''"
  by (simp add: todo_item_html_eq item_markup_def)

lemma view_html_split:
  "view_html data =
     (''\<newline><h3>todos</h3>\<newline><input type = 'checkbox'>\<newline><input id = 'text' placeholder = 'What needs to be done?' value='' @ [apos] @
     text data @ [apos] @ ''>\<newline><ul>\<newline>  '') @
     concat (map (\<lambda>(index, todo). todo_item_html todo index) (enumerate 0 (todos data))) @
     (''\<newline></ul>\<newline>'' @ footer_html (length (todos data)) @
     ''\<newline><style>\<newline>  label {\<newline>    width: 165px;\<newline>    display: inline-block;\<newline>  }\<newline>  #container {\<newline>    text-align: center;\<newline>  }\<newline>  ul {\<newline>    /* center */\<newline>    margin: auto;\<newline>    list-style-type: none;\<newline>    padding-left: 0;\<newline>  }\<newline></style>'')"
  unfolding view_html_def templateBody_eq by (simp only: append_assoc)

text \<open>
  C6: the markup shows every item: for each position \<open>i\<close> of the list it contains a
  label carrying the index \<open>i\<close> in decimal and the item's text, followed by the delete
  button carrying the same index.
\<close>

theorem view_html_shows_item:
  assumes "i < length (todos data)"
  shows "\<exists>pre post. view_html data = pre @ item_markup i (todos data ! i) @ post"
proof (rule infix_append_mid [OF view_html_split])
  let ?items = "map (\<lambda>(index, todo). todo_item_html todo index) (enumerate 0 (todos data))"
  have "?items ! i = todo_item_html (todos data ! i) i"
    using assms by (simp add: nth_enumerate_eq)
  also have "\<dots> = ''\<newline>  <li>\<newline>    <input type = 'checkbox'>\<newline>    '' @ item_markup i (todos data ! i) @ ''\<newline>  </li>\<newline>  ''"
    by (rule todo_item_html_split)
  finally have "?items ! i = ''\<newline>  <li>\<newline>    <input type = 'checkbox'>\<newline>    '' @ item_markup i (todos data ! i) @ ''\<newline>  </li>\<newline>  ''" .
  moreover have "i < length ?items" using assms by simp
  ultimately show "\<exists>pre post. concat ?items = pre @ item_markup i (todos data ! i) @ post"
    by (intro infix_concat_nth)
qed

section \<open>Reading the markup back\<close>

lemma foldl_tstep_item:
  assumes "CHR ''<'' \<notin> set t"
  shows "foldl tstep (data_cfg ts ''\<newline>  '') (todo_item_html t i) = data_cfg (ts @ item_tokens t i) ''\<newline>  ''"
  using assms
  by (simp add: todo_item_html_eq item_tokens_def tokenize_simps foldl_tstep_text foldl_tstep_sq_value)

lemma foldl_tstep_items:
  assumes "\<forall>t \<in> set ts. CHR ''<'' \<notin> set t"
  shows "foldl tstep (data_cfg out0 ''\<newline>  '') (concat (map (\<lambda>(i, t). todo_item_html t i) (enumerate n ts)))
         = data_cfg (out0 @ concat (map (\<lambda>(i, t). item_tokens t i) (enumerate n ts))) ''\<newline>  ''"
  using assms
proof (induction ts arbitrary: n out0)
  case Nil
  then show ?case by simp
next
  case (Cons t ts)
  then show ?case by (simp add: foldl_tstep_item del: foldl_Cons)
qed

lemma foldl_tstep_head:
  assumes "apos \<notin> set v"
  shows "foldl tstep tcfg0
     (''\<newline><h3>todos</h3>\<newline><input type = 'checkbox'>\<newline><input id = 'text' placeholder = 'What needs to be done?' value='' @ [apos] @
      v @ [apos] @ ''>\<newline><ul>\<newline>  '') = data_cfg (head_tokens v) ''\<newline>  ''"
  using assms by (simp add: head_tokens_def tokenize_simps foldl_tstep_sq_value)

lemma foldl_tstep_tail:
  "flush_text (foldl tstep (data_cfg out0 ''\<newline>  '')
     (''\<newline></ul>\<newline>'' @ footer_html n @
     ''\<newline><style>\<newline>  label {\<newline>    width: 165px;\<newline>    display: inline-block;\<newline>  }\<newline>  #container {\<newline>    text-align: center;\<newline>  }\<newline>  ul {\<newline>    /* center */\<newline>    margin: auto;\<newline>    list-style-type: none;\<newline>    padding-left: 0;\<newline>  }\<newline></style>''))
   = data_cfg (out0 @ tail_tokens n) []"
  by (cases "n = 0") (simp_all add: footer_html_def e_html_simps tail_tokens_def tokenize_simps foldl_tstep_text)


text \<open>The tokens of the whole markup, from those of its head and of its items.\<close>

lemma tokenize_view_html_parts:
  assumes "foldl tstep tcfg0
     (''\<newline><h3>todos</h3>\<newline><input type = 'checkbox'>\<newline><input id = 'text' placeholder = 'What needs to be done?' value='' @ [apos] @
      text data @ [apos] @ ''>\<newline><ul>\<newline>  '') = data_cfg hs ''\<newline>  ''"
    and "foldl tstep (data_cfg hs ''\<newline>  '')
           (concat (map (\<lambda>(index, todo). todo_item_html todo index) (enumerate 0 (todos data)))) =
         data_cfg ts ''\<newline>  ''"
  shows "raw_tokens (view_html data) = ts @ tail_tokens (length (todos data))"
proof -
  have "foldl tstep tcfg0 (view_html data) =
        foldl tstep (data_cfg hs ''\<newline>  '')
          (concat (map (\<lambda>(index, todo). todo_item_html todo index) (enumerate 0 (todos data))) @
           ''\<newline></ul>\<newline>'' @ footer_html (length (todos data)) @
           ''\<newline><style>\<newline>  label {\<newline>    width: 165px;\<newline>    display: inline-block;\<newline>  }\<newline>  #container {\<newline>    text-align: center;\<newline>  }\<newline>  ul {\<newline>    /* center */\<newline>    margin: auto;\<newline>    list-style-type: none;\<newline>    padding-left: 0;\<newline>  }\<newline></style>'')"
    using assms(1)
    by (simp only: view_html_def templateBody_eq foldl_append append_assoc [symmetric])
  then show ?thesis
    using assms(2) foldl_tstep_tail
    by (simp add: raw_tokens_def del: foldl_Cons)
qed

lemma raw_tokens_view_html:
  assumes "markup_free data"
  shows "raw_tokens (view_html data) = view_tokens data"
proof -
  have v: "apos \<notin> set (text data)" and t: "\<forall>t \<in> set (todos data). CHR ''<'' \<notin> set t"
    using assms by (simp_all add: markup_free_def list_all_iff)
  show ?thesis
    using tokenize_view_html_parts [OF foldl_tstep_head [OF v] foldl_tstep_items [OF t]]
    by (simp add: view_tokens_def)
qed

lemma decode_item_tokens [simp]: "map decode_token (item_tokens t i) = item_tokens (decode_refs False t) i"
  by (simp add: item_tokens_def)

lemma decode_items:
  "map decode_token (concat (map (\<lambda>(i, t). item_tokens t i) (enumerate n ts))) =
   concat (map (\<lambda>(i, t). item_tokens t i) (enumerate n (map (decode_refs False) ts)))"
proof (induction ts arbitrary: n)
  case Nil
  then show ?case by simp
next
  case (Cons t ts)
  then show ?case by simp
qed

lemma decode_view_tokens: "map decode_token (view_tokens data) = view_tokens (decode_model data)"
  by (simp add: view_tokens_def decode_model_def head_tokens_def tail_tokens_def decode_items)

lemma tokenize_view_html:
  assumes "markup_free data"
  shows "tokenize (view_html data) = view_tokens (decode_model data)"
  by (simp add: tokenize_def raw_tokens_view_html [OF assms] decode_view_tokens)

lemma decode_model_plain:
  assumes "plain_model data"
  shows "decode_model data = data" and "markup_free data"
proof -
  have "map (decode_refs False) (todos data) = todos data"
    using assms by (intro map_idI) (auto simp: plain_model_def plain_item_def list_all_iff)
  then show "decode_model data = data" using assms by (simp add: decode_model_def plain_model_def)
  show "markup_free data" using assms by (auto simp: plain_model_def markup_free_def plain_item_def list_all_iff)
qed

lemma labels_of_item_tokens [simp]:
  "labels_of (item_tokens t i @ rest) = (show_nat i, t) # labels_of rest"
  by (cases "t = []") (simp_all add: item_tokens_def dataset_index_def)

lemma buttons_of_item_tokens [simp]:
  "buttons_of (item_tokens t i @ rest) = show_nat i # buttons_of rest"
  by (simp add: item_tokens_def dataset_index_def)

lemma checkboxes_of_item_tokens [simp]:
  "checkboxes_of (item_tokens t i @ rest) = False # checkboxes_of rest"
  by (simp add: item_tokens_def)

lemma text_input_value_head_tokens [simp]:
  "text_input_value (head_tokens v @ rest) = Some v"
  by (simp add: head_tokens_def)

lemma extract_items:
  "labels_of (concat (map (\<lambda>(i, t). item_tokens t i) (enumerate n ts)) @ rest) =
     map (\<lambda>(i, t). (show_nat i, t)) (enumerate n ts) @ labels_of rest \<and>
   buttons_of (concat (map (\<lambda>(i, t). item_tokens t i) (enumerate n ts)) @ rest) =
     map show_nat [n..<n + length ts] @ buttons_of rest \<and>
   checkboxes_of (concat (map (\<lambda>(i, t). item_tokens t i) (enumerate n ts)) @ rest) =
     replicate (length ts) False @ checkboxes_of rest"
proof (induction ts arbitrary: n)
  case Nil
  then show ?case by simp
next
  case (Cons t ts)
  then show ?case by (simp add: upt_rec)
qed

lemma tail_tokens_extract [simp]:
  "labels_of (tail_tokens n) = [] \<and> buttons_of (tail_tokens n) = [] \<and> checkboxes_of (tail_tokens n) = []"
  by (simp add: tail_tokens_def)

lemma view_tokens_extract:
  "labels_of (view_tokens data) = map (\<lambda>(i, t). (show_nat i, t)) (enumerate 0 (todos data)) \<and>
   buttons_of (view_tokens data) = map show_nat [0..<length (todos data)] \<and>
   checkboxes_of (view_tokens data) = replicate (Suc (length (todos data))) False \<and>
   text_input_value (view_tokens data) = Some (text data)"
  using extract_items [of 0 "todos data" "tail_tokens (length (todos data))"]
  by (simp add: view_tokens_def head_tokens_def)


lemma decode_model_simps [simp]:
  "length (todos (decode_model data)) = length (todos data)"
  "text (decode_model data) = decode_refs True (text data)"
  "todos (decode_model data) = map (decode_refs False) (todos data)"
  by (simp_all add: decode_model_def)

lemma view_render_decoded:
  assumes "markup_free data"
  shows "view_render data = (view_dom (decode_model data))\<lparr>container_html := view_html data\<rparr>"
  using view_tokens_extract [of "decode_model data"]
  by (simp add: view_render_def view_dom_def dom_of_markup_def elements_of_def tokenize_view_html [OF assms]
                case_prod_beta comp_def del: decode_model_simps(2,3))

lemma view_render_plain:
  assumes "plain_model data"
  shows "view_render data = view_dom data"
  using view_render_decoded [OF decode_model_plain(2) [OF assms]] decode_model_plain(1) [OF assms]
  by (simp add: view_dom_def)

lemma view_dom_labels:
  "map label_text (labels (view_dom data)) = todos data"
  "map label_index (labels (view_dom data)) = map show_nat [0..<length (todos data)]"
  "list_all (\<lambda>l. \<not> editable l) (labels (view_dom data))"
  by (auto simp: view_dom_def list_all_iff in_set_enumerate_eq intro: nth_equalityI simp add: nth_enumerate_eq case_prod_beta)

lemma not_bound_view_render [simp]: "\<not> bound (view_render data)"
  by (simp add: view_render_def dom_of_markup_def elements_of_def Let_def)

lemma view_test_passes: "view_test con = Inr (con @ [''it outputs something''])"
  by (simp add: view_test_def test_notEqual_eq view_html_def templateBody_eq)

section \<open>Nesting of the rendered markup\<close>

lemma open_after_item_tokens [simp]: "open_after stk (item_tokens t i) = Some stk"
  by (cases "t = []") (simp_all add: item_tokens_def void_element_def)

lemma open_after_items:
  "open_after stk (concat (map (\<lambda>(i, t). item_tokens t i) (enumerate n ts))) = Some stk"
proof (induction ts arbitrary: n)
  case Nil
  then show ?case by simp
next
  case (Cons t ts)
  then show ?case by (simp add: open_after_append)
qed

lemma open_after_head_tokens: "open_after [] (head_tokens v) = Some [''ul'']"
  by (simp add: head_tokens_def void_element_def)

lemma open_after_tail_tokens: "open_after [''ul''] (tail_tokens n) = Some []"
  by (simp add: tail_tokens_def void_element_def)

text \<open>
  C25: the markup of a model without markup in it is well nested: every element the template opens is
  closed in order, the inputs being void.
\<close>

theorem view_html_well_nested:
  assumes "markup_free data"
  shows "well_nested (tokenize (view_html data))"
  by (simp add: well_nested_def tokenize_view_html [OF assms] view_tokens_def open_after_append
                open_after_head_tokens open_after_items open_after_tail_tokens)

lemma view_html_well_nested_witness:
  "markup_free \<lparr>text = ''milk'', todos = [''a'', ''b'']\<rparr> \<and>
   well_nested (tokenize (view_html \<lparr>text = ''milk'', todos = [''a'', ''b'']\<rparr>))"
  using view_html_well_nested [of "\<lparr>text = ''milk'', todos = [''a'', ''b'']\<rparr>"] by (simp add: markup_free_def)

section \<open>Markup in the model\<close>

text \<open>
  The template interpolates the model without escaping. What the browser reads when the
  text contains an apostrophe followed by letters (the value is cut at the apostrophe), when
  it contains \<^verbatim>\<open>' y="\<close> (the rest of the document becomes an attribute value
  and the input, the list and everything after them are lost), and when an item contains
  markup (here a second label with a forged \<^verbatim>\<open>data-index\<close>).
\<close>

lemma foldl_tstep_value_open:
  "foldl tstep tcfg0 (''\<newline><h3>todos</h3>\<newline><input type = 'checkbox'>\<newline><input id = 'text' placeholder = 'What needs to be done?' value='' @ [apos]) =
   tcfg0\<lparr>st := Attr_value_sq,
     out := [Text ''\<newline>'', Start_tag ''h3'' [], Text ''todos'', End_tag ''h3'', Text ''\<newline>'',
             Start_tag ''input'' [(''type'', ''checkbox'')], Text ''\<newline>''],
     tname := ''input'', attrs := [(''id'', ''text''), (''placeholder'', ''What needs to be done?'')], aname := ''value''\<rparr>"
  by (simp add: tokenize_simps)

lemma foldl_tstep_head_apos:
  assumes "apos \<notin> set a" and "b \<noteq> []" and "list_all is_letter b"
  shows "foldl tstep tcfg0
     (''\<newline><h3>todos</h3>\<newline><input type = 'checkbox'>\<newline><input id = 'text' placeholder = 'What needs to be done?' value='' @ [apos] @
      (a @ [apos] @ b) @ [apos] @ ''>\<newline><ul>\<newline>  '') =
   data_cfg [Text ''\<newline>'', Start_tag ''h3'' [], Text ''todos'', End_tag ''h3'', Text ''\<newline>'',
      Start_tag ''input'' [(''type'', ''checkbox'')], Text ''\<newline>'',
      Start_tag ''input'' [(''id'', ''text''), (''placeholder'', ''What needs to be done?''), (''value'', a), (b @ [apos], [])],
      Text ''\<newline>'', Start_tag ''ul'' []] ''\<newline>  ''"
proof -
  obtain x b' where b: "b = x # b'" using assms(2) by (cases b) auto
  have x: "is_letter x" and b': "list_all is_letter b'" using assms(3) b by simp_all
  show ?thesis
    using assms(1) b' is_letter_not_markup [OF x]
    by (simp only: b foldl_append append_assoc [symmetric] foldl_tstep_value_open)
       (simp add: foldl_tstep_sq_value foldl_tstep_name tokenize_simps)
qed


lemma foldl_tstep_dq_swallow:
  assumes "apos \<notin> set a" and "CHR 0x22 \<notin> set rest"
  shows "out (flush_text (foldl tstep tcfg0
     (''\<newline><h3>todos</h3>\<newline><input type = 'checkbox'>\<newline><input id = 'text' placeholder = 'What needs to be done?' value='' @ [apos] @
      a @ [apos] @ '' y='' @ [CHR 0x22] @ rest))) =
   [Text ''\<newline>'', Start_tag ''h3'' [], Text ''todos'', End_tag ''h3'', Text ''\<newline>'',
    Start_tag ''input'' [(''type'', ''checkbox'')], Text ''\<newline>'']"
  using assms
  by (simp only: foldl_append append_assoc [symmetric] foldl_tstep_value_open)
     (simp add: foldl_tstep_sq_value foldl_tstep_dq_value tokenize_simps)

lemma dq_not_in_todo_item_html:
  "CHR 0x22 \<notin> set t \<Longrightarrow> CHR 0x22 \<notin> set (todo_item_html t i)"
  by (simp add: todo_item_html_eq)

lemma tokenize_view_html_dq:
  assumes "apos \<notin> set a" and "CHR 0x22 \<notin> set c" and "list_all (\<lambda>t. CHR 0x22 \<notin> set t) (todos data)"
    and "text data = a @ [apos] @ '' y='' @ [CHR 0x22] @ c"
  shows "tokenize (view_html data) =
     [Text ''\<newline>'', Start_tag ''h3'' [], Text ''todos'', End_tag ''h3'', Text ''\<newline>'',
      Start_tag ''input'' [(''type'', ''checkbox'')], Text ''\<newline>'']"
proof -
  let ?items = "concat (map (\<lambda>(index, todo). todo_item_html todo index) (enumerate 0 (todos data)))"
  let ?tail = "''\<newline></ul>\<newline>'' @ footer_html (length (todos data)) @
     ''\<newline><style>\<newline>  label {\<newline>    width: 165px;\<newline>    display: inline-block;\<newline>  }\<newline>  #container {\<newline>    text-align: center;\<newline>  }\<newline>  ul {\<newline>    /* center */\<newline>    margin: auto;\<newline>    list-style-type: none;\<newline>    padding-left: 0;\<newline>  }\<newline></style>''"
  have items: "CHR 0x22 \<notin> set ?items"
    using assms(3) by (auto simp: dq_not_in_todo_item_html in_set_enumerate_eq list_all_iff)
  have tail: "CHR 0x22 \<notin> set ?tail" by (simp add: footer_html_def e_html_simps)
  have eq: "view_html data =
     ''\<newline><h3>todos</h3>\<newline><input type = 'checkbox'>\<newline><input id = 'text' placeholder = 'What needs to be done?' value='' @ [apos] @
      a @ [apos] @ '' y='' @ [CHR 0x22] @ (c @ [apos] @ ''>\<newline><ul>\<newline>  '' @ ?items @ ?tail)"
    by (simp only: view_html_split assms(4) append_assoc)
  have rest: "CHR 0x22 \<notin> set (c @ [apos] @ ''>\<newline><ul>\<newline>  '' @ ?items @ ?tail)"
    using assms(2) items tail by simp
  have "raw_tokens (view_html data) =
     [Text ''\<newline>'', Start_tag ''h3'' [], Text ''todos'', End_tag ''h3'', Text ''\<newline>'',
      Start_tag ''input'' [(''type'', ''checkbox'')], Text ''\<newline>'']"
    unfolding raw_tokens_def eq by (rule foldl_tstep_dq_swallow [OF assms(1) rest])
  then show ?thesis by (simp add: tokenize_def)
qed

lemma foldl_tstep_evil_item:
  "foldl tstep (data_cfg ts ''\<newline>  '') (todo_item_html (''x</label><label data-index = '' @ [apos] @ ''7'' @ [apos] @ ''>y'') 0) =
   data_cfg (ts @ [Text ''\<newline>  \<newline>  '', Start_tag ''li'' [], Text ''\<newline>    '', Start_tag ''input'' [(''type'', ''checkbox'')],
      Text ''\<newline>    '', Start_tag ''label'' [(''data-index'', ''0'')], Text ''x'', End_tag ''label'',
      Start_tag ''label'' [(''data-index'', ''7'')], Text ''y'', End_tag ''label'', Text ''\<newline>    '', Start_tag ''button'' [(''data-index'', ''0'')],
      Text ''Delete'', End_tag ''button'', Text ''\<newline>  '', End_tag ''li'']) ''\<newline>  ''"
  by (simp add: todo_item_html_eq tokenize_simps)

lemma view_render_evil:
  "view_render \<lparr>text = [], todos = [''x</label><label data-index = '' @ [apos] @ ''7'' @ [apos] @ ''>y'']\<rparr> =
     \<lparr>container_html = view_html \<lparr>text = [], todos = [''x</label><label data-index = '' @ [apos] @ ''7'' @ [apos] @ ''>y'']\<rparr>,
      input_value = Some [], boxes = [False, False],
      labels = [\<lparr>label_index = ''0'', label_text = ''x'', editable = False\<rparr>,
                \<lparr>label_index = ''7'', label_text = ''y'', editable = False\<rparr>],
      buttons = [''0''], bound = False\<rparr>"
proof -
  have "raw_tokens (view_html \<lparr>text = [], todos = [''x</label><label data-index = '' @ [apos] @ ''7'' @ [apos] @ ''>y'']\<rparr>) =
    head_tokens [] @ [Text ''\<newline>  \<newline>  '', Start_tag ''li'' [], Text ''\<newline>    '', Start_tag ''input'' [(''type'', ''checkbox'')],
      Text ''\<newline>    '', Start_tag ''label'' [(''data-index'', ''0'')], Text ''x'', End_tag ''label'',
      Start_tag ''label'' [(''data-index'', ''7'')], Text ''y'', End_tag ''label'', Text ''\<newline>    '', Start_tag ''button'' [(''data-index'', ''0'')],
      Text ''Delete'', End_tag ''button'', Text ''\<newline>  '', End_tag ''li''] @ tail_tokens 1"
    using tokenize_view_html_parts [of "\<lparr>text = [], todos = [''x</label><label data-index = '' @ [apos] @ ''7'' @ [apos] @ ''>y'']\<rparr>"
            "head_tokens []"] foldl_tstep_head [of "[]"] foldl_tstep_evil_item [of "head_tokens []"]
    by simp
  then show ?thesis
    by (simp add: view_render_def dom_of_markup_def elements_of_def head_tokens_def tail_tokens_def dataset_index_def
        tokenize_def)
qed


lemma view_render_dq:
  assumes "apos \<notin> set a" and "CHR 0x22 \<notin> set c" and "list_all (\<lambda>t. CHR 0x22 \<notin> set t) (todos data)"
    and "text data = a @ [apos] @ '' y='' @ [CHR 0x22] @ c"
  shows "view_render data =
     \<lparr>container_html = view_html data, input_value = None, boxes = [False], labels = [], buttons = [], bound = False\<rparr>"
  by (simp add: view_render_def dom_of_markup_def elements_of_def tokenize_view_html_dq [OF assms])

lemma tokenize_view_html_apos:
  assumes "apos \<notin> set a" and "b \<noteq> []" and "list_all is_letter b"
    and "list_all (\<lambda>t. CHR ''<'' \<notin> set t) (todos data)" and "text data = a @ [apos] @ b"
  shows "raw_tokens (view_html data) =
     ([Text ''\<newline>'', Start_tag ''h3'' [], Text ''todos'', End_tag ''h3'', Text ''\<newline>'',
       Start_tag ''input'' [(''type'', ''checkbox'')], Text ''\<newline>'',
       Start_tag ''input'' [(''id'', ''text''), (''placeholder'', ''What needs to be done?''), (''value'', a), (b @ [apos], [])],
       Text ''\<newline>'', Start_tag ''ul'' []] @ concat (map (\<lambda>(i, t). item_tokens t i) (enumerate 0 (todos data))))
     @ tail_tokens (length (todos data))"
proof (rule tokenize_view_html_parts)
  show "foldl tstep tcfg0
     (''\<newline><h3>todos</h3>\<newline><input type = 'checkbox'>\<newline><input id = 'text' placeholder = 'What needs to be done?' value='' @ [apos] @
      text data @ [apos] @ ''>\<newline><ul>\<newline>  '') =
     data_cfg [Text ''\<newline>'', Start_tag ''h3'' [], Text ''todos'', End_tag ''h3'', Text ''\<newline>'',
       Start_tag ''input'' [(''type'', ''checkbox'')], Text ''\<newline>'',
       Start_tag ''input'' [(''id'', ''text''), (''placeholder'', ''What needs to be done?''), (''value'', a), (b @ [apos], [])],
       Text ''\<newline>'', Start_tag ''ul'' []] ''\<newline>  ''"
    unfolding assms(5) by (rule foldl_tstep_head_apos [OF assms(1-3)])
  show "foldl tstep (data_cfg [Text ''\<newline>'', Start_tag ''h3'' [], Text ''todos'', End_tag ''h3'', Text ''\<newline>'',
       Start_tag ''input'' [(''type'', ''checkbox'')], Text ''\<newline>'',
       Start_tag ''input'' [(''id'', ''text''), (''placeholder'', ''What needs to be done?''), (''value'', a), (b @ [apos], [])],
       Text ''\<newline>'', Start_tag ''ul'' []] ''\<newline>  '')
      (concat (map (\<lambda>(index, todo). todo_item_html todo index) (enumerate 0 (todos data)))) =
    data_cfg ([Text ''\<newline>'', Start_tag ''h3'' [], Text ''todos'', End_tag ''h3'', Text ''\<newline>'',
       Start_tag ''input'' [(''type'', ''checkbox'')], Text ''\<newline>'',
       Start_tag ''input'' [(''id'', ''text''), (''placeholder'', ''What needs to be done?''), (''value'', a), (b @ [apos], [])],
       Text ''\<newline>'', Start_tag ''ul'' []] @ concat (map (\<lambda>(i, t). item_tokens t i) (enumerate 0 (todos data)))) ''\<newline>  ''"
    using assms(4) by (intro foldl_tstep_items) (simp add: list_all_iff)
qed

lemma decode_plain_items: "list_all plain_item ts \<Longrightarrow> map (decode_refs False) ts = ts"
  by (rule map_idI) (auto simp: plain_item_def list_all_iff)

lemma view_render_apos:
  assumes "apos \<notin> set a" and "b \<noteq> []" and "list_all is_letter b"
    and "list_all plain_item (todos data)" and "text data = a @ [apos] @ b" and "CHR ''&'' \<notin> set a"
  shows "view_render data = (view_dom data)\<lparr>input_value := Some a\<rparr>"
proof -
  have m: "list_all (\<lambda>t. CHR ''<'' \<notin> set t) (todos data)"
    using assms(4) by (simp add: plain_item_def list_all_iff)
  have "tokenize (view_html data) =
     ([Text ''\<newline>'', Start_tag ''h3'' [], Text ''todos'', End_tag ''h3'', Text ''\<newline>'',
       Start_tag ''input'' [(''type'', ''checkbox'')], Text ''\<newline>'',
       Start_tag ''input'' [(''id'', ''text''), (''placeholder'', ''What needs to be done?''), (''value'', a), (b @ [apos], [])],
       Text ''\<newline>'', Start_tag ''ul'' []] @ concat (map (\<lambda>(i, t). item_tokens t i) (enumerate 0 (todos data))))
     @ tail_tokens (length (todos data))"
    using assms(3,6) decode_items [of 0 "todos data"] decode_plain_items [OF assms(4)]
    by (simp add: tokenize_def tokenize_view_html_apos [OF assms(1-3) m assms(5)] tail_tokens_def)
  then show ?thesis
    using extract_items [of 0 "todos data" "tail_tokens (length (todos data))"]
    by (simp add: view_render_def view_dom_def dom_of_markup_def elements_of_def case_prod_beta comp_def)
qed

text \<open>
  C16: reading back what a render wrote: for a plain model, the labels the browser
  builds show the model's items in order, and the \<^verbatim>\<open>data-index\<close> of each label and
  of each button, read as the handlers read it (\<open>ToNumber\<close>, then an integer), is its
  position; the text input shows the model's text.
\<close>

theorem view_render_reads_back:
  assumes "plain_model data"
  shows "map label_text (labels (view_render data)) = todos data \<and>
         map (\<lambda>l. js_to_integer (label_index l)) (labels (view_render data)) = map int [0..<length (todos data)] \<and>
         map js_to_integer (buttons (view_render data)) = map int [0..<length (todos data)] \<and>
         input_value (view_render data) = Some (text data)"
proof -
  have l: "labels (view_render data) =
      map (\<lambda>(i, t). \<lparr>label_index = show_nat i, label_text = t, editable = False\<rparr>) (enumerate 0 (todos data))"
    and b: "buttons (view_render data) = map show_nat [0..<length (todos data)]"
    and v: "input_value (view_render data) = Some (text data)"
    using view_render_plain [OF assms] by (simp_all add: view_dom_def)
  have "map label_text (labels (view_render data)) = todos data"
    unfolding l by (rule nth_equalityI) (simp_all add: nth_enumerate_eq case_prod_beta)
  moreover have "map (\<lambda>l. js_to_integer (label_index l)) (labels (view_render data)) = map int [0..<length (todos data)]"
    unfolding l by (rule nth_equalityI) (simp_all add: nth_enumerate_eq case_prod_beta)
  moreover have "map js_to_integer (buttons (view_render data)) = map int [0..<length (todos data)]"
    unfolding b by simp
  ultimately show ?thesis using v by blast
qed

lemma view_render_reads_back_witness:
  "plain_model \<lparr>text = [], todos = [''a'', ''b'']\<rparr> \<and>
   map label_text (labels (view_render \<lparr>text = [], todos = [''a'', ''b'']\<rparr>)) = [''a'', ''b'']"
  using view_render_reads_back [of "\<lparr>text = [], todos = [''a'', ''b'']\<rparr>"] by (simp add: plain_model_def plain_item_def)



text \<open>The markup of the spec's example \<open>[''a'', ''b'']\<close> shows item 1 with its index.\<close>

lemma view_html_shows_item_witness:
  "1 < length (todos \<lparr>text = [], todos = [''a'', ''b'']\<rparr>) \<and>
   (\<exists>pre post. view_html \<lparr>text = [], todos = [''a'', ''b'']\<rparr> = pre @ item_markup 1 ''b'' @ post)"
  using view_html_shows_item [of 1 "\<lparr>text = [], todos = [''a'', ''b'']\<rparr>"] by simp

end
