(* ===== verification/Intent.thy ===== *)
theory Intent
  imports View
begin

text \<open>
  The controller of \<^verbatim>\<open>src/app.js\<close> (the object \<^verbatim>\<open>intent\<close>, lines 67--125): seven
  event handlers over the shared model and the elements of the document, and
  \<^verbatim>\<open>listen\<close>, which starts a 100 ms interval that attaches the handlers to every matching
  element of the document. The document is the host page's own elements (\<open>host\<close>,
  static: the script never rewrites them) followed by the container (\<open>dom\<close>, rewritten
  by every render); the queries of \<^verbatim>\<open>$\<close> see both, host elements first. The state a
  handler sees is the record \<open>page\<close>: the model, the two parts of the document, the
  alerts shown, the console, whether the interval runs and the exceptions the browser
  reported as uncaught. \<open>dispatch\<close> is the browser's delivery of one user action: the
  default action of the element (a checkbox flips, an editable label takes the typed
  text), then the handler the interval attached for that event, if it has attached it to
  that element yet.
\<close>

record page =
  model :: model
  dom :: dom
  host :: dom
  alerts :: "string list"
  console :: console
  timer :: bool
  uncaught :: "error list"

section \<open>Elements addressed by the handlers\<close>

text \<open>
  Within a part, checkboxes are addressed by their position among its elements
  \<^verbatim>\<open>[type=checkbox]\<close> (in the container, position 0 is the standalone one of the
  template) and labels by their position among its labels.
\<close>

definition box_checked :: "nat \<Rightarrow> dom \<Rightarrow> bool" where
  "box_checked k d \<longleftrightarrow> k < length (boxes d) \<and> boxes d ! k"

definition set_box_checked :: "nat \<Rightarrow> bool \<Rightarrow> dom \<Rightarrow> dom" where
  "set_box_checked k v d = d\<lparr>boxes := (boxes d)[k := v]\<rparr>"

definition update_label :: "nat \<Rightarrow> (label \<Rightarrow> label) \<Rightarrow> dom \<Rightarrow> dom" where
  "update_label i f d = d\<lparr>labels := (labels d)[i := f (labels d ! i)]\<rparr>"

definition label_editable :: "nat \<Rightarrow> dom \<Rightarrow> bool" where
  "label_editable i d \<longleftrightarrow> i < length (labels d) \<and> editable (labels d ! i)"

text \<open>The two parts of the document, and the document-wide lists the queries return.\<close>

datatype part = Host | Container

definition part_dom :: "part \<Rightarrow> page \<Rightarrow> dom" where
  "part_dom q p = (case q of Host \<Rightarrow> host p | Container \<Rightarrow> dom p)"

definition set_part_dom :: "part \<Rightarrow> dom \<Rightarrow> page \<Rightarrow> page" where
  "set_part_dom q d p = (case q of Host \<Rightarrow> p\<lparr>host := d\<rparr> | Container \<Rightarrow> p\<lparr>dom := d\<rparr>)"

definition doc_boxes :: "page \<Rightarrow> bool list" where
  "doc_boxes p = boxes (host p) @ boxes (dom p)"

definition doc_labels :: "page \<Rightarrow> label list" where
  "doc_labels p = labels (host p) @ labels (dom p)"

definition doc_buttons :: "page \<Rightarrow> string list" where
  "doc_buttons p = buttons (host p) @ buttons (dom p)"

text \<open>Element \<open>k\<close> of a document-wide list whose host part has \<open>n\<close> elements.\<close>

definition locate :: "nat \<Rightarrow> nat \<Rightarrow> part \<times> nat" where
  "locate n k = (if k < n then (Host, k) else (Container, k - n))"

text \<open>\<^verbatim>\<open>$('#text')[0]\<close>: the first element with id \<^verbatim>\<open>text\<close> is in the host page if it has one.\<close>

definition input_part :: "page \<Rightarrow> part" where
  "input_part p = (if input_value (host p) \<noteq> None then Host else Container)"

definition doc_input :: "page \<Rightarrow> string option" where
  "doc_input p = input_value (part_dom (input_part p) p)"

text \<open>A part with no text input, label or button; it may hold checkboxes.\<close>

definition quiet :: "dom \<Rightarrow> bool" where
  "quiet d \<longleftrightarrow> input_value d = None \<and> labels d = [] \<and> buttons d = []"

section \<open>Handlers\<close>

text \<open>
  \<^verbatim>\<open>inputHandler\<close> (keyup on \<^verbatim>\<open>#text\<close>): copy the input's value into the model; on
  Enter (key code 13) push the value, clear the text and render. Both reads of
  \<^verbatim>\<open>$('#text')[0].value\<close> see the same element and value; without such an element the
  first read throws.
\<close>

definition inputHandler :: "nat \<Rightarrow> page \<Rightarrow> error + page" where
  "inputHandler keyCode p =
     (case doc_input p of
        None \<Rightarrow> Inl Type_error
      | Some v \<Rightarrow>
          (let p1 = p\<lparr>model := (model p)\<lparr>text := v\<rparr>\<rparr>
           in if keyCode = 13
              then (let m = (model p1)\<lparr>todos := todos (model p1) @ [v]\<rparr>;
                        m' = m\<lparr>text := []\<rparr>
                    in Inr (p1\<lparr>model := m', dom := view_render m'\<rparr>))
              else Inr p1))"

definition italian_alert :: string where
  "italian_alert = ''It's an Italian todo. Italians never finish things, like Expo''"

text \<open>
  \<^verbatim>\<open>completedHandler\<close> (change on a checkbox, here checkbox \<open>k\<close> of part \<open>q\<close>):
  alert if the box is now checked, then uncheck it.
\<close>

definition completedHandler :: "part \<Rightarrow> nat \<Rightarrow> page \<Rightarrow> page" where
  "completedHandler q k p =
     (let p1 = (if box_checked k (part_dom q p) then p\<lparr>alerts := alerts p @ [italian_alert]\<rparr> else p)
      in set_part_dom q (set_box_checked k False (part_dom q p1)) p1)"

text \<open>
  \<^verbatim>\<open>deleteHandler\<close> (click on a button): \<^verbatim>\<open>model.todos.splice(index, 1)\<close> with the
  button's \<^verbatim>\<open>data-index\<close> string, then render.
\<close>

definition deleteHandler :: "string \<Rightarrow> page \<Rightarrow> page" where
  "deleteHandler index p =
     (let m = (model p)\<lparr>todos := js_splice1 (js_to_integer index) (todos (model p))\<rparr>
      in p\<lparr>model := m, dom := view_render m\<rparr>)"

text \<open>\<^verbatim>\<open>editHandler\<close> (dblclick on label \<open>i\<close> of part \<open>q\<close>): make the label editable.\<close>

definition editHandler :: "part \<Rightarrow> nat \<Rightarrow> page \<Rightarrow> page" where
  "editHandler q i p = set_part_dom q (update_label i (\<lambda>l. l\<lparr>editable := True\<rparr>) (part_dom q p)) p"

text \<open>
  \<^verbatim>\<open>input2Handler\<close> (input on a label): \<^verbatim>\<open>model.todos[index] = event.target.textContent\<close>
  with the label's \<^verbatim>\<open>data-index\<close> string as the property key. No render.
\<close>

definition input2Handler :: "string \<Rightarrow> string \<Rightarrow> page \<Rightarrow> error + page" where
  "input2Handler index content p =
     (case js_array_set (todos (model p)) index content of
        Inl e \<Rightarrow> Inl e
      | Inr ts \<Rightarrow> Inr (p\<lparr>model := (model p)\<lparr>todos := ts\<rparr>\<rparr>))"

text \<open>\<^verbatim>\<open>endEditHandler\<close> (blur on label \<open>i\<close> of part \<open>q\<close>): make the label non-editable.\<close>

definition endEditHandler :: "part \<Rightarrow> nat \<Rightarrow> page \<Rightarrow> page" where
  "endEditHandler q i p = set_part_dom q (update_label i (\<lambda>l. l\<lparr>editable := False\<rparr>) (part_dom q p)) p"

text \<open>
  \<^verbatim>\<open>event.target.blur()\<close> on a focused label fires its \<^verbatim>\<open>blur\<close> event, whose listener
  is \<^verbatim>\<open>endEditHandler\<close> once the interval has attached it.
\<close>

definition label_blur :: "part \<Rightarrow> nat \<Rightarrow> page \<Rightarrow> page" where
  "label_blur q i p = (if bound (part_dom q p) then endEditHandler q i p else p)"

text \<open>
  \<^verbatim>\<open>escOrEnterHandler\<close> (keypress on a label): if \<^verbatim>\<open>[13, 27].indexOf(event.keyCode) !== -1\<close>,
  that is for Enter or Escape, blur the label.
\<close>

definition escOrEnterHandler :: "part \<Rightarrow> nat \<Rightarrow> nat \<Rightarrow> page \<Rightarrow> page" where
  "escOrEnterHandler q i keyCode p = (if js_indexOf [13, 27] keyCode \<noteq> -1 then label_blur q i p else p)"

section \<open>Attaching the listeners\<close>

text \<open>
  \<^verbatim>\<open>intent.listen\<close> starts the interval; each run of its callback first attaches
  \<open>inputHandler\<close> to \<^verbatim>\<open>$('#text')[0]\<close>, which throws when the document has no such
  element, ending the run before anything else is attached; otherwise it attaches the
  handlers to every checkbox, button and label of the document. Attaching the same listener
  twice has no effect, and all the elements of a part come from the same render (or from
  the host page), so one flag per part says whether its elements carry their listeners.
\<close>

definition listen :: "page \<Rightarrow> page" where
  "listen p = p\<lparr>timer := True\<rparr>"

definition listen_tick :: "page \<Rightarrow> error + page" where
  "listen_tick p =
     (case doc_input p of
        None \<Rightarrow> Inl Type_error
      | Some _ \<Rightarrow> Inr (p\<lparr>host := (host p)\<lparr>bound := True\<rparr>, dom := (dom p)\<lparr>bound := True\<rparr>\<rparr>))"

section \<open>User actions and their delivery\<close>

text \<open>
  What a user can do to the page. \<open>Type s\<close> leaves \<open>s\<close> in the text input
  \<^verbatim>\<open>$('#text')[0]\<close> (the browser's default action; no listener watches it),
  \<open>Key_up k\<close> releases a key in it, \<open>Toggle k\<close> clicks checkbox \<open>k\<close> of the document,
  \<open>Click_delete k\<close> clicks button \<open>k\<close>, \<open>Dbl_click k\<close>, \<open>Edit_label k s\<close>,
  \<open>Key_press k c\<close> and \<open>Blur k\<close> act on label \<open>k\<close> (\<open>Edit_label k s\<close> leaves
  \<open>s\<close> as its content); \<open>Tick\<close> is one run of the interval's callback. Positions are
  document-wide, in document order.
\<close>

datatype action =
    Type string
  | Key_up nat
  | Toggle nat
  | Click_delete nat
  | Dbl_click nat
  | Edit_label nat string
  | Key_press nat nat
  | Blur nat
  | Tick

text \<open>
  An action needs its element: the text input, the checkbox, button or label at that
  position; a label can be focused, typed into and blurred only while it is editable; the
  interval runs only after \<^verbatim>\<open>listen\<close>. An action that the page cannot take is
  \<open>No_target\<close>. An exception thrown by the interval's callback is reported by the
  browser (\<open>uncaught\<close>) and the page goes on. Focus is not tracked beyond that: the
  actions a user can take are over-approximated, which is sound for the invariants of
  \<open>App\<close>.
\<close>

fun dispatch :: "action \<Rightarrow> page \<Rightarrow> error + page" where
  "dispatch (Type s) p =
     (case doc_input p of
        None \<Rightarrow> Inl No_target
      | Some _ \<Rightarrow> Inr (set_part_dom (input_part p)
                        ((part_dom (input_part p) p)\<lparr>input_value := Some s\<rparr>) p))"
| "dispatch (Key_up k) p =
     (case doc_input p of
        None \<Rightarrow> Inl No_target
      | Some _ \<Rightarrow> (if bound (part_dom (input_part p) p) then inputHandler k p else Inr p))"
| "dispatch (Toggle k) p =
     (if k < length (doc_boxes p)
      then (case locate (length (boxes (host p))) k of (q, j) \<Rightarrow>
              let p1 = set_part_dom q (set_box_checked j (\<not> box_checked j (part_dom q p)) (part_dom q p)) p
              in Inr (if bound (part_dom q p1) then completedHandler q j p1 else p1))
      else Inl No_target)"
| "dispatch (Click_delete k) p =
     (if k < length (doc_buttons p)
      then (case locate (length (buttons (host p))) k of (q, j) \<Rightarrow>
              Inr (if bound (part_dom q p) then deleteHandler (doc_buttons p ! k) p else p))
      else Inl No_target)"
| "dispatch (Dbl_click k) p =
     (if k < length (doc_labels p)
      then (case locate (length (labels (host p))) k of (q, j) \<Rightarrow>
              Inr (if bound (part_dom q p) then editHandler q j p else p))
      else Inl No_target)"
| "dispatch (Edit_label k s) p =
     (case locate (length (labels (host p))) k of (q, j) \<Rightarrow>
        if label_editable j (part_dom q p)
        then (let p1 = set_part_dom q (update_label j (\<lambda>l. l\<lparr>label_text := s\<rparr>) (part_dom q p)) p
              in if bound (part_dom q p1)
                 then input2Handler (label_index (labels (part_dom q p1) ! j))
                        (label_text (labels (part_dom q p1) ! j)) p1
                 else Inr p1)
        else Inl No_target)"
| "dispatch (Key_press k c) p =
     (case locate (length (labels (host p))) k of (q, j) \<Rightarrow>
        if label_editable j (part_dom q p)
        then Inr (if bound (part_dom q p) then escOrEnterHandler q j c p else p)
        else Inl No_target)"
| "dispatch (Blur k) p =
     (case locate (length (labels (host p))) k of (q, j) \<Rightarrow>
        if label_editable j (part_dom q p) then Inr (label_blur q j p) else Inl No_target)"
| "dispatch Tick p =
     (if timer p
      then (case listen_tick p of
              Inl e \<Rightarrow> Inr (p\<lparr>uncaught := uncaught p @ [e]\<rparr>)
            | Inr p' \<Rightarrow> Inr p')
      else Inl No_target)"

section \<open>Properties of the handlers\<close>

lemma labels_update_label: "labels (update_label i f d) = (labels d)[i := f (labels d ! i)]"
  by (simp add: update_label_def)

lemma dom_frame [simp]:
  "bound (update_label i f d) = bound d"
  "boxes (update_label i f d) = boxes d"
  "buttons (update_label i f d) = buttons d"
  "input_value (update_label i f d) = input_value d"
  "bound (set_box_checked k v d) = bound d"
  "labels (set_box_checked k v d) = labels d"
  "buttons (set_box_checked k v d) = buttons d"
  "input_value (set_box_checked k v d) = input_value d"
  "length (boxes (set_box_checked k v d)) = length (boxes d)"
  by (simp_all add: update_label_def set_box_checked_def)

lemma part_dom_simps [simp]:
  "part_dom Container p = dom p"
  "part_dom Host p = host p"
  "set_part_dom Container d p = p\<lparr>dom := d\<rparr>"
  "set_part_dom Host d p = p\<lparr>host := d\<rparr>"
  by (simp_all add: part_dom_def set_part_dom_def)

lemma model_set_part_dom [simp]:
  "model (set_part_dom q d p) = model p"
  "alerts (set_part_dom q d p) = alerts p"
  "timer (set_part_dom q d p) = timer p"
  "uncaught (set_part_dom q d p) = uncaught p"
  by (cases q; simp)+

lemma model_frame [simp]:
  "model (editHandler q i p) = model p"
  "model (endEditHandler q i p) = model p"
  "model (label_blur q i p) = model p"
  "model (escOrEnterHandler q i k p) = model p"
  "model (completedHandler q k p) = model p"
  by (simp_all add: editHandler_def endEditHandler_def label_blur_def escOrEnterHandler_def
                    completedHandler_def Let_def)

lemma host_frame [simp]:
  "host (completedHandler Container k p) = host p"
  "host (editHandler Container i p) = host p"
  "host (endEditHandler Container i p) = host p"
  "host (label_blur Container i p) = host p"
  "host (escOrEnterHandler Container i c p) = host p"
  "host (deleteHandler s p) = host p"
  by (simp_all add: completedHandler_def editHandler_def endEditHandler_def label_blur_def
      escOrEnterHandler_def deleteHandler_def Let_def)

lemma host_Inr:
  "inputHandler k p = Inr p' \<Longrightarrow> host p' = host p"
  "input2Handler s t p = Inr p' \<Longrightarrow> host p' = host p"
  by (auto simp: inputHandler_def input2Handler_def Let_def split: option.splits sum.splits if_splits)

lemma completedHandler_Container_fields:
  "dom (completedHandler Container j p) = set_box_checked j False (dom p)"
  "console (completedHandler Container j p) = console p"
  "timer (completedHandler Container j p) = timer p"
  "uncaught (completedHandler Container j p) = uncaught p"
  by (simp_all add: completedHandler_def Let_def)

text \<open>
  With a quiet host page the text input, the labels and the buttons of the document are
  the container's; without host checkboxes so are the checkboxes.
\<close>

lemma quiet_host [simp]:
  "quiet (host p) \<Longrightarrow> doc_labels p = labels (dom p)"
  "quiet (host p) \<Longrightarrow> doc_buttons p = buttons (dom p)"
  "quiet (host p) \<Longrightarrow> input_part p = Container"
  "quiet (host p) \<Longrightarrow> doc_input p = input_value (dom p)"
  "quiet (host p) \<Longrightarrow> length (labels (host p)) = 0"
  "quiet (host p) \<Longrightarrow> length (buttons (host p)) = 0"
  by (simp_all add: quiet_def doc_labels_def doc_buttons_def input_part_def doc_input_def)

lemma no_host_input [simp]:
  "input_value (host p) = None \<Longrightarrow> input_part p = Container"
  "input_value (host p) = None \<Longrightarrow> doc_input p = input_value (dom p)"
  by (simp_all add: input_part_def doc_input_def)

lemma doc_boxes_no_host [simp]: "boxes (host p) = [] \<Longrightarrow> doc_boxes p = boxes (dom p)"
  by (simp add: doc_boxes_def)

lemma quiet_dom_empty [simp]: "quiet dom_empty" "quiet (dom_empty\<lparr>bound := b\<rparr>)"
  by (simp_all add: quiet_def dom_empty_def)

lemma dom_empty_simps [simp]:
  "input_value dom_empty = None" "boxes dom_empty = []" "labels dom_empty = []"
  "buttons dom_empty = []" "bound dom_empty = False"
  by (simp_all add: dom_empty_def)

lemma doc_frame [simp]:
  "doc_input (p\<lparr>uncaught := u\<rparr>) = doc_input p" "input_part (p\<lparr>uncaught := u\<rparr>) = input_part p"
  "doc_input (p\<lparr>alerts := al\<rparr>) = doc_input p" "input_part (p\<lparr>alerts := al\<rparr>) = input_part p"
  "doc_input (p\<lparr>model := m\<rparr>) = doc_input p" "input_part (p\<lparr>model := m\<rparr>) = input_part p"
  by (simp_all add: doc_input_def input_part_def part_dom_def)

lemma locate_0 [simp]: "locate 0 k = (Container, k)"
  by (simp add: locate_def)

lemma box_checked_set_box_checked:
  "box_checked k (set_box_checked k v d) \<longleftrightarrow> v \<and> k < length (boxes d)"
  by (auto simp: box_checked_def set_box_checked_def)

text \<open>Enter in the text input appends the input's value, clears the text and renders.\<close>

lemma inputHandler_enter:
  "doc_input p = Some v \<Longrightarrow>
   inputHandler 13 p =
     (let m = (model p)\<lparr>todos := todos (model p) @ [v], text := []\<rparr>
      in Inr (p\<lparr>model := m, dom := view_render m\<rparr>))"
  by (simp add: inputHandler_def Let_def)

lemma inputHandler_other:
  "doc_input p = Some v \<Longrightarrow> k \<noteq> 13 \<Longrightarrow>
   inputHandler k p = Inr (p\<lparr>model := (model p)\<lparr>text := v\<rparr>\<rparr>)"
  by (simp add: inputHandler_def)

lemma listen_tick_Some:
  "doc_input p = Some v \<Longrightarrow>
   listen_tick p = Inr (p\<lparr>host := (host p)\<lparr>bound := True\<rparr>, dom := (dom p)\<lparr>bound := True\<rparr>\<rparr>)"
  by (simp add: listen_tick_def)

text \<open>
  C10: a click on the delete button that carries index \<open>i\<close> removes item \<open>i\<close> and
  moves the later items down by one; an index past the end (a stale button) deletes
  nothing. The page is rendered from the new model.
\<close>

theorem deleteHandler_index:
  "model (deleteHandler (show_nat i) p) = (model p)\<lparr>todos := take i (todos (model p)) @ drop (Suc i) (todos (model p))\<rparr>
   \<and> dom (deleteHandler (show_nat i) p) = view_render (model (deleteHandler (show_nat i) p))"
  by (simp add: deleteHandler_def Let_def)

text \<open>
  C11: the completion handler never changes the model and always leaves the box it
  handles unchecked; it alerts exactly when the box was checked.
\<close>

theorem completedHandler_reverts:
  "model (completedHandler q k p) = model p \<and>
   \<not> box_checked k (part_dom q (completedHandler q k p)) \<and>
   alerts (completedHandler q k p) =
     alerts p @ (if box_checked k (part_dom q p) then [italian_alert] else [])"
  by (cases q) (simp_all add: completedHandler_def Let_def box_checked_set_box_checked)

text \<open>
  C12: the label edit handler does not check its index against the list: an index inside
  the list replaces that item, the index equal to the length appends a new item, and an
  index further out takes the branch that would grow the array with holes
  (\<open>Array_holes\<close>).
\<close>

theorem input2Handler_index:
  "input2Handler (show_nat k) s p =
     (if k < length (todos (model p)) then Inr (p\<lparr>model := (model p)\<lparr>todos := (todos (model p))[k := s]\<rparr>\<rparr>)
      else if k = length (todos (model p)) then Inr (p\<lparr>model := (model p)\<lparr>todos := todos (model p) @ [s]\<rparr>\<rparr>)
      else Inl Array_holes)"
  by (simp add: input2Handler_def js_array_set_def)

text \<open>
  C23: a keypress on a label being edited, once its listeners are attached, ends the
  edit exactly for Enter and Escape: \<^verbatim>\<open>[13, 27].indexOf(keyCode) !== -1\<close> holds for
  the key codes 13 and 27 only, the label's \<^verbatim>\<open>blur()\<close> then runs
  \<open>endEditHandler\<close>, which makes that label non-editable and changes nothing else of
  it; any other key leaves the page as it is. The model is never changed.
\<close>

theorem key_press_ends_edit:
  assumes "locate (length (labels (host p))) k = (q, j)"
    and "label_editable j (part_dom q p)" and "bound (part_dom q p)"
  shows "\<exists>p'. dispatch (Key_press k c) p = Inr p' \<and> model p' = model p \<and>
           (if c = 13 \<or> c = 27
            then \<not> label_editable j (part_dom q p') \<and>
                 labels (part_dom q p') ! j = (labels (part_dom q p) ! j)\<lparr>editable := False\<rparr>
            else p' = p)"
  using assms
  by (cases q) (auto simp: escOrEnterHandler_def label_blur_def endEditHandler_def label_editable_def
                  labels_update_label)

lemma key_press_ends_edit_witness:
  "locate (length (labels dom_empty)) 0 = (Container, 0) \<and>
   label_editable 0 (dom_empty\<lparr>labels := [\<lparr>label_index = ''0'', label_text = ''a'', editable = True\<rparr>], bound := True\<rparr>) \<and>
   (\<exists>p'. dispatch (Key_press 0 27)
           \<lparr>model = \<lparr>text = [], todos = [''a'']\<rparr>,
            dom = dom_empty\<lparr>labels := [\<lparr>label_index = ''0'', label_text = ''a'', editable = True\<rparr>], bound := True\<rparr>,
            host = dom_empty, alerts = [], console = [], timer = True, uncaught = []\<rparr> = Inr p' \<and>
         \<not> label_editable 0 (dom p'))"
  using key_press_ends_edit [of "\<lparr>model = \<lparr>text = [], todos = [''a'']\<rparr>,
            dom = dom_empty\<lparr>labels := [\<lparr>label_index = ''0'', label_text = ''a'', editable = True\<rparr>], bound := True\<rparr>,
            host = dom_empty, alerts = [], console = [], timer = True, uncaught = []\<rparr>" 0 Container 0 27]
  by (simp add: label_editable_def dom_empty_def)

text \<open>
  C24: typing into the text input and releasing a key other than Enter, once its listener
  is attached, copies the input's value into the model's text (line 70) and does
  nothing else: the list and the elements stay, nothing is rendered.
\<close>

theorem type_then_key_up_sets_text:
  assumes "doc_input p \<noteq> None" and "bound (part_dom (input_part p) p)" and "k \<noteq> 13"
  shows "\<exists>p1 p2. dispatch (Type s) p = Inr p1 \<and> dispatch (Key_up k) p1 = Inr p2 \<and>
           text (model p2) = s \<and> todos (model p2) = todos (model p) \<and>
           dom p2 = dom p1 \<and> host p2 = host p1"
  using assms
  by (cases "input_part p") (auto simp: doc_input_def input_part_def inputHandler_def split: if_splits)

lemma type_then_key_up_sets_text_witness:
  "doc_input \<lparr>model = \<lparr>text = [], todos = []\<rparr>, dom = dom_empty\<lparr>input_value := Some [], bound := True\<rparr>,
       host = dom_empty, alerts = [], console = [], timer = True, uncaught = []\<rparr> \<noteq> None \<and>
   bound (part_dom (input_part \<lparr>model = \<lparr>text = [], todos = []\<rparr>, dom = dom_empty\<lparr>input_value := Some [], bound := True\<rparr>,
       host = dom_empty, alerts = [], console = [], timer = True, uncaught = []\<rparr>)
     \<lparr>model = \<lparr>text = [], todos = []\<rparr>, dom = dom_empty\<lparr>input_value := Some [], bound := True\<rparr>,
       host = dom_empty, alerts = [], console = [], timer = True, uncaught = []\<rparr>) \<and>
   (\<exists>p1 p2. dispatch (Type ''milk'') \<lparr>model = \<lparr>text = [], todos = []\<rparr>, dom = dom_empty\<lparr>input_value := Some [], bound := True\<rparr>,
       host = dom_empty, alerts = [], console = [], timer = True, uncaught = []\<rparr> = Inr p1 \<and>
     dispatch (Key_up 75) p1 = Inr p2 \<and> text (model p2) = ''milk'')"
  using type_then_key_up_sets_text [of "\<lparr>model = \<lparr>text = [], todos = []\<rparr>, dom = dom_empty\<lparr>input_value := Some [], bound := True\<rparr>,
       host = dom_empty, alerts = [], console = [], timer = True, uncaught = []\<rparr>" 75 "''milk''"]
  by (simp add: doc_input_def input_part_def dom_empty_def) blast

end
