(* ===== verification/App.thy ===== *)
theory App
  imports Intent
begin

text \<open>
  The program as a whole: \<^verbatim>\<open>main\<close> (lines 129--140 of \<^verbatim>\<open>src/app.js\<close>, with the
  constant \<^verbatim>\<open>development\<close> of line 3) runs the two self-tests, renders the empty model
  and starts the listener interval; afterwards every change of the page is one user action
  delivered by \<open>dispatch\<close>. The pages reachable under a set of actions are those
  \<^verbatim>\<open>main\<close> produces and those a sequence of such actions leads to from there; the
  plain actions type no \<^verbatim>\<open><\<close>, \<^verbatim>\<open>&\<close> or apostrophe into the text input and no
  \<^verbatim>\<open><\<close> or \<^verbatim>\<open>&\<close> into a label. The invariant \<open>page_inv\<close> of the pages reachable by plain actions says
  that the rendered labels and buttons are the model's items, in order, each carrying its
  own position, that the text input exists, that a label is editable only when the
  listeners are attached, and that nothing has thrown.
\<close>

definition development :: bool where
  "development = True"

definition main :: "page \<Rightarrow> error + page" where
  "main p =
     (let tests = (if development
                   then (case e_test (console p) of Inl e \<Rightarrow> Inl e | Inr con \<Rightarrow> view_test con)
                   else Inr (console p))
      in case tests of
           Inl e \<Rightarrow> Inl e
         | Inr con \<Rightarrow> Inr (listen (p\<lparr>console := con, dom := view_render (model p)\<rparr>)))"

text \<open>
  The page when the script starts on a host page with markup \<open>doc\<close>: the model of lines
  29--32, the container of lines 10--12 (empty until the first render) and the host page's
  other elements, none with listeners. \<open>page_init\<close> is the start on an empty page.
\<close>

definition page_init_in :: "string \<Rightarrow> page" where
  "page_init_in doc =
     \<lparr>model = model_init, dom = dom_empty, host = elements_of (container_outside (tokenize doc)),
      alerts = [], console = [], timer = False, uncaught = []\<rparr>"

definition page_init :: page where
  "page_init = page_init_in []"

definition plain_input :: "string \<Rightarrow> bool" where
  "plain_input s \<longleftrightarrow> plain_item s \<and> apos \<notin> set s"

fun plain_action :: "action \<Rightarrow> bool" where
  "plain_action (Type s) = plain_input s"
| "plain_action (Edit_label k s) = plain_item s"
| "plain_action a = True"

inductive reachable_under :: "(action \<Rightarrow> bool) \<Rightarrow> string \<Rightarrow> page \<Rightarrow> bool" for ok doc where
  started: "main (page_init_in doc) = Inr p \<Longrightarrow> reachable_under ok doc p"
| stepped: "reachable_under ok doc p \<Longrightarrow> ok a \<Longrightarrow> dispatch a p = Inr p' \<Longrightarrow> reachable_under ok doc p'"

abbreviation reachable :: "page \<Rightarrow> bool" where
  "reachable \<equiv> reachable_under (\<lambda>a. True) []"

definition page_inv :: "page \<Rightarrow> bool" where
  "page_inv p \<longleftrightarrow>
     plain_input (text (model p)) \<and> list_all plain_item (todos (model p)) \<and>
     (case input_value (dom p) of None \<Rightarrow> False | Some v \<Rightarrow> plain_input v) \<and>
     map label_text (labels (dom p)) = todos (model p) \<and>
     map label_index (labels (dom p)) = map show_nat [0..<length (todos (model p))] \<and>
     buttons (dom p) = map show_nat [0..<length (todos (model p))] \<and>
     length (boxes (dom p)) = Suc (length (todos (model p))) \<and>
     list_all (\<lambda>l. editable l \<longrightarrow> bound (dom p)) (labels (dom p)) \<and>
     timer p \<and> uncaught p = [] \<and> quiet (host p)"

text \<open>
  A page on which nothing more can happen to the list: no text input, no label, no button
  in the document, no listener on the container. The interval's callback throws before it
  attaches anything.
\<close>

definition frozen :: "page \<Rightarrow> bool" where
  "frozen p \<longleftrightarrow> doc_input p = None \<and> doc_labels p = [] \<and> doc_buttons p = [] \<and> \<not> bound (dom p)"

section \<open>Abstract specification of the list\<close>

text \<open>
  What the user's actions do to the list of items, stated without the page: append an
  item, remove the item at a position (the later ones move down), replace the item at a
  position, or leave the list alone.
\<close>

datatype todo_op = Add string | Remove nat | Replace nat string | Keep

fun apply_op :: "todo_op \<Rightarrow> string list \<Rightarrow> string list" where
  "apply_op (Add s) ts = ts @ [s]"
| "apply_op (Remove i) ts = take i ts @ drop (Suc i) ts"
| "apply_op (Replace i s) ts = ts[i := s]"
| "apply_op Keep ts = ts"

text \<open>
  The operation a user action means on a page: Enter in the text input adds the input's
  value, a click on delete button \<open>i\<close> removes item \<open>i\<close>, editing label \<open>i\<close>
  replaces item \<open>i\<close>, all once the listeners are attached; anything else keeps the list.
  (Stated for a page whose host part holds no element the program queries.)
\<close>

fun abstract_action :: "page \<Rightarrow> action \<Rightarrow> todo_op" where
  "abstract_action p (Key_up k) =
     (case input_value (dom p) of
        Some v \<Rightarrow> (if bound (dom p) \<and> k = 13 then Add v else Keep)
      | None \<Rightarrow> Keep)"
| "abstract_action p (Click_delete i) = (if bound (dom p) then Remove i else Keep)"
| "abstract_action p (Edit_label i s) = (if bound (dom p) then Replace i s else Keep)"
| "abstract_action p a = Keep"

section \<open>Runs\<close>

text \<open>A sequence of user actions, delivered one after the other; the first one the page cannot take stops the run.\<close>

fun run :: "action list \<Rightarrow> page \<Rightarrow> error + page" where
  "run [] p = Inr p"
| "run (a # as) p = (case dispatch a p of Inl e \<Rightarrow> Inl e | Inr p' \<Rightarrow> run as p')"

text \<open>
  What the program itself holds of a page: the model, the container's elements, the console,
  the interval and the exceptions reported; the host page's elements and the alerts shown
  are left out.
\<close>

definition app_state :: "page \<Rightarrow> model \<times> dom \<times> console \<times> bool \<times> error list" where
  "app_state p = (model p, dom p, console p, timer p, uncaught p)"

text \<open>The console after the two self-tests, and a page freshly rendered from a model.\<close>

abbreviation started_console :: console where
  "started_console \<equiv> [''it outputs \"Hello, world!\"'', ''it outputs something'']"

abbreviation page_at :: "model \<Rightarrow> bool \<Rightarrow> bool \<Rightarrow> page" where
  "page_at m b hb \<equiv>
     \<lparr>model = m, dom = (view_render m)\<lparr>bound := b\<rparr>, host = dom_empty\<lparr>bound := hb\<rparr>, alerts = [],
      console = started_console, timer = True, uncaught = []\<rparr>"

text \<open>The page \<^verbatim>\<open>main\<close> leaves on an empty host page, and a page after the interval has run.\<close>

abbreviation started_page :: page where
  "started_page \<equiv> page_at model_init False False"

abbreviation fresh_page :: "model \<Rightarrow> bool \<Rightarrow> page" where
  "fresh_page m b \<equiv> page_at m b True"

section \<open>Start-up\<close>

lemma page_init_eq:
  "page_init = \<lparr>model = model_init, dom = dom_empty, host = dom_empty, alerts = [], console = [],
                timer = False, uncaught = []\<rparr>"
  by (simp add: page_init_def page_init_in_def tokenize_def raw_tokens_def tcfg0_def flush_text_def container_outside_def
      elements_of_def dom_empty_def text_input_value_def checkboxes_of_def labels_of_def buttons_of_def)

lemma main_page_init_eq: "main page_init = Inr (started_page)"
  by (simp add: main_def development_def e_test_passes view_test_passes listen_def page_init_eq dom_empty_def)

section \<open>The invariant\<close>

lemma page_inv_rendered:
  assumes "plain_input (text m)" and "list_all plain_item (todos m)"
    and "timer p" and "uncaught p = []" and "quiet (host p)"
  shows "page_inv (p\<lparr>model := m, dom := view_render m\<rparr>)"
proof -
  have "plain_model m" using assms(1,2) by (simp add: plain_model_def plain_input_def plain_item_def)
  then have "view_render m = view_dom m" by (rule view_render_plain)
  with assms view_dom_labels [of m] show ?thesis
    by (auto simp: page_inv_def view_dom_def list_all_iff)
qed

lemma page_inv_started:
  assumes "main (page_init_in doc) = Inr p" and "quiet (host (page_init_in doc))"
  shows "page_inv p"
proof -
  have "p = ((page_init_in doc)\<lparr>timer := True, console := started_console\<rparr>)
              \<lparr>model := model_init, dom := view_render model_init\<rparr>"
    using assms(1)
    by (simp add: main_def development_def e_test_passes view_test_passes listen_def page_init_in_def)
  moreover have "page_inv (((page_init_in doc)\<lparr>timer := True, console := started_console\<rparr>)
                             \<lparr>model := model_init, dom := view_render model_init\<rparr>)"
    by (rule page_inv_rendered) (use assms(2) in \<open>simp_all add: model_init_def plain_input_def plain_item_def page_init_in_def\<close>)
  ultimately show ?thesis by simp
qed

text \<open>On a page of the invariant the document is the container.\<close>

lemma page_inv_doc [simp]:
  "page_inv p \<Longrightarrow> doc_labels p = labels (dom p)"
  "page_inv p \<Longrightarrow> doc_buttons p = buttons (dom p)"
  "page_inv p \<Longrightarrow> input_part p = Container"
  "page_inv p \<Longrightarrow> doc_input p = input_value (dom p)"
  "page_inv p \<Longrightarrow> length (labels (host p)) = 0"
  "page_inv p \<Longrightarrow> length (buttons (host p)) = 0"
  by (simp_all add: page_inv_def)

lemma page_inv_input:
  assumes "page_inv p"
  obtains v where "input_value (dom p) = Some v" and "plain_input v"
  using assms by (cases "input_value (dom p)") (auto simp: page_inv_def)

lemma page_inv_label_nth:
  assumes "page_inv p" and "i < length (labels (dom p))"
  shows "label_index (labels (dom p) ! i) = show_nat i" and "i < length (todos (model p))"
    and "editable (labels (dom p) ! i) \<Longrightarrow> bound (dom p)"
proof -
  have idx: "map label_index (labels (dom p)) = map show_nat [0..<length (todos (model p))]"
    and tx: "map label_text (labels (dom p)) = todos (model p)"
    and ed: "list_all (\<lambda>l. editable l \<longrightarrow> bound (dom p)) (labels (dom p))"
    using assms(1) by (simp_all add: page_inv_def)
  from tx have len: "length (labels (dom p)) = length (todos (model p))" by (metis length_map)
  with assms(2) show "i < length (todos (model p))" by simp
  from idx assms(2) len show "label_index (labels (dom p) ! i) = show_nat i"
    by (metis diff_zero length_map length_upt nth_map nth_upt plus_nat.add_0)
  from ed assms(2) show "editable (labels (dom p) ! i) \<Longrightarrow> bound (dom p)"
    by (simp add: list_all_length)
qed

lemma page_inv_buttons_nth:
  "page_inv p \<Longrightarrow> i < length (buttons (dom p)) \<Longrightarrow> buttons (dom p) ! i = show_nat i"
  by (simp add: page_inv_def)

lemma page_inv_bound_editable:
  "page_inv p \<Longrightarrow> label_editable i (dom p) \<Longrightarrow> bound (dom p)"
  by (auto simp: label_editable_def dest: page_inv_label_nth(3))

lemma page_inv_update_label:
  assumes "page_inv p"
    and "\<And>l. label_index (f l) = label_index l" and "\<And>l. label_text (f l) = label_text l"
    and "i < length (labels (dom p)) \<Longrightarrow> editable (f (labels (dom p) ! i)) \<Longrightarrow> bound (dom p)"
  shows "page_inv (p\<lparr>dom := update_label i f (dom p)\<rparr>)"
proof -
  have "list_all (\<lambda>l. editable l \<longrightarrow> bound (dom p)) ((labels (dom p))[i := f (labels (dom p) ! i)])"
    using assms(1,4)
    by (cases "i < length (labels (dom p))") (auto simp: page_inv_def list_all_length nth_list_update)
  with assms(1-3) show ?thesis
    by (simp add: page_inv_def labels_update_label map_list_update_same)
qed

lemma page_inv_frame [simp]:
  "page_inv (p\<lparr>alerts := a\<rparr>) = page_inv p"
  "page_inv (p\<lparr>dom := set_box_checked k v (dom p)\<rparr>) = page_inv p"
  by (simp_all add: page_inv_def)

lemma page_inv_bind:
  "page_inv p \<Longrightarrow> page_inv (p\<lparr>host := (host p)\<lparr>bound := True\<rparr>, dom := (dom p)\<lparr>bound := True\<rparr>\<rparr>)"
  by (simp add: page_inv_def list_all_iff quiet_def)

lemma page_inv_set_box [simp]:
  "page_inv (set_part_dom q (set_box_checked j v (part_dom q p)) p) = page_inv p"
  by (cases q) (simp_all add: page_inv_def quiet_def set_box_checked_def)

lemma page_inv_completedHandler: "page_inv p \<Longrightarrow> page_inv (completedHandler q k p)"
  by (cases q) (simp_all add: completedHandler_def Let_def page_inv_def quiet_def set_box_checked_def)

lemma page_inv_editHandler: "page_inv p \<Longrightarrow> bound (dom p) \<Longrightarrow> page_inv (editHandler Container i p)"
  unfolding editHandler_def part_dom_simps by (rule page_inv_update_label) simp_all

lemma page_inv_endEditHandler: "page_inv p \<Longrightarrow> page_inv (endEditHandler Container i p)"
  unfolding endEditHandler_def part_dom_simps by (rule page_inv_update_label) simp_all

lemma page_inv_label_blur: "page_inv p \<Longrightarrow> page_inv (label_blur Container i p)"
  by (simp add: label_blur_def page_inv_endEditHandler)

lemma page_inv_escOrEnterHandler: "page_inv p \<Longrightarrow> page_inv (escOrEnterHandler Container i k p)"
  by (simp add: escOrEnterHandler_def page_inv_label_blur)

lemma page_inv_deleteHandler: "page_inv p \<Longrightarrow> page_inv (deleteHandler index p)"
  unfolding deleteHandler_def Let_def
  by (rule page_inv_rendered) (auto simp: page_inv_def)

lemma dispatch_key_up:
  assumes "page_inv p"
  obtains v where "input_value (dom p) = Some v" and "plain_input v"
    and "dispatch (Key_up k) p =
           (if bound (dom p) \<and> k = 13
            then Inr (p\<lparr>model := (model p)\<lparr>todos := todos (model p) @ [v], text := []\<rparr>,
                        dom := view_render ((model p)\<lparr>todos := todos (model p) @ [v], text := []\<rparr>)\<rparr>)
            else if bound (dom p) then Inr (p\<lparr>model := (model p)\<lparr>text := v\<rparr>\<rparr>)
            else Inr p)"
proof -
  obtain v where v: "input_value (dom p) = Some v" and pv: "plain_input v"
    using assms by (rule page_inv_input)
  then show ?thesis
    by (intro that [OF v pv]) (simp add: inputHandler_enter inputHandler_other Let_def page_inv_doc [OF assms])
qed

lemma page_inv_key_up:
  assumes "page_inv p" and "dispatch (Key_up k) p = Inr p'"
  shows "page_inv p'"
proof -
  obtain v where v: "input_value (dom p) = Some v" and pv: "plain_input v"
    and d: "dispatch (Key_up k) p =
           (if bound (dom p) \<and> k = 13
            then Inr (p\<lparr>model := (model p)\<lparr>todos := todos (model p) @ [v], text := []\<rparr>,
                        dom := view_render ((model p)\<lparr>todos := todos (model p) @ [v], text := []\<rparr>)\<rparr>)
            else if bound (dom p) then Inr (p\<lparr>model := (model p)\<lparr>text := v\<rparr>\<rparr>)
            else Inr p)"
    using assms(1) by (rule dispatch_key_up)
  have "page_inv (p\<lparr>model := (model p)\<lparr>todos := todos (model p) @ [v], text := []\<rparr>,
                        dom := view_render ((model p)\<lparr>todos := todos (model p) @ [v], text := []\<rparr>)\<rparr>)"
    using assms(1) pv by (intro page_inv_rendered) (auto simp: page_inv_def plain_input_def plain_item_def)
  moreover have "page_inv (p\<lparr>model := (model p)\<lparr>text := v\<rparr>\<rparr>)"
    using assms(1) pv by (simp add: page_inv_def)
  ultimately show ?thesis using assms d by (auto split: if_splits)
qed

lemma dispatch_edit_label:
  assumes inv: "page_inv p" and ed: "label_editable i (dom p)"
  shows "dispatch (Edit_label i s) p =
           Inr (p\<lparr>dom := update_label i (\<lambda>l. l\<lparr>label_text := s\<rparr>) (dom p),
                  model := (model p)\<lparr>todos := (todos (model p))[i := s]\<rparr>\<rparr>)"
proof -
  have i: "i < length (labels (dom p))" using ed by (simp add: label_editable_def)
  have b: "bound (dom p)" using inv ed by (rule page_inv_bound_editable)
  have idx: "label_index (labels (dom p) ! i) = show_nat i" and lt: "i < length (todos (model p))"
    using page_inv_label_nth [OF inv i] by simp_all
  show ?thesis
    using ed b i idx lt
    by (simp add: Let_def labels_update_label input2Handler_def js_array_set_index page_inv_doc [OF inv])
qed

lemma page_inv_edit_label:
  assumes inv: "page_inv p" and ed: "label_editable i (dom p)" and s: "plain_item s"
  shows "page_inv (p\<lparr>dom := update_label i (\<lambda>l. l\<lparr>label_text := s\<rparr>) (dom p),
                     model := (model p)\<lparr>todos := (todos (model p))[i := s]\<rparr>\<rparr>)"
proof -
  have b: "bound (dom p)" using inv ed by (rule page_inv_bound_editable)
  have "map label_index ((labels (dom p))[i := (labels (dom p) ! i)\<lparr>label_text := s\<rparr>]) = map label_index (labels (dom p))"
    by (rule map_list_update_same) simp
  moreover have "map label_text ((labels (dom p))[i := (labels (dom p) ! i)\<lparr>label_text := s\<rparr>]) = (todos (model p))[i := s]"
    using inv by (simp add: page_inv_def map_update)
  moreover have "list_all plain_item ((todos (model p))[i := s])"
    using inv s by (auto simp: page_inv_def list_all_iff dest: in_set_list_update)
  ultimately show ?thesis
    using inv b by (auto simp: page_inv_def labels_update_label list_all_iff)
qed

lemma dispatch_page_inv:
  assumes inv: "page_inv p" and ok: "plain_action a" and d: "dispatch a p = Inr p'"
  shows "page_inv p'"
proof (cases a)
  case (Type s)
  with inv ok d show ?thesis by (auto simp: page_inv_def split: option.splits)
next
  case (Key_up k)
  with inv d show ?thesis by (simp add: page_inv_key_up)
next
  case (Toggle k)
  with inv d show ?thesis by (auto simp: Let_def page_inv_completedHandler split: if_splits prod.splits)
next
  case (Click_delete i)
  with inv d show ?thesis by (auto simp: page_inv_deleteHandler split: if_splits)
next
  case (Dbl_click i)
  with inv d show ?thesis by (auto simp: page_inv_editHandler split: if_splits)
next
  case (Edit_label i s)
  show ?thesis
  proof (cases "label_editable i (dom p)")
    case True
    with inv d Edit_label have "p' = p\<lparr>dom := update_label i (\<lambda>l. l\<lparr>label_text := s\<rparr>) (dom p),
                     model := (model p)\<lparr>todos := (todos (model p))[i := s]\<rparr>\<rparr>"
      by (simp add: dispatch_edit_label del: dispatch.simps)
    with page_inv_edit_label [OF inv True] ok Edit_label show ?thesis by simp
  next
    case False
    with d Edit_label show ?thesis by (simp add: page_inv_doc [OF inv])
  qed
next
  case (Key_press i k)
  with inv d show ?thesis by (auto simp: page_inv_escOrEnterHandler split: if_splits)
next
  case (Blur i)
  with inv d show ?thesis by (auto simp: page_inv_label_blur split: if_splits)
next
  case Tick
  obtain v where "input_value (dom p) = Some v" using inv by (rule page_inv_input)
  with Tick inv d show ?thesis by (auto simp: listen_tick_Some page_inv_bind split: if_splits)
qed

lemma reachable_host_page_inv:
  "reachable_under plain_action doc p \<Longrightarrow> quiet (host (page_init_in doc)) \<Longrightarrow> page_inv p"
proof (induction rule: reachable_under.induct)
  case (started p)
  then show ?case by (rule page_inv_started)
next
  case (stepped p a p')
  from stepped.IH [OF stepped.prems] stepped.hyps(2,3) show ?case by (rule dispatch_page_inv)
qed

lemma quiet_page_init_Nil [simp]: "quiet (host (page_init_in []))"
  using page_init_eq by (simp add: page_init_def)

lemma reachable_imp_page_inv: "reachable_under plain_action [] p \<Longrightarrow> page_inv p"
  by (erule reachable_host_page_inv [OF _ quiet_page_init_Nil])

lemma dispatch_Inl_No_target:
  assumes inv: "page_inv p" and d: "dispatch a p = Inl e"
  shows "e = No_target"
proof (cases a)
  case (Key_up k)
  obtain v where "input_value (dom p) = Some v" and "dispatch (Key_up k) p =
           (if bound (dom p) \<and> k = 13
            then Inr (p\<lparr>model := (model p)\<lparr>todos := todos (model p) @ [v], text := []\<rparr>,
                        dom := view_render ((model p)\<lparr>todos := todos (model p) @ [v], text := []\<rparr>)\<rparr>)
            else if bound (dom p) then Inr (p\<lparr>model := (model p)\<lparr>text := v\<rparr>\<rparr>)
            else Inr p)"
    using inv by (rule dispatch_key_up)
  with Key_up d show ?thesis by (simp split: if_splits)
next
  case (Edit_label i s)
  then show ?thesis
  proof (cases "label_editable i (dom p)")
    case True
    with inv d Edit_label show ?thesis by (simp add: dispatch_edit_label del: dispatch.simps)
  next
    case False
    with d Edit_label show ?thesis by (simp add: page_inv_doc [OF inv])
  qed
qed (use d in \<open>auto simp: Let_def page_inv_doc [OF inv] split: if_splits option.splits sum.splits prod.splits\<close>)

lemma reachable_run:
  "run as p = Inr p' \<Longrightarrow> list_all ok as \<Longrightarrow> reachable_under ok doc p \<Longrightarrow> reachable_under ok doc p'"
proof (induction as arbitrary: p)
  case Nil
  then show ?case by simp
next
  case (Cons a as)
  then obtain p1 where d: "dispatch a p = Inr p1" and r: "run as p1 = Inr p'"
    by (auto split: sum.splits)
  have "reachable_under ok doc p1" using Cons.prems d by (auto intro: reachable_under.stepped)
  with r Cons.prems(2) show ?case by (intro Cons.IH) simp_all
qed

lemma reachable_started: "reachable_under ok [] started_page"
  by (rule reachable_under.started [OF main_page_init_eq [unfolded page_init_def]])

lemma reachable_buy_milk:
  "reachable_under plain_action [] (fresh_page \<lparr>text = [], todos = [''buy milk'']\<rparr> False)"
proof (rule reachable_run [OF _ _ reachable_started])
  show "run [Tick, Type ''buy milk'', Key_up 13] (started_page) =
        Inr (fresh_page \<lparr>text = [], todos = [''buy milk'']\<rparr> False)"
    by (simp add: view_render_plain plain_model_def plain_item_def listen_tick_def inputHandler_def model_init_def
                  view_dom_def Let_def)
  show "list_all plain_action [Tick, Type ''buy milk'', Key_up 13]"
    by (simp add: plain_input_def plain_item_def)
qed

lemma reachable_buy_milk_bound:
  "reachable_under plain_action [] (fresh_page \<lparr>text = [], todos = [''buy milk'']\<rparr> True)"
proof (rule reachable_run [OF _ _ reachable_buy_milk])
  show "run [Tick] (fresh_page \<lparr>text = [], todos = [''buy milk'']\<rparr> False) =
        Inr (fresh_page \<lparr>text = [], todos = [''buy milk'']\<rparr> True)"
    by (simp add: view_render_plain plain_model_def plain_item_def listen_tick_def view_dom_def)
qed simp

lemma delete_buy_milk:
  "dispatch (Click_delete 0) (fresh_page \<lparr>text = [], todos = [''buy milk'']\<rparr> True) =
     Inr (fresh_page \<lparr>text = [], todos = []\<rparr> False)"
  by (simp add: view_render_plain plain_model_def plain_item_def deleteHandler_def view_dom_def Let_def)

text \<open>On a page of the invariant the interval's run attaches the listeners and changes nothing else.\<close>

lemma page_inv_quiet: "page_inv p \<Longrightarrow> quiet (host p)"
  by (simp add: page_inv_def)

lemma page_inv_tick:
  assumes "page_inv p"
  shows "dispatch Tick p = Inr (p\<lparr>host := (host p)\<lparr>bound := True\<rparr>, dom := (dom p)\<lparr>bound := True\<rparr>\<rparr>)"
proof -
  obtain v where "input_value (dom p) = Some v" using assms by (rule page_inv_input)
  with assms show ?thesis by (simp add: listen_tick_Some page_inv_doc [OF assms] page_inv_def)
qed

section \<open>Pages of a host document\<close>

text \<open>\<^verbatim>\<open>main\<close> on any host page: the host's elements are kept, without listeners.\<close>

lemma host_button_page:
  "host (page_init_in ''<button>Help</button>'') = dom_empty\<lparr>buttons := [''undefined'']\<rparr>"
  by (simp add: page_init_in_def tokenize_def raw_tokens_def tokenize_simps container_outside_def
      elements_of_def dom_empty_def text_input_value_def checkboxes_of_def labels_of_def buttons_of_def
      sel_matches_def dataset_index_def)

lemma host_checkbox_page:
  "host (page_init_in ''<input type=\"checkbox\">'') = dom_empty\<lparr>boxes := [False]\<rparr>"
  by (simp add: page_init_in_def tokenize_def raw_tokens_def tokenize_simps container_outside_def
      elements_of_def dom_empty_def text_input_value_def checkboxes_of_def labels_of_def buttons_of_def
      sel_matches_def dataset_index_def)

lemma host_text_page:
  "host (page_init_in ''<input id=\"text\">'') = dom_empty\<lparr>input_value := Some []\<rparr>"
  by (simp add: page_init_in_def tokenize_def raw_tokens_def tokenize_simps container_outside_def
      elements_of_def dom_empty_def text_input_value_def checkboxes_of_def labels_of_def buttons_of_def
      sel_matches_def dataset_index_def element_value_def)

text \<open>An item holding a character reference, rendered.\<close>

lemma view_render_amp_item:
  "view_render \<lparr>text = [], todos = [''x&amp;y'']\<rparr> =
     (view_dom \<lparr>text = [], todos = [''x&y'']\<rparr>)\<lparr>container_html := view_html \<lparr>text = [], todos = [''x&amp;y'']\<rparr>\<rparr>"
  using view_render_decoded [of "\<lparr>text = [], todos = [''x&amp;y'']\<rparr>"]
  by (simp add: markup_free_def decode_model_def decode_simps)

lemma main_page_init_in:
  "main (page_init_in doc) = Inr (started_page\<lparr>host := host (page_init_in doc)\<rparr>)"
  by (simp add: main_def development_def e_test_passes view_test_passes listen_def page_init_in_def dom_empty_def)

lemma reachable_host_checkbox:
  "reachable_under plain_action ''<input type=\"checkbox\">''
     ((fresh_page model_init True)\<lparr>host := dom_empty\<lparr>boxes := [False], bound := True\<rparr>\<rparr>)"
proof -
  let ?h = "dom_empty\<lparr>boxes := [False]\<rparr>"
  have r0: "reachable_under plain_action ''<input type=\"checkbox\">'' (started_page\<lparr>host := ?h\<rparr>)"
    using reachable_under.started [OF main_page_init_in, of plain_action "''<input type=\"checkbox\">''"]
      host_checkbox_page by simp
  have "run [Tick] (started_page\<lparr>host := ?h\<rparr>) =
          Inr ((fresh_page model_init True)\<lparr>host := ?h\<lparr>bound := True\<rparr>\<rparr>)"
    by (simp add: listen_tick_def view_render_plain plain_model_def plain_item_def model_init_def view_dom_def)
  then show ?thesis by (rule reachable_run [OF _ _ r0]) simp
qed

lemma quiet_host_checkbox_page: "quiet (host (page_init_in ''<input type=\"checkbox\">''))"
  using host_checkbox_page by (simp add: quiet_def)

text \<open>A page of the empty host page keeps a host part without elements.\<close>

lemma app_state_eqD:
  "app_state p = app_state p0 \<Longrightarrow> model p0 = model p \<and> dom p0 = dom p \<and> console p0 = console p \<and>
     timer p0 = timer p \<and> uncaught p0 = uncaught p"
  by (simp add: app_state_def)

lemma dispatch_app_state:
  assumes "quiet (host p)" and "quiet (host p0)" and "app_state p = app_state p0"
    and "\<And>k. a \<noteq> Toggle k"
  shows "map_sum id app_state (dispatch a p) = map_sum id app_state (dispatch a p0)"
proof (cases a)
  case (Toggle k)
  with assms(4) show ?thesis by blast
qed (use assms(1,2) app_state_eqD [OF assms(3)] in \<open>auto simp: app_state_def Let_def inputHandler_def
      deleteHandler_def editHandler_def endEditHandler_def label_blur_def escOrEnterHandler_def
      input2Handler_def listen_tick_def split: option.splits sum.splits if_splits\<close>)

lemma dispatch_toggle_app_state:
  assumes "quiet (host p)" and "boxes (host p0) = []" and "app_state p = app_state p0"
    and "dispatch (Toggle k) p = Inr p'"
  shows "app_state p' = app_state p \<or>
         (\<exists>p0'. dispatch (Toggle (k - length (boxes (host p)))) p0 = Inr p0' \<and> app_state p0' = app_state p')"
proof (cases "k < length (boxes (host p))")
  case True
  then have "app_state p' = app_state p"
    using assms(4) by (auto simp: app_state_def locate_def doc_boxes_def Let_def completedHandler_def split: if_splits)
  then show ?thesis ..
next
  case False
  let ?j = "k - length (boxes (host p))"
  have l: "locate (length (boxes (host p))) k = (Container, ?j)" using False by (simp add: locate_def)
  have e: "model p0 = model p" "dom p0 = dom p" "console p0 = console p" "timer p0 = timer p"
    "uncaught p0 = uncaught p" using app_state_eqD [OF assms(3)] by simp_all
  define f where "f q = (let q1 = q\<lparr>dom := set_box_checked ?j (\<not> box_checked ?j (dom q)) (dom q)\<rparr>
                         in if bound (dom q1) then completedHandler Container ?j q1 else q1)" for q
  have lt: "k < length (doc_boxes p)" using assms(4) by (simp split: if_splits)
  then have d: "dispatch (Toggle k) p = Inr (f p)" using l by (simp add: f_def Let_def)
  have "?j < length (boxes (dom p0))" using lt False e(2) by (simp add: doc_boxes_def)
  then have d0: "dispatch (Toggle ?j) p0 = Inr (f p0)" using assms(2) by (simp add: f_def Let_def)
  have "app_state (f p0) = app_state (f p)"
    using e by (simp add: f_def completedHandler_Container_fields Let_def app_state_def)
  with d d0 assms(4) show ?thesis by auto
qed

lemma reachable_Nil_host:
  "reachable_under ok [] p \<Longrightarrow> \<exists>b. host p = dom_empty\<lparr>bound := b\<rparr>"
proof (induction rule: reachable_under.induct)
  case (started p)
  then have "host p = dom_empty\<lparr>bound := False\<rparr>" using main_page_init_eq by (simp add: page_init_def)
  then show ?case by blast
next
  case (stepped p a p')
  then obtain b where h: "host p = dom_empty\<lparr>bound := b\<rparr>" by blast
  show ?case
  proof (cases a)
    case (Toggle k)
    with stepped.hyps(3) h show ?thesis by (auto simp: Let_def completedHandler_def split: if_splits)
  qed (use stepped.hyps(3) h in \<open>auto simp: Let_def listen_tick_def dest!: host_Inr
         split: if_splits option.splits sum.splits\<close>)
qed

section \<open>Properties of the running page\<close>

text \<open>
  C1: in every page reachable by plain actions from a host page whose markup outside the
  container has no text input, label or button (it may have checkboxes), the labels show
  the model's items in order, label \<open>i\<close> and delete button \<open>i\<close> carry the index \<open>i\<close> printed in decimal,
  the text input exists, no exception has been thrown, and a label is editable only while
  the listeners are attached (so every edit reaches the model).
\<close>

theorem reachable_page_inv:
  assumes "reachable_under plain_action doc p" and "quiet (host (page_init_in doc))"
  shows "map label_text (labels (dom p)) = todos (model p) \<and>
         map label_index (labels (dom p)) = map show_nat [0..<length (todos (model p))] \<and>
         buttons (dom p) = map show_nat [0..<length (todos (model p))] \<and>
         input_value (dom p) \<noteq> None \<and> uncaught p = [] \<and>
         list_all (\<lambda>l. editable l \<longrightarrow> bound (dom p)) (labels (dom p))"
  using reachable_host_page_inv [OF assms] by (auto simp: page_inv_def split: option.splits)

lemma reachable_page_inv_witness:
  "reachable_under plain_action [] (fresh_page \<lparr>text = [], todos = [''buy milk'']\<rparr> False) \<and>
   quiet (host (page_init_in [])) \<and>
   map label_text (labels (dom (fresh_page \<lparr>text = [], todos = [''buy milk'']\<rparr> False))) = [''buy milk''] \<and>
   buttons (dom (fresh_page \<lparr>text = [], todos = [''buy milk'']\<rparr> False)) = [''0'']"
  using reachable_buy_milk reachable_page_inv [OF reachable_buy_milk quiet_page_init_Nil] by simp

text \<open>
  C2: refinement. In every page reachable by plain actions from such a host page, the change an action makes to
  the item list is the abstract operation the action means: Enter appends the input's
  value, delete button \<open>i\<close> removes item \<open>i\<close>, an edit of label \<open>i\<close> replaces item
  \<open>i\<close>, everything else keeps the list.
\<close>

theorem dispatch_refines:
  assumes "reachable_under plain_action doc p" and "quiet (host (page_init_in doc))"
    and d: "dispatch a p = Inr p'"
  shows "todos (model p') = apply_op (abstract_action p a) (todos (model p))"
proof -
  have inv: "page_inv p" using assms(1,2) by (rule reachable_host_page_inv)
  show ?thesis
  proof (cases a)
    case (Key_up k)
    obtain v where "input_value (dom p) = Some v" and "dispatch (Key_up k) p =
           (if bound (dom p) \<and> k = 13
            then Inr (p\<lparr>model := (model p)\<lparr>todos := todos (model p) @ [v], text := []\<rparr>,
                        dom := view_render ((model p)\<lparr>todos := todos (model p) @ [v], text := []\<rparr>)\<rparr>)
            else if bound (dom p) then Inr (p\<lparr>model := (model p)\<lparr>text := v\<rparr>\<rparr>)
            else Inr p)"
      using inv by (rule dispatch_key_up)
    with Key_up d show ?thesis by (auto split: if_splits)
  next
    case (Click_delete i)
    with d inv show ?thesis
      by (auto simp: deleteHandler_def Let_def page_inv_buttons_nth split: if_splits)
  next
    case (Edit_label i s)
    show ?thesis
    proof (cases "label_editable i (dom p)")
      case True
      with inv d Edit_label have "p' = p\<lparr>dom := update_label i (\<lambda>l. l\<lparr>label_text := s\<rparr>) (dom p),
                     model := (model p)\<lparr>todos := (todos (model p))[i := s]\<rparr>\<rparr>"
        by (simp add: dispatch_edit_label del: dispatch.simps)
      with page_inv_bound_editable [OF inv True] Edit_label show ?thesis by simp
    next
      case False
      with d Edit_label show ?thesis by (simp add: page_inv_doc [OF inv])
    qed
  qed (use d in \<open>auto simp: Let_def listen_tick_def page_inv_doc [OF inv] split: if_splits option.splits sum.splits prod.splits\<close>)
qed

lemma dispatch_refines_witness:
  "reachable_under plain_action [] (fresh_page \<lparr>text = [], todos = [''buy milk'']\<rparr> True) \<and>
   quiet (host (page_init_in [])) \<and>
   dispatch (Click_delete 0) (fresh_page \<lparr>text = [], todos = [''buy milk'']\<rparr> True) =
     Inr (fresh_page \<lparr>text = [], todos = []\<rparr> False) \<and>
   todos (model (fresh_page \<lparr>text = [], todos = []\<rparr> False)) =
     apply_op (abstract_action (fresh_page \<lparr>text = [], todos = [''buy milk'']\<rparr> True) (Click_delete 0))
       [''buy milk'']"
  using reachable_buy_milk_bound delete_buy_milk
        dispatch_refines [OF reachable_buy_milk_bound quiet_page_init_Nil delete_buy_milk]
  by simp

text \<open>
  C3: no action on a page reachable by plain actions fails except by missing its target;
  in particular the label edit handler never takes the branch past the end of the list
  (\<open>Array_holes\<close>), although nothing in it checks the index, and reading the text
  input never throws.
\<close>

theorem reachable_dispatch_errors:
  assumes "reachable_under plain_action [] p" and "dispatch a p = Inl e"
  shows "e = No_target"
  using reachable_imp_page_inv [OF assms(1)] assms(2) by (rule dispatch_Inl_No_target)

lemma reachable_dispatch_errors_witness:
  "reachable_under plain_action [] (fresh_page \<lparr>text = [], todos = [''buy milk'']\<rparr> True) \<and>
   dispatch (Click_delete 5) (fresh_page \<lparr>text = [], todos = [''buy milk'']\<rparr> True) = Inl No_target"
proof -
  have d: "dispatch (Click_delete 5) (fresh_page \<lparr>text = [], todos = [''buy milk'']\<rparr> True) = Inl No_target"
    by (simp add: view_render_plain plain_model_def plain_item_def view_dom_def)
  show ?thesis
    using reachable_buy_milk_bound d reachable_dispatch_errors [OF reachable_buy_milk_bound d] by simp
qed

text \<open>
  C8: \<^verbatim>\<open>main\<close> runs both self-tests without an exception, logging their two messages,
  renders the empty model (an empty text input, no item) and starts the listener
  interval; no listener is attached yet.
\<close>

theorem main_page_init:
  "\<exists>p. main page_init = Inr p \<and> console p = started_console \<and> model p = model_init \<and>
       input_value (dom p) = Some [] \<and> labels (dom p) = [] \<and> buttons (dom p) = [] \<and>
       boxes (dom p) = [False] \<and> timer p \<and> \<not> bound (dom p) \<and> uncaught p = []"
  using main_page_init_eq
  by (simp add: view_render_plain plain_model_def plain_item_def model_init_def view_dom_def)

text \<open>
  C9: once the interval has run, Enter in the text input always adds the input's value to
  the list and clears the model's text: a run of the interval followed by a delivered
  Enter means the document's first \<^verbatim>\<open>#text\<close> element existed, and its value is appended.
\<close>

theorem enter_after_tick_appends:
  assumes "dispatch Tick p = Inr p1" and "dispatch (Key_up 13) p1 = Inr p2"
  shows "\<exists>v. doc_input p = Some v \<and> todos (model p2) = todos (model p) @ [v] \<and> text (model p2) = []"
proof (cases "doc_input p")
  case None
  then have "p1 = p\<lparr>uncaught := uncaught p @ [Type_error]\<rparr>"
    using assms(1) by (simp add: listen_tick_def split: if_splits)
  with None assms(2) show ?thesis by simp
next
  case (Some v)
  then have "p1 = p\<lparr>host := (host p)\<lparr>bound := True\<rparr>, dom := (dom p)\<lparr>bound := True\<rparr>\<rparr>"
    using assms(1) by (simp add: listen_tick_Some split: if_splits)
  with Some assms(2) show ?thesis
    by (auto simp: inputHandler_def doc_input_def input_part_def part_dom_def Let_def split: if_splits)
qed

lemma enter_after_tick_appends_witness:
  "dispatch Tick ((started_page)\<lparr>dom := (view_render model_init)\<lparr>input_value := Some ''buy milk''\<rparr>\<rparr>) =
     Inr ((fresh_page model_init False)\<lparr>dom := (view_render model_init)\<lparr>input_value := Some ''buy milk'', bound := True\<rparr>\<rparr>) \<and>
   dispatch (Key_up 13) ((fresh_page model_init False)\<lparr>dom := (view_render model_init)\<lparr>input_value := Some ''buy milk'', bound := True\<rparr>\<rparr>) =
     Inr (fresh_page \<lparr>text = [], todos = [''buy milk'']\<rparr> False) \<and>
   todos (model (fresh_page \<lparr>text = [], todos = [''buy milk'']\<rparr> False)) = [] @ [''buy milk''] \<and>
   text (model (fresh_page \<lparr>text = [], todos = [''buy milk'']\<rparr> False)) = []"
proof -
  have t: "dispatch Tick ((started_page)\<lparr>dom := (view_render model_init)\<lparr>input_value := Some ''buy milk''\<rparr>\<rparr>) =
     Inr ((fresh_page model_init False)\<lparr>dom := (view_render model_init)\<lparr>input_value := Some ''buy milk'', bound := True\<rparr>\<rparr>)"
    by (simp add: listen_tick_def)
  have k: "dispatch (Key_up 13) ((fresh_page model_init False)\<lparr>dom := (view_render model_init)\<lparr>input_value := Some ''buy milk'', bound := True\<rparr>\<rparr>) =
     Inr (fresh_page \<lparr>text = [], todos = [''buy milk'']\<rparr> False)"
    by (simp add: inputHandler_enter model_init_def Let_def)
  show ?thesis using t k enter_after_tick_appends [OF t k] by (simp add: model_init_def)
qed

text \<open>
  C13: the spec says an item's checkbox always reverts to unchecked, but between a render
  and the next run of the interval the new checkboxes have no listener: a click on an
  item's checkbox right after the item was added leaves it checked.
\<close>

theorem toggle_unbound_stays_checked:
  "\<exists>p p'. reachable_under plain_action [] p \<and> dispatch (Toggle 1) p = Inr p' \<and> box_checked 1 (dom p')"
proof -
  have "dispatch (Toggle 1) (fresh_page \<lparr>text = [], todos = [''buy milk'']\<rparr> False) =
      Inr ((fresh_page \<lparr>text = [], todos = [''buy milk'']\<rparr> False)\<lparr>dom :=
             (view_dom \<lparr>text = [], todos = [''buy milk'']\<rparr>)\<lparr>boxes := [False, True]\<rparr>\<rparr>)"
    by (simp add: view_render_plain plain_model_def plain_item_def view_dom_def box_checked_def set_box_checked_def)
  moreover have "box_checked 1 ((view_dom \<lparr>text = [], todos = [''buy milk'']\<rparr>)\<lparr>boxes := [False, True]\<rparr>)"
    by (simp add: box_checked_def)
  ultimately show ?thesis using reachable_buy_milk by fastforce
qed

text \<open>
  C14: the text input is re-rendered from \<^verbatim>\<open>value='${data.text}'\<close> without escaping:
  after a delete while the input holds \<open>it's\<close>, the model's text is \<open>it's\<close> but the
  input shows \<open>it\<close>, and the next key press copies the truncated value into the model.
\<close>

theorem apostrophe_truncates_input:
  "\<exists>p. reachable p \<and> text (model p) = ''it's'' \<and> input_value (dom p) = Some ''it''"
proof -
  have apos: "view_render \<lparr>text = ''it's'', todos = []\<rparr> = (view_dom \<lparr>text = ''it's'', todos = []\<rparr>)\<lparr>input_value := Some ''it''\<rparr>"
    by (rule view_render_apos [of "''it''" "''s''"]) (simp_all add: is_letter_def plain_item_def)
  have "reachable (fresh_page \<lparr>text = ''it's'', todos = []\<rparr> False)"
  proof (rule reachable_run [OF _ _ reachable_started])
    show "run [Tick, Type ''a'', Key_up 13, Tick, Type ''it's'', Key_up 0, Click_delete 0]
            (started_page) = Inr (fresh_page \<lparr>text = ''it's'', todos = []\<rparr> False)"
      by (simp add: view_render_plain plain_model_def plain_item_def listen_tick_def inputHandler_def deleteHandler_def
                    model_init_def view_dom_def Let_def)
  qed simp
  moreover have "input_value (dom (fresh_page \<lparr>text = ''it's'', todos = []\<rparr> False)) = Some ''it''"
    by (simp add: apos)
  ultimately show ?thesis by fastforce
qed

text \<open>
  C15: an Enter pressed before the interval's first run after a render is lost: the
  keyup has no listener yet, so the typed text is not added.
\<close>

theorem enter_before_tick_lost:
  "\<exists>p p'. reachable_under plain_action [] p \<and> input_value (dom p) = Some ''buy milk'' \<and>
          dispatch (Key_up 13) p = Inr p' \<and> todos (model p') = todos (model p)"
proof -
  let ?p = "(started_page)\<lparr>dom := (view_render model_init)\<lparr>input_value := Some ''buy milk''\<rparr>\<rparr>"
  have "reachable_under plain_action [] ?p"
  proof (rule reachable_run [OF _ _ reachable_started])
    show "run [Type ''buy milk''] (started_page) = Inr ?p"
      by (simp add: view_render_plain plain_model_def plain_item_def model_init_def view_dom_def)
  qed (simp add: plain_input_def plain_item_def)
  moreover have "dispatch (Key_up 13) ?p = Inr ?p"
    by (simp add: view_render_plain plain_model_def plain_item_def model_init_def view_dom_def)
  ultimately show ?thesis by fastforce
qed

text \<open>
  C17: an item is interpolated into the label without escaping, so an item containing
  markup adds elements: after adding the item \<^verbatim>\<open>x</label><label data-index = '7'>y\<close>,
  the page shows two labels, the second carrying the forged index 7, and editing it makes
  the edit handler write element 7 of a one-element list, the branch that leaves holes in
  the array (\<open>Array_holes\<close>).
\<close>

theorem injected_label_writes_past_end:
  "\<exists>p. reachable p \<and> todos (model p) = [''x</label><label data-index = '' @ [apos] @ ''7'' @ [apos] @ ''>y''] \<and>
       dispatch (Edit_label 1 ''z'') p = Inl Array_holes"
proof -
  let ?m = "\<lparr>text = [], todos = [''x</label><label data-index = '' @ [apos] @ ''7'' @ [apos] @ ''>y'']\<rparr>"
  let ?p = "(fresh_page ?m True)\<lparr>dom := (view_render ?m)\<lparr>bound := True,
              labels := [\<lparr>label_index = ''0'', label_text = ''x'', editable = False\<rparr>,
                         \<lparr>label_index = ''7'', label_text = ''y'', editable = True\<rparr>]\<rparr>\<rparr>"
  have "reachable ?p"
  proof (rule reachable_run [OF _ _ reachable_started])
    show "run [Tick, Type (''x</label><label data-index = '' @ [apos] @ ''7'' @ [apos] @ ''>y''), Key_up 13, Tick, Dbl_click 1]
            (started_page) = Inr ?p"
      by (simp add: view_render_plain plain_model_def plain_item_def listen_tick_def inputHandler_def model_init_def
                    view_dom_def view_render_evil [simplified] editHandler_def update_label_def Let_def)
  qed simp
  moreover have "dispatch (Edit_label 1 ''z'') ?p = Inl Array_holes"
    by (simp add: view_render_evil [simplified] label_editable_def update_label_def input2Handler_def js_array_set_def
                  array_index_def is_digit_def digits_value_def digit_value_def)
  ultimately show ?thesis by fastforce
qed

text \<open>
  C18: a text containing \<^verbatim>\<open>' y="\<close> freezes the page. It is the value of the text
  input's single-quoted attribute: the apostrophe ends the value and the double quote opens
  a new attribute value that runs to the end of the markup, so the browser drops the text
  input together with the list. The next run of the interval throws on
  \<^verbatim>\<open>$('#text')[0]\<close> before it attaches any listener.
\<close>

theorem quote_freezes_page:
  "\<exists>p. reachable p \<and> frozen p \<and> todos (model p) = [''b''] \<and>
       dispatch Tick p = Inr (p\<lparr>uncaught := [Type_error]\<rparr>)"
proof -
  let ?m = "\<lparr>text = ''x'' @ [apos] @ '' y='' @ [CHR 0x22] @ ''q'', todos = [''b'']\<rparr>"
  have dq: "view_render ?m =
     \<lparr>container_html = view_html ?m, input_value = None, boxes = [False], labels = [], buttons = [], bound = False\<rparr>"
    by (rule view_render_dq [of "''x''" "''q''"]) simp_all
  have "reachable (fresh_page ?m False)"
  proof (rule reachable_run [OF _ _ reachable_started])
    show "run [Tick, Type ''a'', Key_up 13, Tick, Type ''b'', Key_up 13, Tick,
               Type (''x'' @ [apos] @ '' y='' @ [CHR 0x22] @ ''q''), Key_up 0, Click_delete 0]
            (started_page) = Inr (fresh_page ?m False)"
      by (simp add: view_render_plain plain_model_def plain_item_def listen_tick_def inputHandler_def deleteHandler_def
                    model_init_def view_dom_def Let_def)
  qed simp
  moreover have "frozen (fresh_page ?m False)" by (simp add: frozen_def dq [simplified])
  moreover have "dispatch Tick (fresh_page ?m False) = Inr ((fresh_page ?m False)\<lparr>uncaught := [Type_error]\<rparr>)"
    by (simp add: listen_tick_def dq [simplified])
  ultimately show ?thesis by fastforce
qed

text \<open>
  C19: nothing brings a frozen page back: every action either has no target or leaves the
  page frozen and the model unchanged (a click on the remaining checkbox only checks it).
\<close>

theorem frozen_forever:
  assumes "frozen p" and "dispatch a p = Inr p'"
  shows "frozen p' \<and> model p' = model p"
  using assms
  by (cases a) (auto simp: frozen_def set_box_checked_def listen_tick_def label_editable_def Let_def
      doc_input_def input_part_def doc_labels_def doc_buttons_def doc_boxes_def locate_def
      completedHandler_def split: if_splits)

lemma frozen_forever_witness:
  "frozen \<lparr>model = \<lparr>text = [], todos = [''b'']\<rparr>,
           dom = \<lparr>container_html = [], input_value = None, boxes = [False], labels = [], buttons = [], bound = False\<rparr>,
           host = dom_empty, alerts = [], console = [], timer = True, uncaught = []\<rparr> \<and>
   dispatch (Toggle 0) \<lparr>model = \<lparr>text = [], todos = [''b'']\<rparr>,
           dom = \<lparr>container_html = [], input_value = None, boxes = [False], labels = [], buttons = [], bound = False\<rparr>,
           host = dom_empty, alerts = [], console = [], timer = True, uncaught = []\<rparr> =
     Inr \<lparr>model = \<lparr>text = [], todos = [''b'']\<rparr>,
           dom = \<lparr>container_html = [], input_value = None, boxes = [True], labels = [], buttons = [], bound = False\<rparr>,
           host = dom_empty, alerts = [], console = [], timer = True, uncaught = []\<rparr> \<and>
   frozen \<lparr>model = \<lparr>text = [], todos = [''b'']\<rparr>,
           dom = \<lparr>container_html = [], input_value = None, boxes = [True], labels = [], buttons = [], bound = False\<rparr>,
           host = dom_empty, alerts = [], console = [], timer = True, uncaught = []\<rparr>"
proof -
  have f: "frozen \<lparr>model = \<lparr>text = [], todos = [''b'']\<rparr>,
           dom = \<lparr>container_html = [], input_value = None, boxes = [False], labels = [], buttons = [], bound = False\<rparr>,
           host = dom_empty, alerts = [], console = [], timer = True, uncaught = []\<rparr>"
    by (simp add: frozen_def doc_input_def input_part_def doc_labels_def doc_buttons_def dom_empty_def)
  have d: "dispatch (Toggle 0) \<lparr>model = \<lparr>text = [], todos = [''b'']\<rparr>,
           dom = \<lparr>container_html = [], input_value = None, boxes = [False], labels = [], buttons = [], bound = False\<rparr>,
           host = dom_empty, alerts = [], console = [], timer = True, uncaught = []\<rparr> =
     Inr \<lparr>model = \<lparr>text = [], todos = [''b'']\<rparr>,
           dom = \<lparr>container_html = [], input_value = None, boxes = [True], labels = [], buttons = [], bound = False\<rparr>,
           host = dom_empty, alerts = [], console = [], timer = True, uncaught = []\<rparr>"
    by (simp add: set_box_checked_def box_checked_def doc_boxes_def dom_empty_def locate_def)
  show ?thesis using f d frozen_forever [OF f d] by simp
qed

text \<open>
  C20: editing an item: on a page reachable by plain actions with the listeners attached,
  a double click on label \<open>i\<close>, typing \<open>s\<close> into it and Enter replace item \<open>i\<close> by
  \<open>s\<close> in the model, and leave the label showing \<open>s\<close> and no longer editable.
\<close>

theorem edit_label_then_enter:
  assumes "reachable_under plain_action [] p" and "bound (dom p)" and "i < length (todos (model p))"
    and "plain_item s"
  shows "\<exists>p'. run [Dbl_click i, Edit_label i s, Key_press i 13] p = Inr p' \<and>
              todos (model p') = (todos (model p))[i := s] \<and>
              label_text (labels (dom p') ! i) = s \<and> \<not> editable (labels (dom p') ! i)"
proof -
  have inv: "page_inv p" using assms(1) by (rule reachable_imp_page_inv)
  then have len: "length (labels (dom p)) = length (todos (model p))"
    by (simp add: page_inv_def) (metis length_map)
  let ?p1 = "editHandler Container i p"
  have d1: "dispatch (Dbl_click i) p = Inr ?p1" using assms(2,3) len by (simp add: page_inv_doc [OF inv])
  have inv1: "page_inv ?p1" using inv assms(2) by (rule page_inv_editHandler)
  have ed1: "label_editable i (dom ?p1)"
    using assms(3) len by (simp add: editHandler_def label_editable_def labels_update_label)
  let ?p2 = "?p1\<lparr>dom := update_label i (\<lambda>l. l\<lparr>label_text := s\<rparr>) (dom ?p1),
                  model := (model ?p1)\<lparr>todos := (todos (model ?p1))[i := s]\<rparr>\<rparr>"
  have d2: "dispatch (Edit_label i s) ?p1 = Inr ?p2" using inv1 ed1 by (rule dispatch_edit_label)
  have ed2: "label_editable i (dom ?p2)"
    using ed1 by (simp add: label_editable_def labels_update_label)
  have b2: "bound (dom ?p2)" using assms(2) by (simp add: editHandler_def)
  let ?p3 = "endEditHandler Container i ?p2"
  have d3: "dispatch (Key_press i 13) ?p2 = Inr ?p3"
    using ed2 b2 by (simp add: escOrEnterHandler_def label_blur_def page_inv_doc [OF inv])
  have "run [Dbl_click i, Edit_label i s, Key_press i 13] p = Inr ?p3" using d1 d2 d3 by simp
  moreover have "todos (model ?p3) = (todos (model p))[i := s]" by simp
  moreover have "label_text (labels (dom ?p3) ! i) = s \<and> \<not> editable (labels (dom ?p3) ! i)"
    using assms(3) len by (simp add: endEditHandler_def editHandler_def labels_update_label)
  ultimately show ?thesis by blast
qed

lemma edit_label_then_enter_witness:
  "reachable_under plain_action [] (fresh_page \<lparr>text = [], todos = [''buy milk'']\<rparr> True) \<and>
   plain_item ''buy bread'' \<and>
   (\<exists>p'. run [Dbl_click 0, Edit_label 0 ''buy bread'', Key_press 0 13]
            (fresh_page \<lparr>text = [], todos = [''buy milk'']\<rparr> True) = Inr p' \<and>
         todos (model p') = [''buy bread''])"
  using reachable_buy_milk_bound edit_label_then_enter [OF reachable_buy_milk_bound, of 0 "''buy bread''"]
  by (simp add: plain_item_def del: run.simps) blast

text \<open>
  C21: checkbox \<open>k\<close> of the document, of the host page or of the container, clicked while
  its listener is attached always ends unchecked, leaves the model alone, and shows the
  alert exactly when the click checked it.
\<close>

theorem toggle_with_listeners_reverts:
  assumes "k < length (doc_boxes p)" and "locate (length (boxes (host p))) k = (q, j)"
    and "bound (part_dom q p)"
  shows "\<exists>p'. dispatch (Toggle k) p = Inr p' \<and> model p' = model p \<and> \<not> box_checked j (part_dom q p') \<and>
              alerts p' = alerts p @ (if box_checked j (part_dom q p) then [] else [italian_alert])"
  using assms
  by (cases q) (auto simp: locate_def doc_boxes_def completedHandler_def box_checked_def
      set_box_checked_def Let_def split: if_splits)

lemma toggle_with_listeners_reverts_witness:
  "1 < length (doc_boxes (fresh_page \<lparr>text = [], todos = [''buy milk'']\<rparr> True)) \<and>
   locate (length (boxes (host (fresh_page \<lparr>text = [], todos = [''buy milk'']\<rparr> True)))) 1 = (Container, 1) \<and>
   bound (part_dom Container (fresh_page \<lparr>text = [], todos = [''buy milk'']\<rparr> True)) \<and>
   (\<exists>p'. dispatch (Toggle 1) (fresh_page \<lparr>text = [], todos = [''buy milk'']\<rparr> True) = Inr p' \<and>
         alerts p' = [italian_alert])"
  using toggle_with_listeners_reverts [of 1 "fresh_page \<lparr>text = [], todos = [''buy milk'']\<rparr> True" Container 1]
  by (simp add: view_render_plain plain_model_def plain_item_def view_dom_def box_checked_def doc_boxes_def
      del: dispatch.simps) blast

text \<open>
  On every page a delivered action that ends normally changes the length of the list by
  at most one: Enter adds one item, a delete removes at most one, a label edit replaces an
  item or appends one at the end; the edit past the end, which JavaScript answers by
  growing the array with holes, is the error \<open>Array_holes\<close> here.
\<close>

lemma dispatch_length_step:
  assumes "dispatch a p = Inr p'"
  shows "length (todos (model p)) - 1 \<le> length (todos (model p')) \<and>
         length (todos (model p')) \<le> Suc (length (todos (model p)))"
proof (cases a)
  case (Key_up k)
  with assms show ?thesis
    by (auto simp: inputHandler_def Let_def split: option.splits if_splits)
next
  case (Click_delete i)
  with assms have "length (todos (model p)) - 1 \<le> length (todos (model p')) \<and>
                   length (todos (model p')) \<le> length (todos (model p))"
    using length_js_splice1_bounds [of "todos (model p)"]
    by (auto simp: deleteHandler_def Let_def split: if_splits prod.splits)
  then show ?thesis by simp
next
  case (Edit_label i s)
  with assms show ?thesis
    by (auto simp: Let_def input2Handler_def dest: length_js_array_set split: if_splits sum.splits prod.splits)
qed (use assms in \<open>auto simp: Let_def listen_tick_def split: if_splits option.splits sum.splits prod.splits\<close>)

text \<open>
  C26: on a page reachable by plain actions, whatever the user does, the list grows or
  shrinks by at most one item: every delivered action either misses its target or ends
  with a list at most one longer or shorter. The edit past the end, which would grow the
  array by more, never happens there.
\<close>

theorem dispatch_length_bounds:
  assumes "reachable_under plain_action [] p"
  shows "(case dispatch a p of
            Inl e \<Rightarrow> e = No_target
          | Inr p' \<Rightarrow> length (todos (model p)) - 1 \<le> length (todos (model p')) \<and>
                      length (todos (model p')) \<le> Suc (length (todos (model p))))"
proof (cases "dispatch a p")
  case (Inl e)
  then show ?thesis using dispatch_Inl_No_target [OF reachable_imp_page_inv [OF assms]] by simp
next
  case (Inr p')
  then show ?thesis using dispatch_length_step [OF Inr] by simp
qed

lemma dispatch_length_bounds_witness:
  "reachable_under plain_action [] (fresh_page \<lparr>text = [], todos = [''buy milk'']\<rparr> True) \<and>
   dispatch (Click_delete 0) (fresh_page \<lparr>text = [], todos = [''buy milk'']\<rparr> True) =
     Inr (fresh_page \<lparr>text = [], todos = []\<rparr> False) \<and>
   length [''buy milk''] - 1 \<le> length (todos (model (fresh_page \<lparr>text = [], todos = []\<rparr> False)))"
  using reachable_buy_milk_bound delete_buy_milk
        dispatch_length_bounds [OF reachable_buy_milk_bound, of "Click_delete 0"] by simp

text \<open>
  C27: a page reachable by plain actions never stays unresponsive: the next run of the
  interval attaches the listeners and leaves the model alone.
\<close>

theorem tick_attaches_listeners:
  assumes "reachable_under plain_action [] p"
  shows "\<exists>p'. dispatch Tick p = Inr p' \<and> bound (dom p') \<and> model p' = model p"
proof -
  have inv: "page_inv p" using assms by (rule reachable_imp_page_inv)
  then obtain v where "input_value (dom p) = Some v" by (rule page_inv_input)
  moreover have "timer p" using inv by (simp add: page_inv_def)
  ultimately show ?thesis by (simp add: listen_tick_Some page_inv_doc [OF inv])
qed

lemma tick_attaches_listeners_witness:
  "reachable_under plain_action [] (fresh_page \<lparr>text = [], todos = [''buy milk'']\<rparr> False) \<and>
   (\<exists>p'. dispatch Tick (fresh_page \<lparr>text = [], todos = [''buy milk'']\<rparr> False) = Inr p' \<and> bound (dom p'))"
  using reachable_buy_milk tick_attaches_listeners [OF reachable_buy_milk] by blast

text \<open>
  C28: with the listeners attached, every delete button of a page reachable by plain
  actions works: it removes its own item and renders the rest.
\<close>

theorem delete_button_removes:
  assumes "reachable_under plain_action [] p" and "bound (dom p)" and "i < length (todos (model p))"
  shows "\<exists>p'. dispatch (Click_delete i) p = Inr p' \<and>
              todos (model p') = take i (todos (model p)) @ drop (Suc i) (todos (model p)) \<and>
              dom p' = view_render (model p')"
proof -
  have inv: "page_inv p" using assms(1) by (rule reachable_imp_page_inv)
  then have b: "buttons (dom p) = map show_nat [0..<length (todos (model p))]" by (simp add: page_inv_def)
  with assms(2,3) show ?thesis by (simp add: deleteHandler_def Let_def page_inv_doc [OF inv])
qed

lemma delete_button_removes_witness:
  "reachable_under plain_action [] (fresh_page \<lparr>text = [], todos = [''buy milk'']\<rparr> True) \<and>
   (\<exists>p'. dispatch (Click_delete 0) (fresh_page \<lparr>text = [], todos = [''buy milk'']\<rparr> True) = Inr p' \<and>
         todos (model p') = [])"
  using reachable_buy_milk_bound
        delete_button_removes [OF reachable_buy_milk_bound, of 0]
  by (simp del: dispatch.simps) blast

text \<open>
  C31: the listeners go to every button of the document, not only the container's. On a
  host page with a button of its own, a click on that button once the interval has run
  calls \<^verbatim>\<open>deleteHandler\<close>; the button has no \<^verbatim>\<open>data-index\<close>, the
  \<^verbatim>\<open>undefined\<close> index converts to 0, and the first item of the list is deleted.
\<close>

theorem host_button_deletes_first:
  "\<exists>p p'. reachable_under (\<lambda>a. True) ''<button>Help</button>'' p \<and> todos (model p) = [''a'', ''b''] \<and>
          dispatch (Click_delete 0) p = Inr p' \<and> todos (model p') = [''b'']"
proof -
  let ?h = "dom_empty\<lparr>buttons := [''undefined'']\<rparr>"
  let ?start = "started_page\<lparr>host := ?h\<rparr>"
  let ?p = "(fresh_page \<lparr>text = [], todos = [''a'', ''b'']\<rparr> False)\<lparr>host := ?h\<lparr>bound := True\<rparr>\<rparr>"
  have r0: "reachable_under (\<lambda>a. True) ''<button>Help</button>'' ?start"
    using reachable_under.started [OF main_page_init_in, of "\<lambda>a. True" "''<button>Help</button>''"] host_button_page by simp
  have "run [Tick, Type ''a'', Key_up 13, Tick, Type ''b'', Key_up 13] ?start = Inr ?p"
    by (simp add: view_render_plain plain_model_def plain_item_def listen_tick_def inputHandler_def model_init_def
                  view_dom_def Let_def)
  then have r: "reachable_under (\<lambda>a. True) ''<button>Help</button>'' ?p"
    by (rule reachable_run [OF _ _ r0]) simp
  have "dispatch (Click_delete 0) ?p = Inr ((fresh_page \<lparr>text = [], todos = [''b'']\<rparr> False)\<lparr>host := ?h\<lparr>bound := True\<rparr>\<rparr>)"
    by (simp add: view_render_plain plain_model_def plain_item_def view_dom_def doc_buttons_def locate_def deleteHandler_def
                  js_to_integer_def is_digit_def Let_def)
  with r show ?thesis by fastforce
qed

text \<open>
  C32: likewise every checkbox of the document gets \<^verbatim>\<open>completedHandler\<close>. On a host
  page with a checkbox of its own, reachable by plain actions, a click on it once the
  interval has run shows the alert and unchecks it: the page's own checkbox can never be
  checked, while the list is left alone.
\<close>

theorem host_checkbox_reverted:
  "\<exists>p p'. reachable_under plain_action ''<input type=\"checkbox\">'' p \<and> \<not> box_checked 0 (host p) \<and>
          dispatch (Toggle 0) p = Inr p' \<and> \<not> box_checked 0 (host p') \<and>
          alerts p' = alerts p @ [italian_alert] \<and> model p' = model p"
proof -
  let ?p = "(fresh_page model_init True)\<lparr>host := dom_empty\<lparr>boxes := [False], bound := True\<rparr>\<rparr>"
  have "dispatch (Toggle 0) ?p = Inr (?p\<lparr>alerts := [italian_alert]\<rparr>)"
    by (simp add: doc_boxes_def locate_def completedHandler_def box_checked_def set_box_checked_def Let_def)
  with reachable_host_checkbox show ?thesis by (fastforce simp: box_checked_def)
qed


text \<open>
  C33: simulation. A host page whose markup outside the container has checkboxes but no text
  input, label or button changes nothing for the program: every page reachable by plain
  actions from it has the same model, container, console, interval and reported
  exceptions as a page reachable by plain actions from the empty page. A click on a host
  checkbox is a stuttering step; a click on container checkbox \<open>k\<close> is the click on
  checkbox \<open>k\<close> of the empty page; every other action is the same action there.
\<close>

theorem quiet_host_simulation:
  assumes "reachable_under plain_action doc p" and "quiet (host (page_init_in doc))"
  shows "\<exists>p0. reachable_under plain_action [] p0 \<and> app_state p0 = app_state p"
  using assms
proof (induction rule: reachable_under.induct)
  case (started p)
  then have "p = started_page\<lparr>host := host (page_init_in doc)\<rparr>" using main_page_init_in by simp
  then show ?case using reachable_started [of plain_action] by (auto simp: app_state_def)
next
  case (stepped p a p')
  obtain p0 where r0: "reachable_under plain_action [] p0" and e: "app_state p0 = app_state p"
    using stepped.IH stepped.prems by blast
  have q: "quiet (host p)" using reachable_host_page_inv [OF stepped.hyps(1) stepped.prems] by (simp add: page_inv_def)
  obtain b where h0: "host p0 = dom_empty\<lparr>bound := b\<rparr>" using reachable_Nil_host [OF r0] by blast
  show ?case
  proof (cases "\<exists>k. a = Toggle k")
    case True
    then obtain k where a: "a = Toggle k" by blast
    from dispatch_toggle_app_state [OF q _ e [symmetric]] h0 stepped.hyps(3) a
    consider "app_state p' = app_state p"
      | p0' where "dispatch (Toggle (k - length (boxes (host p)))) p0 = Inr p0'" "app_state p0' = app_state p'"
      by auto
    then show ?thesis
    proof cases
      case 1
      with r0 e show ?thesis by auto
    next
      case 2
      have "reachable_under plain_action [] p0'" using reachable_under.stepped [OF r0 _ 2(1)] by simp
      with 2(2) show ?thesis by blast
    qed
  next
    case False
    then have "map_sum id app_state (dispatch a p) = map_sum id app_state (dispatch a p0)"
      using q h0 e by (intro dispatch_app_state) auto
    with stepped.hyps(3) obtain p0' where d: "dispatch a p0 = Inr p0'" and "app_state p0' = app_state p'"
      by (cases "dispatch a p0") auto
    with reachable_under.stepped [OF r0 stepped.hyps(2) d] show ?thesis by blast
  qed
qed

lemma quiet_host_simulation_witness:
  "reachable_under plain_action ''<input type=\"checkbox\">''
     ((fresh_page model_init True)\<lparr>host := dom_empty\<lparr>boxes := [False], bound := True\<rparr>\<rparr>) \<and>
   quiet (host (page_init_in ''<input type=\"checkbox\">'')) \<and>
   (\<exists>p0. reachable_under plain_action [] p0 \<and>
      app_state p0 = app_state ((fresh_page model_init True)\<lparr>host := dom_empty\<lparr>boxes := [False], bound := True\<rparr>\<rparr>))"
  using reachable_host_checkbox quiet_host_checkbox_page
        quiet_host_simulation [OF reachable_host_checkbox quiet_host_checkbox_page] by blast


text \<open>
  C34: \<^verbatim>\<open>$('#text')[0]\<close> is the first element with id \<^verbatim>\<open>text\<close> in the whole
  document. On a host page with a text input of its own with that id, the keyup listener
  goes to the host's input: typing a word there and pressing Enter adds it to the list,
  while the program's own input stays empty.
\<close>

theorem host_text_input_captures:
  "\<exists>p. reachable_under plain_action ''<input id=\"text\">'' p \<and> todos (model p) = [''search''] \<and>
       input_value (host p) = Some ''search'' \<and> input_value (dom p) = Some []"
proof -
  let ?h = "dom_empty\<lparr>input_value := Some []\<rparr>"
  let ?p = "(fresh_page \<lparr>text = [], todos = [''search'']\<rparr> False)\<lparr>host := ?h\<lparr>input_value := Some ''search'', bound := True\<rparr>\<rparr>"
  have r0: "reachable_under plain_action ''<input id=\"text\">'' (started_page\<lparr>host := ?h\<rparr>)"
    using reachable_under.started [OF main_page_init_in, of plain_action "''<input id=\"text\">''"]
      host_text_page by simp
  have "run [Tick, Type ''search'', Key_up 13] (started_page\<lparr>host := ?h\<rparr>) = Inr ?p"
    by (simp add: listen_tick_def inputHandler_def doc_input_def input_part_def view_render_plain
        plain_model_def plain_item_def model_init_def view_dom_def Let_def)
  then have "reachable_under plain_action ''<input id=\"text\">'' ?p"
    by (rule reachable_run [OF _ _ r0]) (simp add: plain_input_def plain_item_def)
  then show ?thesis by (auto simp: view_render_plain plain_model_def plain_item_def view_dom_def)
qed


text \<open>
  C35: the user can always add an item: from every page reachable by plain actions (from a
  host page as in C1), waiting for the interval, typing any string \<open>s\<close> into the text
  input and pressing Enter appends \<open>s\<close> to the list and clears the model's text.
\<close>

theorem add_item_always:
  assumes "reachable_under plain_action doc p" and "quiet (host (page_init_in doc))"
  shows "\<exists>p'. run [Tick, Type s, Key_up 13] p = Inr p' \<and>
              todos (model p') = todos (model p) @ [s] \<and> text (model p') = []"
proof -
  have inv: "page_inv p" using assms by (rule reachable_host_page_inv)
  let ?p1 = "p\<lparr>host := (host p)\<lparr>bound := True\<rparr>, dom := (dom p)\<lparr>bound := True\<rparr>\<rparr>"
  have r: "run [Tick, Type s, Key_up 13] p = run [Type s, Key_up 13] ?p1"
    using page_inv_tick [OF inv] by (simp del: dispatch.simps)
  have "quiet (host ?p1)" using page_inv_quiet [OF inv] by (simp add: quiet_def)
  moreover obtain v where "input_value (dom p) = Some v" using inv by (rule page_inv_input)
  ultimately show ?thesis unfolding r by (simp add: inputHandler_def Let_def)
qed

lemma add_item_always_witness:
  "reachable_under plain_action [] (fresh_page \<lparr>text = [], todos = [''buy milk'']\<rparr> False) \<and>
   quiet (host (page_init_in [])) \<and>
   (\<exists>p'. run [Tick, Type ''eggs'', Key_up 13] (fresh_page \<lparr>text = [], todos = [''buy milk'']\<rparr> False) = Inr p' \<and>
         todos (model p') = [''buy milk'', ''eggs''])"
  using reachable_buy_milk quiet_page_init_Nil
        add_item_always [OF reachable_buy_milk quiet_page_init_Nil, of "''eggs''"]
  by (simp del: run.simps) blast

text \<open>
  C36: the user can always delete an item: from every page reachable by plain actions (from
  a host page as in C1), waiting for the interval and clicking delete button \<open>i\<close>
  removes item \<open>i\<close>.
\<close>

theorem delete_item_always:
  assumes "reachable_under plain_action doc p" and "quiet (host (page_init_in doc))"
    and "i < length (todos (model p))"
  shows "\<exists>p'. run [Tick, Click_delete i] p = Inr p' \<and>
              todos (model p') = take i (todos (model p)) @ drop (Suc i) (todos (model p))"
proof -
  have inv: "page_inv p" using assms(1,2) by (rule reachable_host_page_inv)
  let ?p1 = "p\<lparr>host := (host p)\<lparr>bound := True\<rparr>, dom := (dom p)\<lparr>bound := True\<rparr>\<rparr>"
  have r: "run [Tick, Click_delete i] p = run [Click_delete i] ?p1"
    using page_inv_tick [OF inv] by (simp del: dispatch.simps)
  have "quiet (host ?p1)" using page_inv_quiet [OF inv] by (simp add: quiet_def)
  moreover have "buttons (dom p) = map show_nat [0..<length (todos (model p))]"
    using inv by (simp add: page_inv_def)
  ultimately show ?thesis unfolding r using assms(3) page_inv_quiet [OF inv]
    by (simp add: deleteHandler_def Let_def)
qed

lemma delete_item_always_witness:
  "reachable_under plain_action [] (fresh_page \<lparr>text = [], todos = [''buy milk'']\<rparr> False) \<and>
   quiet (host (page_init_in [])) \<and> 0 < length (todos (model (fresh_page \<lparr>text = [], todos = [''buy milk'']\<rparr> False))) \<and>
   (\<exists>p'. run [Tick, Click_delete 0] (fresh_page \<lparr>text = [], todos = [''buy milk'']\<rparr> False) = Inr p' \<and>
         todos (model p') = [])"
  using reachable_buy_milk quiet_page_init_Nil
        delete_item_always [OF reachable_buy_milk quiet_page_init_Nil, of 0]
  by (simp del: run.simps)


text \<open>
  C38: the item list keeps what was typed, the labels show it decoded, and an edit writes
  the label's decoded text back. An item typed as \<^verbatim>\<open>x&amp;y\<close> is shown as
  \<^verbatim>\<open>x&y\<close>; appending \<^verbatim>\<open>!\<close> to it in the label stores \<^verbatim>\<open>x&y!\<close>, so an
  edit that only adds a character also rewrites the rest of the item.
\<close>

theorem amp_item_rewritten_by_edit:
  "\<exists>p p'. reachable_under (\<lambda>a. True) [] p \<and> todos (model p) = [''x&amp;y''] \<and>
          label_text (labels (dom p) ! 0) = ''x&y'' \<and>
          run [Dbl_click 0, Edit_label 0 ''x&y!''] p = Inr p' \<and> todos (model p') = [''x&y!'']"
proof -
  let ?p = "(fresh_page \<lparr>text = [], todos = [''x&amp;y'']\<rparr> True)"
  have "run [Tick, Type ''x&amp;y'', Key_up 13, Tick] started_page = Inr ?p"
    by (simp add: view_render_plain plain_model_def plain_item_def listen_tick_def inputHandler_def
        model_init_def view_dom_def Let_def view_render_amp_item)
  then have r: "reachable_under (\<lambda>a. True) [] ?p"
    by (rule reachable_run [OF _ _ reachable_started]) simp
  have "run [Dbl_click 0, Edit_label 0 ''x&y!''] ?p =
          Inr (?p\<lparr>dom := update_label 0 (\<lambda>l. l\<lparr>label_text := ''x&y!''\<rparr>)
                          (update_label 0 (\<lambda>l. l\<lparr>editable := True\<rparr>) (dom ?p)),
                  model := \<lparr>text = [], todos = [''x&y!'']\<rparr>\<rparr>)"
    by (simp add: view_render_amp_item view_dom_def editHandler_def update_label_def label_editable_def
        input2Handler_def js_array_set_index [of 0 "[''x&amp;y'']", simplified] Let_def)
  with r show ?thesis by (auto simp: view_render_amp_item view_dom_def)
qed

end
