(* ===== verification/Spec2Isabelle.thy ===== *)
theory Spec2Isabelle
  imports App
begin

text \<open>
  \<^bold>\<open>A verification library for the vanilla ES2015 todo list (\<^verbatim>\<open>src/app.js\<close>).\<close>

  \<^medskip>\<^bold>\<open>The program.\<close> One script of 180 lines. A shared mutable \<^verbatim>\<open>model\<close>
  (input text and the list of items) is rendered by \<^verbatim>\<open>view.render\<close>, which writes the
  markup of \<^verbatim>\<open>templateBody\<close> into a container's \<^verbatim>\<open>innerHTML\<close>; the markup is built by
  the tagged-template engine \<^verbatim>\<open>e.html\<close>, which interpolates the model without escaping.
  Seven handlers of \<^verbatim>\<open>intent\<close> react to browser events, change the model and, for
  structural changes, render again. Because a render replaces every element,
  \<^verbatim>\<open>intent.listen\<close> re-attaches the handlers every 100 ms. \<^verbatim>\<open>main\<close> first runs two
  inline self-tests (\<^verbatim>\<open>e.test\<close>, \<^verbatim>\<open>view.test\<close>, through the small library
  \<^verbatim>\<open>test\<close>), renders and starts the interval.

  \<^medskip>\<^bold>\<open>Theories and what they model.\<close>
  \<^item> \<open>Prelude\<close>: the error type (\<open>Test_failed\<close> for the exception of \<^verbatim>\<open>test.ok\<close>,
    \<open>Type_error\<close> for a property read on \<^verbatim>\<open>undefined\<close>, \<open>Array_holes\<close> for the one
    JavaScript branch not represented, \<open>No_target\<close> for an event with no element to
    receive it) and the ECMAScript built-ins the script calls, written from the language
    specification: decimal printing of numbers (\<open>show_nat\<close>), \<open>ToNumber\<close> of a
    \<^verbatim>\<open>data-index\<close> (\<open>js_to_integer\<close>), \<^verbatim>\<open>splice(start, 1)\<close> (\<open>js_splice1\<close>),
    \<^verbatim>\<open>indexOf\<close> as the specification's loop kept as a loop (\<open>indexOf_loop\<close>, a
    \<open>while_option\<close>, and \<open>js_indexOf\<close>) and element assignment with a string key
    (\<open>js_array_set\<close>); with their evaluation rules
    (collection \<open>js_simps\<close>), the round trip \<open>digits_value (show_nat n) = n\<close> and list
    lemmas shared by the components.
  \<^item> \<open>Test_Lib\<close>: \<^verbatim>\<open>test.ok\<close>, \<^verbatim>\<open>test.equal\<close>, \<^verbatim>\<open>test.notEqual\<close> over a console
    (the list of logged messages) with the exception as a value of \<open>error + console\<close>.
  \<^item> \<open>Template\<close>: the JavaScript values the templates interpolate (\<open>jsval\<close>),
    \<open>ToString\<close> and \<^verbatim>\<open>join\<close>, \<^verbatim>\<open>e.html\<close> as \<open>e_html\<close> (index-based, as in the
    source, out-of-range reads giving \<^verbatim>\<open>undefined\<close>) and \<^verbatim>\<open>e.test\<close> as
    \<open>e_test\<close>; the commented-out comprehension version as \<open>e_html_comprehension\<close>;
    the reference meaning of a template literal, \<open>template_concat\<close>.
  \<^item> \<open>Html_Reading\<close>: how the browser reads the markup assigned to \<^verbatim>\<open>innerHTML\<close>
    (not code of the repository, written from the HTML standard): a character-level
    tokenizer \<open>raw_tokens\<close> (state machine \<open>tstep\<close> folded over the string),
    the decoding of character references in text and attribute values
    (\<open>decode_refs\<close>, \<open>decode_token\<close>; \<open>tokenize\<close> is both) and the
    stack of open elements (\<open>open_after\<close>, \<open>well_nested\<close>).
  \<^item> \<open>Query\<close>: the helper \<^verbatim>\<open>$\<close> as \<open>query_all\<close> over the elements of the token
    list, with the selectors the program uses (\<open>selector\<close>: id, attribute value, tag),
    and the reads of the results: checkboxes (\<^verbatim>\<open>[type=checkbox]\<close>), labels with their
    \<^verbatim>\<open>data-index\<close> and \<^verbatim>\<open>textContent\<close>, buttons with their \<^verbatim>\<open>data-index\<close>, and
    the value of \<^verbatim>\<open>#text\<close>. Lines 10--12, the container's lookup or creation:
    the first \<^verbatim>\<open>#container\<close> element of the host page, if any, is taken out of the
    rest of the page with its content (\<open>remove_first\<close>, \<open>skip_element\<close>,
    \<open>container_outside\<close>); \<^verbatim>\<open>appendChild\<close> puts the container last in the body,
    so every other element of the page comes before it in document order.
  \<^item> \<open>View\<close>: the record \<open>model\<close>, the three templates (\<open>todo_item_html\<close>,
    \<open>footer_html\<close>, \<open>templateBody\<close> with the literal text of the source, style
    block included), \<^verbatim>\<open>view.html\<close>, \<^verbatim>\<open>view.test\<close>, and \<^verbatim>\<open>view.render\<close> as
    \<open>view_render\<close>: the elements (record \<open>dom\<close>, read by \<open>elements_of\<close>) the
    browser builds from the markup, all fresh (the program's markup checks no box and
    makes no label editable; no listeners). For a model without markup
    (\<open>markup_free\<close>: no apostrophe in the text, no \<^verbatim>\<open><\<close> in an item) the render
    is \<open>view_dom\<close> of the model with its character references decoded
    (\<open>decode_model\<close>), and of the model itself when it has no \<^verbatim>\<open>&\<close>
    either (\<open>plain_model\<close>), proved
    by running the tokenizer symbolically over the markup, segment by segment; three
    markups with unescaped model content are evaluated the same way.
  \<^item> \<open>Intent\<close>: the state of the page (record \<open>page\<close>: model, the container's
    elements, the host page's other elements, alerts, console, interval started,
    exceptions reported). The document is the host part followed by the container
    (\<open>part\<close>, \<open>doc_boxes\<close>, \<open>doc_labels\<close>, \<open>doc_buttons\<close>, \<open>doc_input\<close>):
    \<^verbatim>\<open>$\<close> queries the whole document, and a position in a query's result is
    located in its part by \<open>locate\<close>. One definition per handler
    (\<open>inputHandler\<close>, \<open>completedHandler\<close>, \<open>deleteHandler\<close>, \<open>editHandler\<close>,
    \<open>input2Handler\<close>, \<open>endEditHandler\<close>, \<open>escOrEnterHandler\<close> with the
    \<^verbatim>\<open>blur()\<close> it triggers), \<^verbatim>\<open>listen\<close> and one run of its interval
    (\<open>listen_tick\<close>, which throws without a \<^verbatim>\<open>#text\<close> element), and \<open>dispatch\<close>:
    the browser's delivery of a user action (\<open>action\<close>) to the handler the interval
    attached for that element and event, or to nobody if the interval has not run since
    the last render.
  \<^item> \<open>App\<close>: \<^verbatim>\<open>main\<close>, the initial page on a host page (\<open>page_init_in\<close>; the
    empty page is \<open>page_init\<close>), the pages reachable from a host page under a class of
    actions (\<open>reachable_under\<close>, inductive: what \<^verbatim>\<open>main\<close> produces, closed under
    delivered actions of the class; \<open>reachable\<close> for all actions, \<open>plain_action\<close> for the actions
    that type no markup and no character reference), the invariant \<open>page_inv\<close>, the abstract specification of the
    list (\<open>todo_op\<close>, \<open>apply_op\<close>) with the abstraction of an action
    (\<open>abstract_action\<close>), what the program itself holds of a page (\<open>app_state\<close>:
    the page without its host part and alerts), the frozen pages (\<open>frozen\<close>) and runs of actions (\<open>run\<close>).

  \<^medskip>\<^bold>\<open>What is proved.\<close>
  \<^item> Invariant (C1): on every page reachable by plain actions from a host page whose
    markup outside the container has no text input, label or button (\<open>quiet\<close>;
    checkboxes are allowed), the labels are the model's
    items in order, label and button \<open>i\<close> carry the index \<open>i\<close>, the text input exists,
    nothing has thrown and a label is editable only while listeners are attached; by rule
    induction over \<open>reachable_under\<close>, one preservation lemma per handler.
  \<^item> Refinement (C2): on the same pages, every delivered plain action changes the list exactly as its
    abstract operation (append, remove at a position, replace at a position, keep).
  \<^item> Errors (C3, C12): on those pages no action fails except for want of a target; the
    edit handler itself has no bound check and would write past the end (C12), which the
    invariant rules out.
  \<^item> Template engine (C4, C5, C22): \<open>e_html\<close> equals the reference meaning of
    template literals; the self-test's property holds for every string; the comprehension
    version kept in a comment (\<open>e_html_comprehension\<close>) agrees with it on every call
    with more pieces than values, and only there.
  \<^item> View (C6, C7, C16): every item appears in the markup as a label with its index and
    a delete button with the same index; the footer's singular, plural and absent forms;
    for a plain model the browser reads back the items, their positions as indices and the
    text; for a model without markup whose character references are of the kinds
    the tokenizer decodes as the browser does (\<open>refs_decodable\<close>) they are its items
    and text with the references decoded (C37).
  \<^item> Start-up (C8): both self-tests pass and the empty list is rendered.
  \<^item> Handlers (C9--C11): after a run of the interval Enter always appends; a delete
    removes the item at its index (nothing for an index past the end); the completion
    handler never changes the model and always unchecks its box.
  \<^item> Label keys and typing (C23, C24): a keypress on a label being edited ends the edit
    exactly for Enter and Escape (the \<^verbatim>\<open>indexOf\<close> test, whose loop is a
    \<open>while_option\<close> shown to stop by a measure) and changes nothing else; typing into the
    text input and releasing another key copies its value into the model's text only.
  \<^item> Markup (C25, C29): the markup of a plain model is well nested; an interpolated array
    is joined without separator.
  \<^item> Bounds and liveness (C26--C28): on pages reachable by plain actions every delivered
    action, plain or not, misses its target or changes the list's length by at most one
    (the edit past the end, which JavaScript answers by growing the array, never happens
    there); on pages reachable by plain actions the next interval run attaches the listeners,
    and every delete button then removes its own item. From every such page (on a host page
    as in C1) the user can always add any string by waiting for the interval, typing and
    pressing Enter (C35), and delete any item by waiting and clicking its button (C36).
  \<^item> Scenarios (C20, C21): with listeners attached, double click, typing and Enter on a
    label replace its item and end the editing; a checkbox click ends unchecked, with the
    alert exactly when it checked the box.
  \<^item> Findings (C13--C15, C17--C19): a checkbox clicked before the interval runs stays
    checked; an apostrophe in the input is cut off by the next render; an Enter pressed
    before the interval runs is lost; an item containing markup forges a label whose edit
    writes past the end of the list; a text containing \<^verbatim>\<open>' y="\<close> makes the browser
    drop the input and the list, after which every run of the interval throws and no action
    changes the model again.
  \<^item> Container lookup (C30): an existing \<^verbatim>\<open>#container\<close> is found and the rest of the
    page is what surrounds it; without one, the whole page stays.
  \<^item> Simulation (C33): a host page with checkboxes but no text input, label or button
    changes nothing for the program: every page reachable from it by plain actions has the
    \<open>app_state\<close> of a page reachable from the empty page (host checkbox clicks are
    stuttering steps, container checkbox \<open>k\<close> is shifted by the number of host
    checkboxes), so C1 and C2, stated for such pages, are the empty page's invariant and
    refinement carried over.
  \<^item> Host-page findings (C31, C32, C34): the queries and listeners cover the whole
    document, so a button of the host page deletes the first item, a checkbox of the host
    page can never be checked, and a host input with id \<^verbatim>\<open>text\<close> takes the place of
    the program's own input.
  \<^item> Character references (C38): an item typed as \<^verbatim>\<open>x&amp;y\<close> is kept as typed
    and shown as \<^verbatim>\<open>x&y\<close>; editing its label writes the shown text back, so an
    edit that only appends a character also changes the rest of the item.

  \<^medskip>\<^bold>\<open>Modelling choices.\<close> No fuel or bounds are needed: every handler is
  straight-line code, every loop of the source is a \<^verbatim>\<open>map\<close>, \<^verbatim>\<open>join\<close> or
  \<^verbatim>\<open>forEach\<close> over a finite list, and the tokenizer is a fold over the markup, all
  modelled by structural recursion; the only unbounded loop is the 100 ms interval, which
  is the action \<open>Tick\<close> and may occur any number of times in a run. Numbers are indices
  and lengths, unbounded naturals (array indices below \<open>2^32 - 1\<close> are assumed). Focus
  is not tracked: a label's keypress, input and blur need only that it is editable, which
  over-approximates the user and is sound for the invariants.

  \<^medskip>\<^bold>\<open>Not modelled.\<close> Of the host page only the elements the program queries are
  kept, with their attributes as written (a checkbox starts checked when its markup has a
  \<^verbatim>\<open>checked\<close> attribute); the \<^verbatim>\<open>contenteditable\<close> attribute is not read, so a
  label starts non-editable. End tags are matched
  by depth when the container is taken out. The tokenizer decodes the named references \<^verbatim>\<open>amp\<close>, \<^verbatim>\<open>lt\<close>,
  \<^verbatim>\<open>gt\<close>, \<^verbatim>\<open>quot\<close>, \<^verbatim>\<open>apos\<close> and numeric references to ASCII
  characters; it leaves the other named references (more than two thousand, a table of
  the standard rather than behaviour of the program) and numeric references beyond
  ASCII (the model's characters are bytes) as written, so the invariant C1 is stated
  for plain actions, which type no \<^verbatim>\<open>&\<close> into an item. It leaves out comments that
  end at \<^verbatim>\<open>-->\<close>, raw-text elements and the tree builder beyond the nesting of
  elements; the markup the program produces needs none of them (the \<^verbatim>\<open>style\<close>
  block contains no \<^verbatim>\<open><\<close>). The \<^verbatim>\<open>value\<close> property is modelled for inputs only. An assignment
  that leaves holes in the array is not represented (\<open>Array_holes\<close> stops the model):
  sparse arrays would change the type of the model for a state that only markup injected
  through an item reaches (C17); on pages reachable by plain actions it never occurs (C3).
  The conversions of a button's \<^verbatim>\<open>data-index\<close> by \<^verbatim>\<open>splice\<close>
  (\<open>js_to_integer\<close>) are exact for strings of decimal digits and for a missing
  attribute (\<^verbatim>\<open>undefined\<close>, 0); other strings (a sign, spaces, a fraction) are taken as
  0, where JavaScript would convert them as numbers: only buttons of the host page or
  forged through an item carry such strings. The selector \<^verbatim>\<open>[type=checkbox]\<close> also
  matches host elements that are not inputs; they are given a checked state that a click
  flips, which a browser would not show.
  The \<^verbatim>\<open>alert\<close> is a log entry (its blocking is invisible to the single-threaded model).
  Timing is abstract: the interval's period only orders \<open>Tick\<close> among the actions.
\<close>

end
